(* ===== verification/Energy_Prelude.thy ===== *)
theory Energy_Prelude
  imports Complex_Main "HOL-Library.Product_Lexorder" "HOL-Library.Multiset"
begin

text \<open>
  Shared material of the development: the type synonyms for the grouping keys of the
  dashboard (\<open>year_month\<close> for \<^verbatim>\<open>groupby(['year', 'month'])\<close>, \<open>day\<close> for the
  \<^verbatim>\<open>date\<close> column), the collection \<open>frame_defs\<close> of definitions that are unfolded when a
  table is evaluated on concrete rows, and the generic facts on lists, multisets and
  sums that the component theories share: sums of the two ends of a sorted list, the
  partition of a list into the groups of its keys, the bounds of an arithmetic and of a
  weighted mean, and the order of the first components of a sorted list of pairs.
  \<open>then_sum\<close> runs a computation that may raise after another: the first exception is
  the result. \<open>then_out\<close> does the same for computations that also write a list of
  outputs: the outputs written before an exception are kept (\<open>emit\<close> writes one output,
  \<open>quiet\<close> writes none); the laws of a monad hold for it, and forgetting the outputs
  gives \<open>then_sum\<close>.
\<close>

named_theorems frame_defs "definitions of the table operations, unfolded to evaluate a table"

type_synonym year_month = "int \<times> nat"
type_synonym day = "int \<times> nat \<times> nat"

definition then_sum :: "'e + 'a \<Rightarrow> ('a \<Rightarrow> 'e + 'b) \<Rightarrow> 'e + 'b" where
  "then_sum r f = (case r of Inl e \<Rightarrow> Inl e | Inr v \<Rightarrow> f v)"

lemma then_sum_simps [simp]:
  "then_sum (Inl e) f = Inl e"
  "then_sum (Inr v) f = f v"
  by (simp_all add: then_sum_def)

lemma then_sum_eq_Inr_iff: "then_sum r f = Inr y \<longleftrightarrow> (\<exists>v. r = Inr v \<and> f v = Inr y)"
  by (cases r) simp_all

lemma then_sum_eq_Inl_iff: "then_sum r f = Inl e \<longleftrightarrow> r = Inl e \<or> (\<exists>v. r = Inr v \<and> f v = Inl e)"
  by (cases r) simp_all

type_synonym ('w, 'e, 'a) out = "'w list \<times> ('e + 'a)"

definition quiet :: "'e + 'a \<Rightarrow> ('w, 'e, 'a) out" where
  "quiet r = ([], r)"

definition emit :: "'w \<Rightarrow> ('w, 'e, unit) out" where
  "emit w = ([w], Inr ())"

definition then_out :: "('w, 'e, 'a) out \<Rightarrow> ('a \<Rightarrow> ('w, 'e, 'b) out) \<Rightarrow> ('w, 'e, 'b) out" where
  "then_out m f =
     (case m of (ws, r) \<Rightarrow> (case r of Inl e \<Rightarrow> (ws, Inl e) | Inr v \<Rightarrow> apfst ((@) ws) (f v)))"

lemma then_out_simps [simp]:
  "then_out (ws, Inl e) f = (ws, Inl e)"
  "then_out (ws, Inr v) f = apfst ((@) ws) (f v)"
  "then_out (quiet (Inl e)) f = ([], Inl e)"
  "then_out (quiet (Inr v)) f = f v"
  "then_out (emit w) g = apfst ((#) w) (g ())"
  by (simp_all add: then_out_def quiet_def emit_def apfst_def map_prod_def split: prod.splits)

lemma then_out_return [simp]: "then_out m (\<lambda>v. quiet (Inr v)) = m"
  by (cases m) (auto simp: then_out_def quiet_def split: sum.splits)

lemma then_out_assoc: "then_out (then_out m f) g = then_out m (\<lambda>v. then_out (f v) g)"
  by (cases m) (auto simp: then_out_def apfst_def map_prod_def split: sum.splits prod.splits)

lemma then_out_emit_assoc:
  "then_out (then_out (emit w) (\<lambda>u. m)) f = then_out (emit w) (\<lambda>u. then_out m f)"
  by (rule then_out_assoc)

lemma snd_then_out: "snd (then_out m f) = then_sum (snd m) (\<lambda>v. snd (f v))"
  by (cases m) (auto simp: then_out_def split: sum.splits)

lemma fst_then_out_Inr: "snd m = Inr v \<Longrightarrow> fst (then_out m f) = fst m @ fst (f v)"
  by (cases m) (auto simp: then_out_def)

lemma fst_then_out_Inl: "snd m = Inl e \<Longrightarrow> fst (then_out m f) = fst m"
  by (cases m) (auto simp: then_out_def)

lemma sum_list_take_le_drop:
  fixes xs :: "'a::{linorder, ordered_comm_monoid_add} list"
  assumes "sorted xs" and "k \<le> length xs"
  shows "sum_list (take k xs) \<le> sum_list (drop (length xs - k) xs)"
proof (rule sum_list_mono2)
  show "length (take k xs) = length (drop (length xs - k) xs)"
    using assms(2) by simp
next
  fix i
  show "i < length (take k xs) \<longrightarrow> take k xs ! i \<le> drop (length xs - k) xs ! i"
    using assms by (auto intro: sorted_nth_mono)
qed

lemma mset_concat_groups:
  assumes "distinct ks"
  shows "mset (concat (map (\<lambda>k. filter (\<lambda>r. f r = Some k) rs) ks))
       = mset (filter (\<lambda>r. f r \<in> Some ` set ks) rs)"
  using assms
proof (induction ks)
  case Nil
  then show ?case by simp
next
  case (Cons k ks)
  have "mset (filter (\<lambda>r. f r \<in> Some ` set (k # ks)) rs)
      = mset (filter (\<lambda>r. f r = Some k) rs) + mset (filter (\<lambda>r. f r \<in> Some ` set ks) rs)"
    using Cons.prems by (induction rs) auto
  with Cons show ?case by simp
qed

lemma sum_list_concat_groups:
  fixes g :: "'r \<Rightarrow> 'a::comm_monoid_add"
  assumes "distinct ks"
  shows "(\<Sum>k\<leftarrow>ks. \<Sum>r\<leftarrow>filter (\<lambda>r. f r = Some k) rs. g r)
       = (\<Sum>r\<leftarrow>filter (\<lambda>r. f r \<in> Some ` set ks) rs. g r)"
proof -
  have "(\<Sum>k\<leftarrow>ks. \<Sum>r\<leftarrow>filter (\<lambda>r. f r = Some k) rs. g r)
      = sum_list (map g (concat (map (\<lambda>k. filter (\<lambda>r. f r = Some k) rs) ks)))"
    by (induction ks) simp_all
  also have "\<dots> = sum_mset (image_mset g (mset (concat (map (\<lambda>k. filter (\<lambda>r. f r = Some k) rs) ks))))"
    by (simp only: sum_mset_sum_list [symmetric] mset_map)
  also have "\<dots> = sum_mset (image_mset g (mset (filter (\<lambda>r. f r \<in> Some ` set ks) rs)))"
    by (simp only: mset_concat_groups [OF assms])
  also have "\<dots> = (\<Sum>r\<leftarrow>filter (\<lambda>r. f r \<in> Some ` set ks) rs. g r)"
    by (simp only: sum_mset_sum_list [symmetric] mset_map)
  finally show ?thesis .
qed

lemma sum_list_ge_length_times:
  fixes xs :: "real list"
  assumes "\<forall>x\<in>set xs. a \<le> x"
  shows "real (length xs) * a \<le> sum_list xs"
  using assms by (induction xs) (auto simp: algebra_simps)

lemma sum_list_le_length_times:
  fixes xs :: "real list"
  assumes "\<forall>x\<in>set xs. x \<le> b"
  shows "sum_list xs \<le> real (length xs) * b"
  using assms by (induction xs) (auto simp: algebra_simps)

lemma mean_bounds:
  fixes xs :: "real list"
  assumes "xs \<noteq> []" and "\<forall>x\<in>set xs. a \<le> x \<and> x \<le> b"
  shows "a \<le> sum_list xs / real (length xs) \<and> sum_list xs / real (length xs) \<le> b"
proof -
  have n: "0 < real (length xs)" using assms(1) by simp
  from assms(2) have "real (length xs) * a \<le> sum_list xs" "sum_list xs \<le> real (length xs) * b"
    by (simp_all add: sum_list_ge_length_times sum_list_le_length_times)
  with n show ?thesis by (simp add: field_simps)
qed

lemma same_elem_mset_eq:
  assumes "\<forall>x\<in>set as. x = k" and "\<forall>x\<in>set bs. x = k" and "mset as = mset bs"
  shows "as = bs"
proof -
  from assms(3) have "length as = length bs"
    by (rule mset_eq_length)
  moreover have "replicate (length as) k = as" "replicate (length bs) k = bs"
    by (rule replicate_length_same [OF assms(1)], rule replicate_length_same [OF assms(2)])
  ultimately show ?thesis by metis
qed

lemma sort_key_inj_unique:
  assumes "inj f" and "mset ys = mset xs" and "sorted (map f ys)"
  shows "sort_key f xs = ys"
proof (rule properties_for_sort_key)
  fix k
  show "filter (\<lambda>x. f k = f x) ys = filter (\<lambda>x. f k = f x) xs"
  proof (rule same_elem_mset_eq [of _ k])
    show "\<forall>x\<in>set (filter (\<lambda>x. f k = f x) ys). x = k"
      using assms(1) by (auto dest: injD)
    show "\<forall>x\<in>set (filter (\<lambda>x. f k = f x) xs). x = k"
      using assms(1) by (auto dest: injD)
    show "mset (filter (\<lambda>x. f k = f x) ys) = mset (filter (\<lambda>x. f k = f x) xs)"
      by (simp only: mset_filter assms(2))
  qed
qed (fact assms)+

lemma sorted_map_Pair [simp]: "sorted (map (Pair (c::'c::linorder)) xs) = sorted xs"
  by (induction xs) auto

section \<open>Weighted sums of reals\<close>

lemma sum_list_filter_split:
  fixes f :: "'a \<Rightarrow> 'b::comm_monoid_add"
  shows "(\<Sum>x\<leftarrow>xs. f x) = (\<Sum>x\<leftarrow>filter P xs. f x) + (\<Sum>x\<leftarrow>filter (\<lambda>x. \<not> P x) xs. f x)"
  by (induction xs) (simp_all add: ac_simps)

lemma weighted_sum_bounds:
  fixes w p :: "'a \<Rightarrow> real"
  assumes "\<forall>x\<in>set xs. 0 \<le> w x \<and> lo \<le> p x \<and> p x \<le> hi"
  shows "lo * (\<Sum>x\<leftarrow>xs. w x) \<le> (\<Sum>x\<leftarrow>xs. w x * p x) \<and> (\<Sum>x\<leftarrow>xs. w x * p x) \<le> hi * (\<Sum>x\<leftarrow>xs. w x)"
  using assms
proof (induction xs)
  case Nil
  then show ?case by simp
next
  case (Cons x xs)
  then have "lo * w x \<le> p x * w x" "p x * w x \<le> hi * w x"
    by (simp_all add: mult_right_mono)
  with Cons show ?case
    by (simp add: algebra_simps)
qed

lemma weighted_mean_bounds:
  fixes w p :: "'a \<Rightarrow> real"
  assumes "\<forall>x\<in>set xs. 0 \<le> w x \<and> lo \<le> p x \<and> p x \<le> hi" and "0 < (\<Sum>x\<leftarrow>xs. w x)"
  shows "lo \<le> (\<Sum>x\<leftarrow>xs. w x * p x) / (\<Sum>x\<leftarrow>xs. w x) \<and> (\<Sum>x\<leftarrow>xs. w x * p x) / (\<Sum>x\<leftarrow>xs. w x) \<le> hi"
  using weighted_sum_bounds [OF assms(1)] assms(2)
  by (simp add: pos_le_divide_eq pos_divide_le_eq)

lemma ratio_filter_le:
  fixes w p :: "'a \<Rightarrow> real"
  assumes "\<forall>x\<in>set xs. 0 \<le> w x" and "0 < (\<Sum>x\<leftarrow>filter (\<lambda>x. 0 \<le> p x) xs. w x)"
  shows "(\<Sum>x\<leftarrow>xs. w x * p x) / (\<Sum>x\<leftarrow>xs. w x)
       \<le> (\<Sum>x\<leftarrow>filter (\<lambda>x. 0 \<le> p x) xs. w x * p x) / (\<Sum>x\<leftarrow>filter (\<lambda>x. 0 \<le> p x) xs. w x)"
proof (rule frac_le)
  let ?pos = "filter (\<lambda>x. 0 \<le> p x) xs" and ?neg = "filter (\<lambda>x. \<not> 0 \<le> p x) xs"
  have split: "(\<Sum>x\<leftarrow>xs. f x) = (\<Sum>x\<leftarrow>?pos. f x) + (\<Sum>x\<leftarrow>?neg. f x)" for f :: "'a \<Rightarrow> real"
    by (rule sum_list_filter_split)
  show "0 \<le> (\<Sum>x\<leftarrow>?pos. w x * p x)"
    using assms(1) by (intro sum_list_nonneg) auto
  have "(\<Sum>x\<leftarrow>?neg. w x * p x) \<le> 0"
    using assms(1) by (intro sum_list_nonpos) (auto simp: mult_nonneg_nonpos)
  then show "(\<Sum>x\<leftarrow>xs. w x * p x) \<le> (\<Sum>x\<leftarrow>?pos. w x * p x)"
    by (simp add: split [of "\<lambda>x. w x * p x"])
  have "0 \<le> (\<Sum>x\<leftarrow>?neg. w x)"
    using assms(1) by (intro sum_list_nonneg) auto
  then show "(\<Sum>x\<leftarrow>?pos. w x) \<le> (\<Sum>x\<leftarrow>xs. w x)"
    by (simp add: split [of w])
qed (rule assms(2))

section \<open>Sorted lists of pairs\<close>

lemma sorted_map_fst:
  fixes ks :: "('a::linorder \<times> 'b::linorder) list"
  shows "sorted ks \<Longrightarrow> sorted (map fst ks)"
  by (induction ks) (auto simp: less_eq_prod_def)

end
