(* ===== verification/Float_Values.thy ===== *)
theory Float_Values
  imports Energy_Prelude
begin

text \<open>
  The cells of a float column and the arithmetic that \<^verbatim>\<open>src/app.py\<close> applies to them.
  A cell is a finite real, one of the two infinities, or \<open>NaN\<close> (the missing value of
  pandas). Finite values are exact reals: rounding and the sign of zero are not modelled,
  so a division by zero takes its sign from the numerator alone. \<open>fadd\<close>, \<open>fsub\<close>, \<open>fmul\<close>
  and \<open>fdiv\<close> are the element-wise operators on columns, \<open>flt\<close>, \<open>fgt\<close> and \<open>fge\<close> the
  comparisons that build a boolean mask (false on \<open>NaN\<close>), \<open>nansum\<close>, \<open>nancount\<close> and
  \<open>nanmean\<close> the reductions \<^verbatim>\<open>sum\<close> and \<^verbatim>\<open>mean\<close> with their default \<^verbatim>\<open>skipna=True\<close>, and
  \<open>sort_values\<close> the ascending sort that puts \<open>NaN\<close> last. The lemmas give the value of
  every operation on finite input, show that the reductions and the sort depend on the
  multiset of the cells only, and characterise when a mean is undefined.
\<close>

section \<open>Cells\<close>

datatype fval = Fin real | PInf | NInf | NaN

fun is_finite :: "fval \<Rightarrow> bool" where
  "is_finite (Fin a) = True"
| "is_finite v = False"

fun val :: "fval \<Rightarrow> real" where
  "val (Fin a) = a"
| "val v = 0"

definition notna :: "fval \<Rightarrow> bool" where
  "notna v \<longleftrightarrow> v \<noteq> NaN"

section \<open>Element-wise arithmetic\<close>

fun fneg :: "fval \<Rightarrow> fval" where
  "fneg (Fin a) = Fin (- a)"
| "fneg PInf = NInf"
| "fneg NInf = PInf"
| "fneg NaN = NaN"

fun fadd :: "fval \<Rightarrow> fval \<Rightarrow> fval" where
  "fadd NaN y = NaN"
| "fadd x NaN = NaN"
| "fadd (Fin a) (Fin b) = Fin (a + b)"
| "fadd PInf NInf = NaN"
| "fadd NInf PInf = NaN"
| "fadd PInf y = PInf"
| "fadd x PInf = PInf"
| "fadd NInf y = NInf"
| "fadd x NInf = NInf"

definition fsub :: "fval \<Rightarrow> fval \<Rightarrow> fval" where
  "fsub x y = fadd x (fneg y)"

fun fmul :: "fval \<Rightarrow> fval \<Rightarrow> fval" where
  "fmul NaN y = NaN"
| "fmul x NaN = NaN"
| "fmul (Fin a) (Fin b) = Fin (a * b)"
| "fmul (Fin a) y = (if a = 0 then NaN else if 0 < a then y else fneg y)"
| "fmul x (Fin b) = (if b = 0 then NaN else if 0 < b then x else fneg x)"
| "fmul x y = (if x = y then PInf else NInf)"

fun fdiv :: "fval \<Rightarrow> fval \<Rightarrow> fval" where
  "fdiv NaN y = NaN"
| "fdiv x NaN = NaN"
| "fdiv (Fin a) (Fin b) =
     (if b = 0 then (if a = 0 then NaN else if 0 < a then PInf else NInf)
      else Fin (a / b))"
| "fdiv (Fin a) y = Fin 0"
| "fdiv x (Fin b) = (if b < 0 then fneg x else x)"
| "fdiv x y = NaN"

section \<open>Comparisons and the sort order\<close>

fun sort_rank :: "fval \<Rightarrow> nat \<times> real" where
  "sort_rank NInf = (0, 0)"
| "sort_rank (Fin a) = (1, a)"
| "sort_rank PInf = (2, 0)"
| "sort_rank NaN = (3, 0)"

definition flt :: "fval \<Rightarrow> fval \<Rightarrow> bool" where
  "flt x y \<longleftrightarrow> x \<noteq> NaN \<and> y \<noteq> NaN \<and> sort_rank x < sort_rank y"

definition fgt :: "fval \<Rightarrow> fval \<Rightarrow> bool" where
  "fgt x y \<longleftrightarrow> flt y x"

definition fge :: "fval \<Rightarrow> fval \<Rightarrow> bool" where
  "fge x y \<longleftrightarrow> x \<noteq> NaN \<and> y \<noteq> NaN \<and> sort_rank y \<le> sort_rank x"

definition sort_values :: "fval list \<Rightarrow> fval list" where
  "sort_values xs = sort_key sort_rank xs"

section \<open>Reductions\<close>

instantiation fval :: comm_monoid_add
begin

definition zero_fval :: fval where
  "zero_fval = Fin 0"

definition plus_fval :: "fval \<Rightarrow> fval \<Rightarrow> fval" where
  "plus_fval = fadd"

instance
proof
  fix a b c :: fval
  show "a + b + c = a + (b + c)"
    by (cases a; cases b; cases c) (simp_all add: plus_fval_def)
  show "a + b = b + a"
    by (cases a; cases b) (simp_all add: plus_fval_def)
  show "0 + a = a"
    by (cases a) (simp_all add: plus_fval_def zero_fval_def)
qed

end

definition nansum :: "fval list \<Rightarrow> fval" where
  "nansum xs = sum_list (filter notna xs)"

definition nancount :: "fval list \<Rightarrow> nat" where
  "nancount xs = length (filter notna xs)"

definition nanmean :: "fval list \<Rightarrow> fval" where
  "nanmean xs =
     (if nancount xs = 0 then NaN else fdiv (nansum xs) (Fin (real (nancount xs))))"

definition of_option :: "fval option \<Rightarrow> fval" where
  "of_option v = (case v of None \<Rightarrow> NaN | Some x \<Rightarrow> x)"

lemmas fval_defs [frame_defs] =
  notna_def fsub_def flt_def fgt_def fge_def sort_values_def nansum_def nancount_def
  nanmean_def of_option_def plus_fval_def zero_fval_def

section \<open>Arithmetic on finite cells\<close>

lemma fsub_Fin [simp]: "fsub (Fin a) (Fin b) = Fin (a - b)"
  by (simp add: fsub_def)

lemma fdiv_Fin: "b \<noteq> 0 \<Longrightarrow> fdiv (Fin a) (Fin b) = Fin (a / b)"
  by simp

lemma fdiv_zero:
  "fdiv (Fin a) (Fin 0) = (if a = 0 then NaN else if 0 < a then PInf else NInf)"
  by simp

lemma fdiv_NaN_right [simp]: "fdiv x NaN = NaN"
  by (cases x) simp_all

lemma fadd_NaN_right [simp]: "fadd x NaN = NaN"
  by (cases x) simp_all

lemma fmul_NaN_right [simp]: "fmul x NaN = NaN"
  by (cases x) simp_all

lemma fmul_commute: "fmul x y = fmul y x"
  by (cases x; cases y) (auto simp: mult.commute)

lemma flt_Fin [simp]: "flt (Fin a) (Fin b) \<longleftrightarrow> a < b"
  by (simp add: flt_def)

lemma fgt_Fin [simp]: "fgt (Fin a) (Fin b) \<longleftrightarrow> b < a"
  by (simp add: fgt_def)

lemma fge_Fin [simp]: "fge (Fin a) (Fin b) \<longleftrightarrow> b \<le> a"
  by (simp add: fge_def)

lemma cmp_NaN [simp]:
  "\<not> flt NaN y" "\<not> flt x NaN" "\<not> fgt NaN y" "\<not> fgt x NaN" "\<not> fge NaN y" "\<not> fge x NaN"
  by (simp_all add: flt_def fgt_def fge_def)

lemma fge_iff_not_flt: "notna x \<Longrightarrow> notna y \<Longrightarrow> fge x y \<longleftrightarrow> \<not> flt x y"
  by (auto simp: fge_def flt_def notna_def)

lemma notna_Fin [simp]: "notna (Fin a)"
  by (simp add: notna_def)

lemma notna_NaN [simp]: "\<not> notna NaN"
  by (simp add: notna_def)

lemma is_finite_iff: "is_finite v \<longleftrightarrow> (\<exists>a. v = Fin a)"
  by (cases v) simp_all

lemma Fin_val [simp]: "is_finite v \<Longrightarrow> Fin (val v) = v"
  by (cases v) simp_all

lemma map_Fin_val: "list_all is_finite vs \<Longrightarrow> map Fin (map val vs) = vs"
  by (induction vs) simp_all

lemma is_finite_notna: "is_finite v \<Longrightarrow> notna v"
  by (cases v) simp_all

lemma list_all_finite_iff: "list_all is_finite vs \<longleftrightarrow> (\<exists>as. vs = map Fin as)"
proof
  assume "list_all is_finite vs"
  then show "\<exists>as. vs = map Fin as"
  proof (induction vs)
    case Nil
    then show ?case by simp
  next
    case (Cons v vs)
    then obtain a as where "v = Fin a" "vs = map Fin as"
      by (auto simp: is_finite_iff)
    then have "v # vs = map Fin (a # as)" by simp
    then show ?case by (rule exI)
  qed
qed (auto simp: list_all_iff)

section \<open>Reductions on finite cells\<close>

lemma sum_list_Fin: "sum_list (map Fin as) = Fin (sum_list as)"
  by (induction as) (simp_all add: zero_fval_def plus_fval_def)

lemma filter_notna_Fin [simp]: "filter notna (map Fin as) = map Fin as"
  by (induction as) simp_all

lemma nansum_Fin [simp]: "nansum (map Fin as) = Fin (sum_list as)"
  by (simp add: nansum_def sum_list_Fin)

lemma nancount_Fin [simp]: "nancount (map Fin as) = length as"
  by (simp add: nancount_def)

lemma nanmean_Fin:
  "nanmean (map Fin as) = (if as = [] then NaN else Fin (sum_list as / real (length as)))"
  by (simp add: nanmean_def)

lemma nanmean_Fin_len:
  "length as = n \<Longrightarrow> 0 < n \<Longrightarrow> nanmean (map Fin as) = Fin (sum_list as / real n)"
  by (auto simp: nanmean_Fin)

lemma nansum_Nil [simp]: "nansum [] = Fin 0"
  by (simp add: nansum_def zero_fval_def)

lemma nansum_Cons_NaN [simp]: "nansum (NaN # xs) = nansum xs"
  by (simp add: nansum_def)

lemma nansum_Cons: "notna x \<Longrightarrow> nansum (x # xs) = fadd x (nansum xs)"
  by (simp add: nansum_def plus_fval_def)

lemma nansum_append: "nansum (xs @ ys) = fadd (nansum xs) (nansum ys)"
  by (simp add: nansum_def plus_fval_def)

lemma nancount_Nil [simp]: "nancount [] = 0"
  by (simp add: nancount_def)

lemma nancount_Cons [simp]: "nancount (x # xs) = (if notna x then Suc (nancount xs) else nancount xs)"
  by (simp add: nancount_def)

lemma nancount_append [simp]: "nancount (xs @ ys) = nancount xs + nancount ys"
  by (simp add: nancount_def)

lemma nancount_le_length: "nancount xs \<le> length xs"
  by (simp add: nancount_def)

lemma nancount_zero_iff: "nancount xs = 0 \<longleftrightarrow> (\<forall>x\<in>set xs. x = NaN)"
  by (auto simp: nancount_def filter_empty_conv notna_def)

lemma nanmean_NaN: "nancount xs = 0 \<Longrightarrow> nanmean xs = NaN"
  by (simp add: nanmean_def)

lemma nanmean_Nil [simp]: "nanmean [] = NaN"
  by (simp add: nanmean_def)

lemma nanmean_finite_NaN_iff:
  "list_all is_finite xs \<Longrightarrow> nanmean xs = NaN \<longleftrightarrow> xs = []"
  by (auto simp: list_all_finite_iff nanmean_Fin split: if_splits)

lemma nanmean_cong_notna: "filter notna xs = filter notna ys \<Longrightarrow> nanmean xs = nanmean ys"
  by (simp add: nanmean_def nansum_def nancount_def)

lemma nanmean_map_if_NaN:
  "nanmean (map (\<lambda>x. if P x then f x else NaN) xs) = nanmean (map f (filter P xs))"
  by (rule nanmean_cong_notna) (induction xs, simp_all)

section \<open>The reductions depend on the multiset of cells only\<close>

lemma nansum_mset: "mset xs = mset ys \<Longrightarrow> nansum xs = nansum ys"
proof -
  assume "mset xs = mset ys"
  then have "mset (filter notna xs) = mset (filter notna ys)"
    by simp
  then have "sum_mset (mset (filter notna xs)) = sum_mset (mset (filter notna ys))"
    by simp
  then show ?thesis
    by (simp only: nansum_def sum_mset_sum_list)
qed

lemma nancount_mset: "mset xs = mset ys \<Longrightarrow> nancount xs = nancount ys"
proof -
  assume "mset xs = mset ys"
  then have "size (mset (filter notna xs)) = size (mset (filter notna ys))"
    by simp
  then show ?thesis
    by (simp only: nancount_def size_mset)
qed

lemma nanmean_mset: "mset xs = mset ys \<Longrightarrow> nanmean xs = nanmean ys"
  by (simp add: nanmean_def nansum_mset [of xs ys] nancount_mset [of xs ys])

section \<open>Sorting a column\<close>

lemma inj_sort_rank: "inj sort_rank"
proof (rule injI)
  fix x y
  assume "sort_rank x = sort_rank y"
  then show "x = y" by (cases x; cases y) simp_all
qed

lemma mset_sort_values [simp]: "mset (sort_values xs) = mset xs"
  by (simp add: sort_values_def)

lemma length_sort_values [simp]: "length (sort_values xs) = length xs"
  by (simp add: sort_values_def)

lemma set_sort_values [simp]: "set (sort_values xs) = set xs"
  by (simp add: sort_values_def)

lemma sorted_sort_values: "sorted (map sort_rank (sort_values xs))"
  by (simp add: sort_values_def)

lemma sort_values_unique:
  assumes "mset ys = mset xs" and "sorted (map sort_rank ys)"
  shows "sort_values xs = ys"
  unfolding sort_values_def using inj_sort_rank assms
  by (rule sort_key_inj_unique)

lemma sort_values_mset: "mset xs = mset ys \<Longrightarrow> sort_values xs = sort_values ys"
  by (rule sort_values_unique) (simp_all add: sorted_sort_values)

lemma sort_values_Fin: "sort_values (map Fin as) = map Fin (sort as)"
proof (rule sort_values_unique)
  have "map sort_rank (map Fin (sort as)) = map (Pair 1) (sort as)"
    by simp
  then show "sorted (map sort_rank (map Fin (sort as)))"
    by (simp only: sorted_map_Pair sorted_sort)
qed simp

section \<open>Products and quotients of finite cells\<close>

lemma fmul_val: "is_finite x \<Longrightarrow> is_finite y \<Longrightarrow> fmul x y = Fin (val x * val y)"
  by (cases x; cases y) simp_all

lemma fdiv_eq_one_iff: "fdiv x y = Fin 1 \<longleftrightarrow> (\<exists>v. v \<noteq> 0 \<and> x = Fin v \<and> y = Fin v)"
  by (cases x; cases y) (auto split: if_splits)

lemma nansum_sum_list: "nansum (map f rs) = (\<Sum>r\<leftarrow>rs. if notna (f r) then f r else 0)"
  by (induction rs) (simp_all add: nansum_def)

lemma nansum_map_if_NaN:
  "nansum (map (\<lambda>x. if P x then Fin (f x) else NaN) xs) = Fin (\<Sum>x\<leftarrow>filter P xs. f x)"
  by (induction xs) (simp_all add: nansum_Cons notna_def)

end
