(* ===== verification/Frame.thy ===== *)
theory Frame
  imports Float_Values
begin

text \<open>
  The table operations of pandas that \<^verbatim>\<open>src/app.py\<close> calls, on tables represented as
  lists of rows. A grouping key is a function from a row to an optional key: \<open>None\<close> is a
  missing key cell, and \<open>groupby\<close> drops such rows as pandas does by default. \<open>groupby\<close>
  returns the groups in ascending key order, each with its rows in their original order;
  \<open>agg\<close> applies a reduction to every group (\<^verbatim>\<open>.apply(f).reset_index()\<close>); \<open>merge_inner\<close>
  and \<open>merge_left\<close> are \<^verbatim>\<open>pd.merge\<close> on the key columns with \<^verbatim>\<open>how='inner'\<close> and
  \<^verbatim>\<open>how='left'\<close>; \<open>union_index\<close> and \<open>at_label\<close> are the index alignment that the
  \<^verbatim>\<open>pd.DataFrame\<close> constructor performs on keyed series (the sorted union of the
  labels, and \<open>NaN\<close> where a series has no value at a label). The lemmas show that the groups partition the
  rows that have a key, that the keys of a grouped table are strictly ascending, that a
  merge on a table with distinct keys is a lookup, and that a sum over the rows that have
  a key is the sum of the sums over the groups.
\<close>

section \<open>Keys\<close>

definition key2 :: "('r \<Rightarrow> 'a option) \<Rightarrow> ('r \<Rightarrow> 'b option) \<Rightarrow> 'r \<Rightarrow> ('a \<times> 'b) option" where
  "key2 f g r = (case (f r, g r) of (Some a, Some b) \<Rightarrow> Some (a, b) | _ \<Rightarrow> None)"

definition key3 ::
  "('r \<Rightarrow> 'a option) \<Rightarrow> ('r \<Rightarrow> 'b option) \<Rightarrow> ('r \<Rightarrow> 'c option) \<Rightarrow> 'r \<Rightarrow> ('a \<times> 'b \<times> 'c) option" where
  "key3 f g h r = (case (f r, g r, h r) of (Some a, Some b, Some c) \<Rightarrow> Some (a, b, c) | _ \<Rightarrow> None)"

section \<open>Grouping\<close>

definition group_keys :: "('r \<Rightarrow> 'k::linorder option) \<Rightarrow> 'r list \<Rightarrow> 'k list" where
  "group_keys key rows = sort (remdups (List.map_filter key rows))"

definition group_rows :: "('r \<Rightarrow> 'k option) \<Rightarrow> 'k \<Rightarrow> 'r list \<Rightarrow> 'r list" where
  "group_rows key k rows = filter (\<lambda>r. key r = Some k) rows"

definition groupby :: "('r \<Rightarrow> 'k::linorder option) \<Rightarrow> 'r list \<Rightarrow> ('k \<times> 'r list) list" where
  "groupby key rows = map (\<lambda>k. (k, group_rows key k rows)) (group_keys key rows)"

definition agg :: "('r list \<Rightarrow> 'a) \<Rightarrow> ('k \<times> 'r list) list \<Rightarrow> ('k \<times> 'a) list" where
  "agg f groups = map (\<lambda>(k, g). (k, f g)) groups"

section \<open>Joins\<close>

definition matches :: "'k \<Rightarrow> ('k \<times> 'b) list \<Rightarrow> 'b list" where
  "matches k right = map snd (filter (\<lambda>(k', b). k' = k) right)"

definition merge_inner :: "('k \<times> 'a) list \<Rightarrow> ('k \<times> 'b) list \<Rightarrow> ('k \<times> 'a \<times> 'b) list" where
  "merge_inner left right =
     concat (map (\<lambda>(k, a). map (\<lambda>b. (k, a, b)) (matches k right)) left)"

definition merge_left :: "('k \<times> 'a) list \<Rightarrow> ('k \<times> 'b) list \<Rightarrow> ('k \<times> 'a \<times> 'b option) list" where
  "merge_left left right =
     concat (map (\<lambda>(k, a). case matches k right of
                              [] \<Rightarrow> [(k, a, None)]
                            | bs \<Rightarrow> map (\<lambda>b. (k, a, Some b)) bs) left)"

definition union_index :: "'k::linorder list list \<Rightarrow> 'k list" where
  "union_index ixs = sort (remdups (concat ixs))"

definition at_label :: "('k \<times> fval) list \<Rightarrow> 'k \<Rightarrow> fval" where
  "at_label series k = of_option (map_of series k)"

lemmas frame_ops [frame_defs] =
  key2_def key3_def group_keys_def group_rows_def groupby_def agg_def matches_def
  merge_inner_def merge_left_def union_index_def at_label_def List.map_filter_def

section \<open>The keys of a grouping\<close>

lemma set_group_keys: "set (group_keys key rows) = {k. \<exists>r\<in>set rows. key r = Some k}"
  by (force simp: group_keys_def List.map_filter_def image_iff)

lemma set_group_keys_image: "set (group_keys key rows) = {k. Some k \<in> set (map key rows)}"
  by (simp only: set_group_keys set_map image_iff) metis

lemma distinct_group_keys [simp]: "distinct (group_keys key rows)"
  by (simp add: group_keys_def)

lemma sorted_group_keys [simp]: "sorted (group_keys key rows)"
  by (simp add: group_keys_def)

lemma strict_sorted_group_keys: "sorted_wrt (<) (group_keys key rows)"
  by (simp add: strict_sorted_iff)

lemma group_keys_Nil [simp]: "group_keys key [] = []"
  by (simp add: group_keys_def List.map_filter_def)

lemma keys_groupby [simp]: "map fst (groupby key rows) = group_keys key rows"
  by (simp add: groupby_def comp_def)

lemma keys_agg [simp]: "map fst (agg f groups) = map fst groups"
  by (simp add: agg_def case_prod_unfold comp_def)

lemma keys_map_values [simp]: "map fst (map (\<lambda>(k, a). (k, f a)) xs) = map fst xs"
  by (simp add: comp_def case_prod_unfold)

lemma fst_comp_map_value [simp]:
  "fst \<circ> (\<lambda>(k, a). (k, f a)) = fst"
  "g \<circ> fst \<circ> (\<lambda>(k, a). (k, f a)) = g \<circ> fst"
  by (simp_all add: fun_eq_iff)

lemma agg_groupby_eq:
  "agg f (groupby key rows) = map (\<lambda>k. (k, f (group_rows key k rows))) (group_keys key rows)"
  by (simp add: agg_def groupby_def comp_def)

section \<open>The rows of a group\<close>

lemma groupby_member:
  "(k, g) \<in> set (groupby key rows) \<longleftrightarrow> k \<in> set (group_keys key rows) \<and> g = group_rows key k rows"
  by (auto simp: groupby_def)

lemma group_rows_key: "r \<in> set (group_rows key k rows) \<Longrightarrow> key r = Some k"
  by (simp add: group_rows_def)

lemma group_rows_subset: "set (group_rows key k rows) \<subseteq> set rows"
  by (auto simp: group_rows_def)

lemma mem_group_keys_iff: "k \<in> set (group_keys key rows) \<longleftrightarrow> group_rows key k rows \<noteq> []"
  by (auto simp: set_group_keys group_rows_def filter_empty_conv)

lemma group_keys_map: "group_keys key (map f rows) = group_keys (key \<circ> f) rows"
  by (simp add: group_keys_def List.map_filter_def filter_map comp_def)

lemma group_rows_map: "group_rows key k (map f rows) = map f (group_rows (key \<circ> f) k rows)"
  by (simp add: group_rows_def filter_map comp_def)

lemma group_rows_filter_commute:
  "group_rows key k (filter P rows) = filter P (group_rows key k rows)"
  by (auto simp: group_rows_def intro: filter_cong)

lemma group_keys_filter_subset:
  "set (group_keys key (filter P rows)) \<subseteq> set (group_keys key rows)"
  by (auto simp: set_group_keys)

text \<open>
  The groups that \<open>groupby\<close> returns hold, taken together, exactly the rows whose key is
  present, each as often as the table holds it.
\<close>

lemma mset_groupby:
  "mset (concat (map snd (groupby key rows))) = mset (filter (\<lambda>r. key r \<noteq> None) rows)"
proof -
  have "mset (concat (map snd (groupby key rows)))
      = mset (filter (\<lambda>r. key r \<in> Some ` set (group_keys key rows)) rows)"
    using mset_concat_groups [of "group_keys key rows" key rows]
    by (simp add: groupby_def group_rows_def comp_def)
  also have "\<dots> = mset (filter (\<lambda>r. key r \<noteq> None) rows)"
    by (rule arg_cong [where f = mset], rule filter_cong) (auto simp: set_group_keys image_iff)
  finally show ?thesis .
qed

lemma sum_groups:
  fixes g :: "'r \<Rightarrow> 'a::comm_monoid_add"
  shows "(\<Sum>k\<leftarrow>group_keys key rows. \<Sum>r\<leftarrow>group_rows key k rows. g r)
       = (\<Sum>r\<leftarrow>filter (\<lambda>r. key r \<noteq> None) rows. g r)"
proof -
  have "(\<Sum>k\<leftarrow>group_keys key rows. \<Sum>r\<leftarrow>group_rows key k rows. g r)
      = (\<Sum>r\<leftarrow>filter (\<lambda>r. key r \<in> Some ` set (group_keys key rows)) rows. g r)"
    unfolding group_rows_def by (rule sum_list_concat_groups) simp
  also have "filter (\<lambda>r. key r \<in> Some ` set (group_keys key rows)) rows
           = filter (\<lambda>r. key r \<noteq> None) rows"
    by (rule filter_cong) (auto simp: set_group_keys image_iff)
  finally show ?thesis .
qed

section \<open>Joins on distinct keys\<close>

lemma matches_map_of:
  "distinct (map fst right) \<Longrightarrow>
   matches k right = (case map_of right k of None \<Rightarrow> [] | Some b \<Rightarrow> [b])"
proof (induction right)
  case Nil
  then show ?case by (simp add: matches_def)
next
  case (Cons p right)
  obtain k' b where p: "p = (k', b)" by (cases p)
  show ?case
  proof (cases "k' = k")
    case True
    with Cons.prems p have "map_of right k = None"
      by (simp add: map_of_eq_None_iff)
    with Cons p True show ?thesis by (simp add: matches_def)
  next
    case False
    with Cons p show ?thesis by (simp add: matches_def)
  qed
qed

lemma merge_inner_lookup:
  assumes "distinct (map fst right)"
  shows "merge_inner left right =
         List.map_filter (\<lambda>(k, a). map_option (\<lambda>b. (k, a, b)) (map_of right k)) left"
  by (induction left)
     (auto simp: merge_inner_def List.map_filter_def matches_map_of [OF assms] split: option.splits)

lemma merge_left_lookup:
  assumes "distinct (map fst right)"
  shows "merge_left left right = map (\<lambda>(k, a). (k, a, map_of right k)) left"
  by (induction left)
     (auto simp: merge_left_def matches_map_of [OF assms] split: option.splits)

lemma keys_merge_left:
  "distinct (map fst right) \<Longrightarrow> map fst (merge_left left right) = map fst left"
  by (simp add: merge_left_lookup case_prod_unfold comp_def)

lemma keys_merge_inner:
  assumes "distinct (map fst right)" and "set (map fst left) \<subseteq> set (map fst right)"
  shows "map fst (merge_inner left right) = map fst left"
  using assms(2)
proof (induction left)
  case Nil
  then show ?case by (simp add: merge_inner_def)
next
  case (Cons p left)
  obtain k a where p: "p = (k, a)" by (cases p)
  with Cons.prems obtain b where "(k, b) \<in> set right"
    by auto
  with assms(1) have "map_of right k = Some b"
    by (rule map_of_is_SomeI)
  with Cons p show ?case
    by (simp add: merge_inner_lookup [OF assms(1)] List.map_filter_def)
qed

lemma map_of_agg_groupby:
  "map_of (agg f (groupby key rows)) k =
     (if k \<in> set (group_keys key rows) then Some (f (group_rows key k rows)) else None)"
proof -
  have "map_of (map (\<lambda>k. (k, f (group_rows key k rows))) ks) k =
        (if k \<in> set ks then Some (f (group_rows key k rows)) else None)" for ks
    by (induction ks) auto
  then show ?thesis
    by (simp add: agg_def groupby_def comp_def)
qed

lemma map_of_merge_inner:
  assumes "distinct (map fst right)"
  shows "map_of (merge_inner left right) k =
         (case map_of left k of
            None \<Rightarrow> None
          | Some a \<Rightarrow> map_option (Pair a) (map_of right k))"
proof (induction left)
  case Nil
  then show ?case by (simp add: merge_inner_def)
next
  case (Cons p left)
  obtain k' a where p: "p = (k', a)" by (cases p)
  have step: "merge_inner ((k', a) # left) right =
              (case map_of right k' of None \<Rightarrow> [] | Some b \<Rightarrow> [(k', a, b)]) @ merge_inner left right"
    by (simp add: merge_inner_def matches_map_of [OF assms] split: option.splits)
  show ?case
    using Cons.IH by (cases "map_of right k'") (auto simp: step p split: option.splits)
qed

lemma map_of_merge_left:
  assumes "distinct (map fst right)"
  shows "map_of (merge_left left right) k = map_option (\<lambda>a. (a, map_of right k)) (map_of left k)"
  by (induction left) (auto simp: merge_left_lookup [OF assms])

section \<open>Index alignment\<close>

lemma union_index_subsumed:
  assumes "sorted ks" and "distinct ks" and "ks \<in> set ixs" and "\<forall>ix\<in>set ixs. set ix \<subseteq> set ks"
  shows "union_index ixs = ks"
proof -
  have "set (concat ixs) = set ks"
    using assms(3,4) by auto
  then have "set (union_index ixs) = set ks"
    by (simp add: union_index_def)
  moreover have "sorted (union_index ixs)" "distinct (union_index ixs)"
    by (simp_all add: union_index_def)
  ultimately show ?thesis
    using assms(1,2) by (simp add: sorted_distinct_set_unique)
qed

lemma at_label_map:
  "at_label (map (\<lambda>(k, a). (k, f a)) xs) k = of_option (map_option f (map_of xs k))"
  by (simp add: at_label_def map_of_map)

end
