(* ===== verification/Loader.thy ===== *)
theory Loader
  imports Frame
begin

text \<open>
  The loader of \<^verbatim>\<open>src/app.py\<close> (\<^verbatim>\<open>load_data\<close>, lines 15 to 23) and the row type of the
  tables it produces. A \<open>csv_row\<close> is one line of the input file as \<^verbatim>\<open>pd.read_csv\<close> returns
  it: the text of the \<^verbatim>\<open>datetime_utc\<close> cell (\<open>None\<close> for an empty cell) and the three float
  columns. An \<open>hourly\<close> row extends it by the four columns the loader adds. The file
  system is a map from paths to file contents, the parser of one timestamp cell
  (\<^verbatim>\<open>pd.to_datetime\<close>) is a parameter \<open>parse\<close>; its only assumed property, where one is
  needed, is \<open>parser_ok\<close>. A raised exception is a value \<open>Inl e\<close>, the \<^verbatim>\<open>None\<close> that the
  loader returns for a missing file is \<open>Inr None\<close>. The lemmas give the result of the
  loader on every branch and show that every loaded row satisfies \<open>wf_row\<close>: its derived
  columns agree with its timestamp.
\<close>

section \<open>Rows\<close>

record timestamp =
  ts_year :: int
  ts_month :: nat
  ts_day :: nat
  ts_hour :: nat
  ts_minute :: nat
  ts_second :: nat

record csv_row =
  datetime_utc :: "string option"
  residual_load_mw_avg :: fval
  day_ahead_price_eur_mwh :: fval
  solar_mw_avg :: fval

record hourly = csv_row +
  datetime :: "timestamp option"
  year :: "int option"
  month :: "nat option"
  date :: "day option"

record csv_file =
  csv_columns :: "string list"
  csv_rows :: "csv_row list"

datatype file_content = Unparsable | Table csv_file

type_synonym file_system = "string \<Rightarrow> file_content option"

datatype load_error = ParserError | KeyError string | DateParseError string

section \<open>Derived columns\<close>

definition dt_year :: "timestamp option \<Rightarrow> int option" where
  "dt_year t = map_option ts_year t"

definition dt_month :: "timestamp option \<Rightarrow> nat option" where
  "dt_month t = map_option ts_month t"

definition dt_date :: "timestamp option \<Rightarrow> day option" where
  "dt_date t = map_option (\<lambda>t. (ts_year t, ts_month t, ts_day t)) t"

definition with_datetime :: "csv_row \<Rightarrow> timestamp option \<Rightarrow> hourly" where
  "with_datetime r t = csv_row.extend r (hourly.fields t (dt_year t) (dt_month t) (dt_date t))"

section \<open>Parsing the timestamp column\<close>

fun to_datetime1 :: "(string \<Rightarrow> timestamp option) \<Rightarrow> string option \<Rightarrow> load_error + timestamp option" where
  "to_datetime1 parse None = Inr None"
| "to_datetime1 parse (Some s) =
     (case parse s of None \<Rightarrow> Inl (DateParseError s) | Some t \<Rightarrow> Inr (Some t))"

fun to_datetime ::
  "(string \<Rightarrow> timestamp option) \<Rightarrow> string option list \<Rightarrow> load_error + timestamp option list" where
  "to_datetime parse [] = Inr []"
| "to_datetime parse (c # cs) =
     (case to_datetime1 parse c of
        Inl e \<Rightarrow> Inl e
      | Inr t \<Rightarrow> (case to_datetime parse cs of Inl e \<Rightarrow> Inl e | Inr ts \<Rightarrow> Inr (t # ts)))"

section \<open>The loader\<close>

definition INPUT_FILE :: string where
  "INPUT_FILE = ''hourly_german_residual_load_and_prices_2024_present.csv''"

definition load_data ::
  "(string \<Rightarrow> timestamp option) \<Rightarrow> file_system \<Rightarrow> load_error + hourly list option" where
  "load_data parse fs =
     (case fs INPUT_FILE of
        None \<Rightarrow> Inr None
      | Some Unparsable \<Rightarrow> Inl ParserError
      | Some (Table csv) \<Rightarrow>
          if ''datetime_utc'' \<notin> set (csv_columns csv) then Inl (KeyError ''datetime_utc'')
          else (case to_datetime parse (map datetime_utc (csv_rows csv)) of
                  Inl e \<Rightarrow> Inl e
                | Inr ts \<Rightarrow> Inr (Some (map2 with_datetime (csv_rows csv) ts))))"

section \<open>Well-formed rows\<close>

definition valid_ts :: "timestamp \<Rightarrow> bool" where
  "valid_ts t \<longleftrightarrow> 1 \<le> ts_month t \<and> ts_month t \<le> 12 \<and> 1 \<le> ts_day t \<and> ts_day t \<le> 31
     \<and> ts_hour t < 24 \<and> ts_minute t < 60 \<and> ts_second t < 60"

definition parser_ok :: "(string \<Rightarrow> timestamp option) \<Rightarrow> bool" where
  "parser_ok parse \<longleftrightarrow> (\<forall>s t. parse s = Some t \<longrightarrow> valid_ts t)"

definition wf_row :: "'a hourly_scheme \<Rightarrow> bool" where
  "wf_row r \<longleftrightarrow> year r = dt_year (datetime r) \<and> month r = dt_month (datetime r)
     \<and> date r = dt_date (datetime r)"

definition wf_frame :: "'a hourly_scheme list \<Rightarrow> bool" where
  "wf_frame df \<longleftrightarrow> list_all wf_row df"

definition valid_row :: "'a hourly_scheme \<Rightarrow> bool" where
  "valid_row r \<longleftrightarrow> wf_row r \<and> (case datetime r of None \<Rightarrow> True | Some t \<Rightarrow> valid_ts t)"

section \<open>An example file\<close>

definition example_parse :: "string \<Rightarrow> timestamp option" where
  "example_parse s =
     (if s = ''2024-01-01 00:00:00'' then
        Some \<lparr>ts_year = 2024, ts_month = 1, ts_day = 1, ts_hour = 0, ts_minute = 0, ts_second = 0\<rparr>
      else if s = ''2024-01-01 01:00:00'' then
        Some \<lparr>ts_year = 2024, ts_month = 1, ts_day = 1, ts_hour = 1, ts_minute = 0, ts_second = 0\<rparr>
      else None)"

definition example_csv :: csv_file where
  "example_csv =
     \<lparr>csv_columns = [''datetime_utc'', ''residual_load_mw_avg'', ''day_ahead_price_eur_mwh'',
                      ''solar_mw_avg''],
      csv_rows =
        [\<lparr>datetime_utc = Some ''2024-01-01 00:00:00'', residual_load_mw_avg = Fin 100,
           day_ahead_price_eur_mwh = Fin 10, solar_mw_avg = Fin 0\<rparr>,
         \<lparr>datetime_utc = None, residual_load_mw_avg = Fin 100,
           day_ahead_price_eur_mwh = Fin 20, solar_mw_avg = Fin 0\<rparr>,
         \<lparr>datetime_utc = Some ''2024-01-01 01:00:00'', residual_load_mw_avg = Fin (- 5),
           day_ahead_price_eur_mwh = Fin (- 12), solar_mw_avg = Fin 0\<rparr>]\<rparr>"

definition example_fs :: file_system where
  "example_fs p = (if p = INPUT_FILE then Some (Table example_csv) else None)"

lemmas loader_defs [frame_defs] =
  dt_year_def dt_month_def dt_date_def with_datetime_def INPUT_FILE_def load_data_def
  csv_row.extend_def hourly.fields_def valid_ts_def wf_row_def wf_frame_def valid_row_def
  example_parse_def example_csv_def example_fs_def

section \<open>Derived columns of a row\<close>

lemma with_datetime_simps [simp]:
  "datetime (with_datetime r t) = t"
  "year (with_datetime r t) = dt_year t"
  "month (with_datetime r t) = dt_month t"
  "date (with_datetime r t) = dt_date t"
  "datetime_utc (with_datetime r t) = datetime_utc r"
  "residual_load_mw_avg (with_datetime r t) = residual_load_mw_avg r"
  "day_ahead_price_eur_mwh (with_datetime r t) = day_ahead_price_eur_mwh r"
  "solar_mw_avg (with_datetime r t) = solar_mw_avg r"
  by (simp_all add: with_datetime_def csv_row.extend_def hourly.fields_def)

lemma wf_row_with_datetime [simp]: "wf_row (with_datetime r t)"
  by (simp add: wf_row_def)

lemma wf_row_keys:
  assumes "wf_row r"
  shows "year r = None \<longleftrightarrow> datetime r = None"
    and "month r = None \<longleftrightarrow> datetime r = None"
    and "date r = None \<longleftrightarrow> datetime r = None"
  using assms by (simp_all add: wf_row_def dt_year_def dt_month_def dt_date_def)

lemma wf_frameD: "wf_frame df \<Longrightarrow> r \<in> set df \<Longrightarrow> wf_row r"
  by (simp add: wf_frame_def list_all_iff)

section \<open>The timestamp column\<close>

lemma to_datetime_Inr_iff:
  "(\<exists>ts. to_datetime parse cs = Inr ts) \<longleftrightarrow> (\<forall>s. Some s \<in> set cs \<longrightarrow> parse s \<noteq> None)"
proof (induction cs)
  case Nil
  then show ?case by simp
next
  case (Cons c cs)
  show ?case
  proof (cases c)
    case None
    with Cons show ?thesis by (auto split: sum.splits)
  next
    case (Some s)
    with Cons show ?thesis by (cases "parse s") (auto split: sum.splits)
  qed
qed

lemma to_datetime_Inr_map:
  "to_datetime parse cs = Inr ts \<Longrightarrow> ts = map (\<lambda>c. Option.bind c parse) cs"
proof (induction cs arbitrary: ts)
  case Nil
  then show ?case by simp
next
  case (Cons c cs)
  then show ?case
    by (cases c) (auto split: sum.splits option.splits)
qed

lemma to_datetime_eq:
  "to_datetime parse cs = Inr ts \<longleftrightarrow>
     (\<forall>s. Some s \<in> set cs \<longrightarrow> parse s \<noteq> None) \<and> ts = map (\<lambda>c. Option.bind c parse) cs"
  using to_datetime_Inr_iff [of parse cs] to_datetime_Inr_map [of parse cs] by blast

lemma to_datetime_Inl_iff:
  "to_datetime parse cs = Inl e \<longleftrightarrow>
     (\<exists>s. List.find (\<lambda>s. parse s = None) (List.map_filter (\<lambda>c. c) cs) = Some s \<and> e = DateParseError s)"
proof (induction cs)
  case Nil
  then show ?case by (simp add: List.map_filter_simps)
next
  case (Cons c cs)
  show ?case
  proof (cases c)
    case None
    with Cons show ?thesis
      by (auto simp: List.map_filter_simps split: sum.splits)
  next
    case (Some s)
    with Cons show ?thesis
      by (cases "parse s") (auto simp: List.map_filter_simps split: sum.splits)
  qed
qed

section \<open>The result of the loader\<close>

lemma map2_with_datetime:
  "map2 with_datetime rows (map ((\<lambda>c. Option.bind c parse) \<circ> datetime_utc) rows)
   = map (\<lambda>r. with_datetime r (Option.bind (datetime_utc r) parse)) rows"
  by (induction rows) simp_all

text \<open>
  C6: \<open>load_data\<close> returns a table exactly when the file exists, can be read, has the
  column \<^verbatim>\<open>datetime_utc\<close> and every non-empty cell of that column parses; the table then has
  one row for every row of the file, in the order of the file, with the timestamp of the
  row and the three columns derived from it added, an empty cell giving a missing
  timestamp.
\<close>

theorem load_data_success:
  "load_data parse fs = Inr (Some df) \<longleftrightarrow>
     (\<exists>csv. fs INPUT_FILE = Some (Table csv) \<and> ''datetime_utc'' \<in> set (csv_columns csv)
        \<and> (\<forall>s. Some s \<in> set (map datetime_utc (csv_rows csv)) \<longrightarrow> parse s \<noteq> None)
        \<and> df = map (\<lambda>r. with_datetime r (Option.bind (datetime_utc r) parse)) (csv_rows csv))"
proof (cases "fs INPUT_FILE")
  case None
  then show ?thesis
    by (simp add: load_data_def)
next
  case (Some c)
  show ?thesis
  proof (cases c)
    case Unparsable
    with Some show ?thesis
      by (simp add: load_data_def)
  next
    case (Table csv)
    let ?cs = "map datetime_utc (csv_rows csv)"
    have "load_data parse fs = Inr (Some df) \<longleftrightarrow>
        ''datetime_utc'' \<in> set (csv_columns csv)
        \<and> (\<exists>ts. to_datetime parse ?cs = Inr ts \<and> df = map2 with_datetime (csv_rows csv) ts)"
      using Some Table by (auto simp: load_data_def split: sum.splits)
    also have "\<dots> \<longleftrightarrow> ''datetime_utc'' \<in> set (csv_columns csv)
        \<and> (\<forall>s. Some s \<in> set ?cs \<longrightarrow> parse s \<noteq> None)
        \<and> df = map (\<lambda>r. with_datetime r (Option.bind (datetime_utc r) parse)) (csv_rows csv)"
      by (auto simp: to_datetime_eq map2_with_datetime)
    finally show ?thesis
      using Some Table by simp
  qed
qed

theorem load_data_success_witness:
  "\<exists>df. load_data example_parse example_fs = Inr (Some df) \<and> length df = 3
     \<and> map month df = [Some 1, None, Some 1]"
  using load_data_success [of example_parse example_fs
      "map (\<lambda>r. with_datetime r (Option.bind (datetime_utc r) example_parse)) (csv_rows example_csv)"]
  by (simp add: frame_defs)

lemma load_data_absent:
  "load_data parse fs = Inr None \<longleftrightarrow> fs INPUT_FILE = None"
  by (auto simp: load_data_def split: option.splits file_content.splits sum.splits)

text \<open>
  C36: \<open>load_data\<close> raises exactly when the file exists and is unreadable, lacks the
  column \<^verbatim>\<open>datetime_utc\<close>, or has a cell in that column that does not parse; the exception
  tells which, and for a timestamp it names the first cell of the column that does not
  parse.
\<close>

theorem load_data_raises:
  "load_data parse fs = Inl e \<longleftrightarrow>
     fs INPUT_FILE = Some Unparsable \<and> e = ParserError
     \<or> (\<exists>csv. fs INPUT_FILE = Some (Table csv) \<and>
          (if ''datetime_utc'' \<in> set (csv_columns csv)
           then \<exists>s. List.find (\<lambda>s. parse s = None)
                      (List.map_filter datetime_utc (csv_rows csv)) = Some s
                    \<and> e = DateParseError s
           else e = KeyError ''datetime_utc''))"
proof -
  have "List.map_filter (\<lambda>c. c) (map datetime_utc rows) = List.map_filter datetime_utc rows"
    for rows :: "csv_row list"
    by (simp add: List.map_filter_def filter_map comp_def)
  then have "(\<exists>s. List.find (\<lambda>s. parse s = None) (List.map_filter datetime_utc rows) = Some s
                \<and> e = DateParseError s)
           \<longleftrightarrow> to_datetime parse (map datetime_utc rows) = Inl e" for rows :: "csv_row list"
    by (simp add: to_datetime_Inl_iff)
  then show ?thesis
    by (auto simp: load_data_def split: option.splits file_content.splits sum.splits)
qed

theorem load_data_raises_witness:
  "load_data (\<lambda>s. None) example_fs = Inl (DateParseError ''2024-01-01 00:00:00'')"
  using load_data_raises [of "\<lambda>s. None" example_fs "DateParseError ''2024-01-01 00:00:00''"]
  by (simp add: frame_defs)

lemma load_data_rows:
  assumes "load_data parse fs = Inr (Some df)" and "r \<in> set df"
  shows "\<exists>c. r = with_datetime c (Option.bind (datetime_utc c) parse)"
  using assms
  by (auto simp: load_data_def to_datetime_eq map2_with_datetime
      split: option.splits file_content.splits sum.splits if_splits)

lemma load_data_row:
  assumes "load_data parse fs = Inr (Some df)" and "r \<in> set df"
  shows "wf_row r" and "parser_ok parse \<Longrightarrow> valid_row r"
proof -
  from load_data_rows [OF assms] obtain c
    where r: "r = with_datetime c (Option.bind (datetime_utc c) parse)" ..
  then show "wf_row r"
    by simp
  assume "parser_ok parse"
  with r show "valid_row r"
    by (cases "datetime_utc c") (auto simp: valid_row_def parser_ok_def split: option.splits)
qed

lemma load_data_wf_frame: "load_data parse fs = Inr (Some df) \<Longrightarrow> wf_frame df"
  by (simp add: wf_frame_def list_all_iff load_data_row(1))

lemma valid_row_month:
  assumes "valid_row r" and "month r = Some m"
  shows "1 \<le> m \<and> m \<le> 12"
  using assms by (cases "datetime r") (auto simp: valid_row_def wf_row_def dt_month_def valid_ts_def)



end
