(* ===== verification/Market_Spec.thy ===== *)
theory Market_Spec
  imports Loader
begin

text \<open>
  The reference computation of the specification, sections 4.2 and 4.3, written over real
  numbers: what each cell of the two aggregate tables is when every input cell is a finite
  number. An undefined cell is \<open>None\<close>. \<open>price_of\<close>, \<open>residual_of\<close> and \<open>solar_of\<close> read
  the numeric columns of a row; \<open>mean\<close> and \<open>ratio\<close> are the two partial operations of the
  specification (the mean of no value and the quotient by zero are undefined). \<open>cell\<close> is
  the abstraction from a float cell of the implementation to such a value: \<open>NaN\<close> and the
  infinities are undefined. The component theories prove that the implementation, seen
  through \<open>cell\<close>, computes these functions on every frame that satisfies \<open>finite_frame\<close>.
\<close>

section \<open>Numeric columns of a row\<close>

definition price_of :: "'a hourly_scheme \<Rightarrow> real" where
  "price_of r = val (day_ahead_price_eur_mwh r)"

definition residual_of :: "'a hourly_scheme \<Rightarrow> real" where
  "residual_of r = val (residual_load_mw_avg r)"

definition solar_of :: "'a hourly_scheme \<Rightarrow> real" where
  "solar_of r = val (solar_mw_avg r)"

definition finite_row :: "'a hourly_scheme \<Rightarrow> bool" where
  "finite_row r \<longleftrightarrow> is_finite (residual_load_mw_avg r) \<and> is_finite (day_ahead_price_eur_mwh r)
     \<and> is_finite (solar_mw_avg r)"

definition finite_frame :: "'a hourly_scheme list \<Rightarrow> bool" where
  "finite_frame g \<longleftrightarrow> list_all finite_row g"

section \<open>Partial operations\<close>

definition mean :: "real list \<Rightarrow> real option" where
  "mean xs = (if xs = [] then None else Some (sum_list xs / real (length xs)))"

definition ratio :: "real \<Rightarrow> real \<Rightarrow> real option" where
  "ratio n d = (if d = 0 then None else Some (n / d))"

fun cell :: "fval \<Rightarrow> real option" where
  "cell (Fin a) = Some a"
| "cell v = None"

section \<open>Monthly statistics\<close>

definition spec_avg_price :: "'a hourly_scheme list \<Rightarrow> real option" where
  "spec_avg_price g = mean (map price_of g)"

definition spec_neg_hours :: "'a hourly_scheme list \<Rightarrow> nat" where
  "spec_neg_hours g = length (filter (\<lambda>r. price_of r < 0) g)"

definition spec_avg_price_res_neg :: "'a hourly_scheme list \<Rightarrow> real option" where
  "spec_avg_price_res_neg g = mean (map price_of (filter (\<lambda>r. residual_of r < 0) g))"

definition spec_avg_price_res_high :: "'a hourly_scheme list \<Rightarrow> real option" where
  "spec_avg_price_res_high g = mean (map price_of (filter (\<lambda>r. 60000 < residual_of r) g))"

definition spec_daily_spread :: "'a hourly_scheme list \<Rightarrow> real option" where
  "spec_daily_spread d =
     (let ps = sort (map price_of d) in
      if length ps < 8 then None
      else Some (sum_list (drop (length ps - 4) ps) / 4 - sum_list (take 4 ps) / 4))"

definition spec_avg_spread :: "'a hourly_scheme list list \<Rightarrow> real option" where
  "spec_avg_spread days = mean (List.map_filter spec_daily_spread days)"

section \<open>Solar capture prices\<close>

definition spec_solar_revenue :: "'a hourly_scheme \<Rightarrow> real" where
  "spec_solar_revenue r = solar_of r * price_of r"

definition spec_pv_price :: "'a hourly_scheme list \<Rightarrow> real option" where
  "spec_pv_price g = ratio (\<Sum>r\<leftarrow>g. spec_solar_revenue r) (\<Sum>r\<leftarrow>g. solar_of r)"

definition spec_pv_price_pos :: "'a hourly_scheme list \<Rightarrow> real option" where
  "spec_pv_price_pos g = spec_pv_price (filter (\<lambda>r. 0 \<le> price_of r) g)"

definition spec_baseload_price :: "'a hourly_scheme list \<Rightarrow> real option" where
  "spec_baseload_price g = mean (map price_of g)"

definition spec_capture_rate :: "'a hourly_scheme list \<Rightarrow> real option" where
  "spec_capture_rate g =
     (case (spec_pv_price g, spec_baseload_price g) of
        (Some p, Some b) \<Rightarrow> ratio p b
      | _ \<Rightarrow> None)"

lemmas spec_defs [frame_defs] =
  price_of_def residual_of_def solar_of_def finite_row_def finite_frame_def mean_def ratio_def
  spec_avg_price_def spec_neg_hours_def spec_avg_price_res_neg_def spec_avg_price_res_high_def
  spec_daily_spread_def spec_avg_spread_def spec_solar_revenue_def spec_pv_price_def
  spec_pv_price_pos_def spec_baseload_price_def spec_capture_rate_def

section \<open>Finite frames\<close>

lemma finite_frame_filter: "finite_frame g \<Longrightarrow> finite_frame (filter P g)"
  by (simp add: finite_frame_def list_all_iff)

lemma finite_frame_subset: "finite_frame g \<Longrightarrow> set h \<subseteq> set g \<Longrightarrow> finite_frame h"
  by (auto simp: finite_frame_def list_all_iff)

lemma finite_frameD:
  assumes "finite_frame g" and "r \<in> set g"
  shows "day_ahead_price_eur_mwh r = Fin (price_of r)"
    and "residual_load_mw_avg r = Fin (residual_of r)"
    and "solar_mw_avg r = Fin (solar_of r)"
  using assms
  by (simp_all add: finite_frame_def finite_row_def list_all_iff price_of_def residual_of_def solar_of_def)

lemma finite_frame_prices: "finite_frame g \<Longrightarrow> map day_ahead_price_eur_mwh g = map Fin (map price_of g)"
  by (induction g) (simp_all add: finite_frame_def finite_row_def price_of_def)

lemma finite_frame_solar: "finite_frame g \<Longrightarrow> map solar_mw_avg g = map Fin (map solar_of g)"
  by (induction g) (simp_all add: finite_frame_def finite_row_def solar_of_def)

lemma finite_frame_filter_cong:
  assumes "finite_frame g" and "\<And>a. P (Fin a) \<longleftrightarrow> Q a"
  shows "filter (\<lambda>r. P (day_ahead_price_eur_mwh r)) g = filter (\<lambda>r. Q (price_of r)) g"
    and "filter (\<lambda>r. P (residual_load_mw_avg r)) g = filter (\<lambda>r. Q (residual_of r)) g"
proof -
  show "filter (\<lambda>r. P (day_ahead_price_eur_mwh r)) g = filter (\<lambda>r. Q (price_of r)) g"
    by (rule filter_cong [OF refl]) (simp only: finite_frameD(1) [OF assms(1)] assms(2))
  show "filter (\<lambda>r. P (residual_load_mw_avg r)) g = filter (\<lambda>r. Q (residual_of r)) g"
    by (rule filter_cong [OF refl]) (simp only: finite_frameD(2) [OF assms(1)] assms(2))
qed

section \<open>The abstraction of a cell\<close>

lemma cell_nanmean_Fin: "cell (nanmean (map Fin xs)) = mean xs"
  by (simp add: nanmean_Fin mean_def)

lemma cell_fdiv_Fin: "cell (fdiv (Fin n) (Fin d)) = ratio n d"
  by (simp add: ratio_def)

end
