(* ===== verification/Monthly_Stats.thy ===== *)
theory Monthly_Stats
  imports Market_Spec
begin

text \<open>
  The monthly statistics of \<^verbatim>\<open>src/app.py\<close> (\<^verbatim>\<open>calculate_monthly_stats\<close>, lines 25 to 52).
  \<open>daily_spread\<close> is the inner function of the same name, applied to the rows of one day;
  \<open>daily_spreads\<close> and \<open>monthly_spread\<close> are the two grouped tables built from it;
  \<open>monthly_agg\<close> is the inner function that reduces the rows of one month, and
  \<open>calculate_monthly_stats\<close> merges its table with \<open>monthly_spread\<close>. A result table is a
  list of pairs of a key and the computed columns, in the order of the rows of the data
  frame. The lemmas give the spread of a day as a function of its sorted prices, show
  that it is never negative and does not depend on the order of the rows, that a day
  with fewer than eight rows does not enter the monthly average, that an average over an
  empty selection is \<open>NaN\<close> and not zero, that the merge keeps every month of the data,
  and that on finite cells every column is the statistic of the reference computation in
  \<open>Market_Spec\<close>.
\<close>

section \<open>Daily spreads\<close>

definition daily_spread :: "'a hourly_scheme list \<Rightarrow> fval option" where
  "daily_spread g =
     (let sorted_prices = sort_values (map day_ahead_price_eur_mwh g) in
      if length sorted_prices < 8 then None
      else Some (fsub (nanmean (drop (length sorted_prices - 4) sorted_prices))
                      (nanmean (take 4 sorted_prices))))"

definition ymd_key :: "'a hourly_scheme \<Rightarrow> (int \<times> nat \<times> day) option" where
  "ymd_key = key3 year month date"

definition ym_key :: "'a hourly_scheme \<Rightarrow> year_month option" where
  "ym_key = key2 year month"

definition daily_spreads :: "'a hourly_scheme list \<Rightarrow> ((int \<times> nat \<times> day) \<times> fval option) list" where
  "daily_spreads df = agg daily_spread (groupby ymd_key df)"

definition spread_ym :: "(int \<times> nat \<times> day) \<times> fval option \<Rightarrow> year_month option" where
  "spread_ym row = (case row of ((y, m, d), s) \<Rightarrow> Some (y, m))"

definition monthly_spread :: "'a hourly_scheme list \<Rightarrow> (year_month \<times> fval) list" where
  "monthly_spread df =
     agg (\<lambda>g. nanmean (map (of_option \<circ> snd) g)) (groupby spread_ym (daily_spreads df))"

section \<open>Monthly aggregates\<close>

record monthly_row =
  avg_price :: fval
  neg_hours :: nat
  avg_price_res_neg :: fval
  avg_price_res_high :: fval

definition monthly_agg :: "'a hourly_scheme list \<Rightarrow> monthly_row" where
  "monthly_agg g =
     (let avg_price = nanmean (map day_ahead_price_eur_mwh g);
          neg_hours = length (filter (\<lambda>r. flt (day_ahead_price_eur_mwh r) (Fin 0)) g);
          res_neg_price = nanmean (map day_ahead_price_eur_mwh
                            (filter (\<lambda>r. flt (residual_load_mw_avg r) (Fin 0)) g));
          res_high_price = nanmean (map day_ahead_price_eur_mwh
                            (filter (\<lambda>r. fgt (residual_load_mw_avg r) (Fin 60000)) g))
      in \<lparr>avg_price = avg_price, neg_hours = neg_hours,
          avg_price_res_neg = res_neg_price, avg_price_res_high = res_high_price\<rparr>)"

definition calculate_monthly_stats ::
  "'a hourly_scheme list \<Rightarrow> (year_month \<times> monthly_row \<times> fval) list" where
  "calculate_monthly_stats df =
     (let monthly_stats = agg monthly_agg (groupby ym_key df)
      in merge_inner monthly_stats (monthly_spread df))"

section \<open>Notions used to state the properties\<close>

definition spread_value :: "fval list \<Rightarrow> fval" where
  "spread_value ps =
     (let s = sort_values ps in fsub (nanmean (drop (length s - 4) s)) (nanmean (take 4 s)))"

definition day_groups :: "'a hourly_scheme list \<Rightarrow> year_month \<Rightarrow> 'a hourly_scheme list list" where
  "day_groups df ym =
     map snd (filter (\<lambda>(k, g). (fst k, fst (snd k)) = ym) (groupby ymd_key df))"

definition full_days :: "'a hourly_scheme list \<Rightarrow> year_month \<Rightarrow> 'a hourly_scheme list list" where
  "full_days df ym = filter (\<lambda>g. 8 \<le> length g) (day_groups df ym)"

definition finite_prices :: "'a hourly_scheme list \<Rightarrow> bool" where
  "finite_prices g \<longleftrightarrow> list_all (\<lambda>r. is_finite (day_ahead_price_eur_mwh r)) g"

definition mk_hourly :: "int \<Rightarrow> nat \<Rightarrow> nat \<Rightarrow> nat \<Rightarrow> fval \<Rightarrow> fval \<Rightarrow> fval \<Rightarrow> hourly" where
  "mk_hourly y m d h res price solar =
     with_datetime
       \<lparr>datetime_utc = Some [], residual_load_mw_avg = res, day_ahead_price_eur_mwh = price,
          solar_mw_avg = solar\<rparr>
       (Some \<lparr>ts_year = y, ts_month = m, ts_day = d, ts_hour = h, ts_minute = 0, ts_second = 0\<rparr>)"

definition example_day :: "hourly list" where
  "example_day =
     map (\<lambda>(h, res, p). mk_hourly 2024 1 1 h (Fin res) (Fin p) (Fin 5))
       [(0, 100, 10), (1, -5, 80), (2, 100, 30), (3, 100, 20),
        (4, 100, 50), (5, 100, 70), (6, 100, 60), (7, 100, 40)]"

definition example_short_day :: "hourly list" where
  "example_short_day =
     map (\<lambda>(h, res, p). mk_hourly 2024 1 2 h (Fin res) (Fin p) (Fin 0))
       [(0, -5, -12), (1, 61000, 300), (2, 100, 12)]"

lemmas monthly_defs [frame_defs] =
  daily_spread_def ymd_key_def ym_key_def daily_spreads_def spread_ym_def monthly_spread_def
  monthly_agg_def calculate_monthly_stats_def spread_value_def day_groups_def full_days_def
  finite_prices_def mk_hourly_def example_day_def example_short_day_def

section \<open>The spread of one day\<close>

lemma daily_spread_eq:
  "daily_spread g =
     (if length g < 8 then None else Some (spread_value (map day_ahead_price_eur_mwh g)))"
  by (simp add: daily_spread_def spread_value_def Let_def)

lemma of_option_daily_spread:
  "of_option (daily_spread g) =
     (if 8 \<le> length g then spread_value (map day_ahead_price_eur_mwh g) else NaN)"
  by (simp add: daily_spread_eq of_option_def)

lemma spread_value_Fin:
  assumes "4 \<le> length ps"
  shows "spread_value (map Fin ps) =
         Fin (sum_list (drop (length ps - 4) (sort ps)) / 4 - sum_list (take 4 (sort ps)) / 4)"
proof -
  have top: "nanmean (map Fin (drop (length ps - 4) (sort ps)))
           = Fin (sum_list (drop (length ps - 4) (sort ps)) / real 4)"
    by (rule nanmean_Fin_len) (use assms in simp_all)
  have bot: "nanmean (map Fin (take 4 (sort ps))) = Fin (sum_list (take 4 (sort ps)) / real 4)"
    by (rule nanmean_Fin_len) (use assms in simp_all)
  show ?thesis
    using top bot by (simp add: spread_value_def sort_values_Fin Let_def drop_map take_map)
qed

lemma spread_value_nonneg:
  assumes "4 \<le> length ps"
  shows "\<exists>s. spread_value (map Fin ps) = Fin s \<and> 0 \<le> s"
proof -
  have "sum_list (take 4 (sort ps)) \<le> sum_list (drop (length (sort ps) - 4) (sort ps))"
    by (rule sum_list_take_le_drop) (use assms in simp_all)
  then show ?thesis
    using assms by (simp add: spread_value_Fin)
qed

lemma spread_value_mset: "mset ps = mset qs \<Longrightarrow> spread_value ps = spread_value qs"
  by (simp add: spread_value_def sort_values_mset [of ps qs])

text \<open>
  C5: for a day with at least eight rows whose prices are all finite, \<open>daily_spread\<close>
  returns the mean of the four highest prices minus the mean of the four lowest, the
  prices taken in ascending order.
\<close>

theorem daily_spread_finite:
  assumes "map day_ahead_price_eur_mwh g = map Fin ps" and "8 \<le> length ps"
  shows "daily_spread g =
         Some (Fin (sum_list (drop (length ps - 4) (sort ps)) / 4 - sum_list (take 4 (sort ps)) / 4))"
proof -
  from assms(1) have "length g = length ps"
    by (rule map_eq_imp_length_eq)
  with assms show ?thesis
    by (simp add: daily_spread_eq spread_value_Fin)
qed

theorem daily_spread_finite_witness:
  "daily_spread example_day = Some (Fin 40)"
  using daily_spread_finite [of example_day "[10, 80, 30, 20, 50, 70, 60, 40]"]
  by (simp add: example_day_def mk_hourly_def)

text \<open>
  C37: the spread of a day with at least eight finite prices is a finite number and never
  negative.
\<close>

theorem daily_spread_nonneg:
  assumes "map day_ahead_price_eur_mwh g = map Fin ps" and "8 \<le> length ps"
  shows "\<exists>s. daily_spread g = Some (Fin s) \<and> 0 \<le> s"
proof -
  from assms(1) have "length g = length ps"
    by (rule map_eq_imp_length_eq)
  moreover from assms(2) have "\<exists>s. spread_value (map Fin ps) = Fin s \<and> 0 \<le> s"
    by (intro spread_value_nonneg) simp
  ultimately show ?thesis
    using assms by (simp add: daily_spread_eq)
qed

theorem daily_spread_nonneg_witness:
  "\<exists>s. daily_spread example_day = Some (Fin s) \<and> 0 \<le> s"
  using daily_spread_nonneg [of example_day "[10, 80, 30, 20, 50, 70, 60, 40]"]
  by (simp add: example_day_def mk_hourly_def)

text \<open>
  C38: the spread of a day depends on the multiset of its prices only: two days that hold
  the same prices in a different order, or with ties broken differently, have the same
  spread.
\<close>

theorem daily_spread_mset:
  assumes "mset (map day_ahead_price_eur_mwh g) = mset (map day_ahead_price_eur_mwh g')"
  shows "daily_spread g = daily_spread g'"
proof -
  from assms have "length g = length g'"
    by (metis length_map mset_eq_length)
  with assms show ?thesis
    by (simp add: daily_spread_eq spread_value_mset [OF assms])
qed

theorem daily_spread_mset_witness:
  "daily_spread (rev example_day) = daily_spread example_day"
  using daily_spread_mset [of "rev example_day" example_day]
  by (simp add: rev_map [symmetric])

section \<open>The monthly average of the daily spreads\<close>

lemma group_rows_daily_spreads:
  "map snd (group_rows spread_ym ym (daily_spreads df)) = map daily_spread (day_groups df ym)"
  by (simp add: group_rows_def daily_spreads_def agg_def day_groups_def spread_ym_def
      filter_map comp_def case_prod_unfold)

lemma keys_monthly_spread [simp]:
  "map fst (monthly_spread df) = group_keys spread_ym (daily_spreads df)"
  by (simp add: monthly_spread_def)

lemma spread_ym_simp [simp]: "spread_ym (k, s) = Some (fst k, fst (snd k))"
  by (simp add: spread_ym_def case_prod_unfold)

lemma spread_ym_daily_spreads:
  "map spread_ym (daily_spreads df) = map (\<lambda>k. Some (fst k, fst (snd k))) (group_keys ymd_key df)"
  by (simp add: daily_spreads_def agg_def groupby_def comp_def)

lemma set_keys_monthly_spread:
  "set (group_keys spread_ym (daily_spreads df)) =
     (\<lambda>k. (fst k, fst (snd k))) ` set (group_keys ymd_key df)"
proof -
  have "set (group_keys spread_ym (daily_spreads df))
      = {k. Some k \<in> set (map spread_ym (daily_spreads df))}"
    by (rule set_group_keys_image)
  also have "\<dots> = (\<lambda>k. (fst k, fst (snd k))) ` set (group_keys ymd_key df)"
    by (auto simp only: spread_ym_daily_spreads set_map image_iff)
  finally show ?thesis .
qed

lemma monthly_spread_value:
  "map_of (monthly_spread df) ym =
     (if ym \<in> set (map fst (monthly_spread df))
      then Some (nanmean (map (\<lambda>g. of_option (daily_spread g)) (day_groups df ym)))
      else None)"
proof -
  have "nanmean (map (of_option \<circ> snd) (group_rows spread_ym ym (daily_spreads df)))
      = nanmean (map of_option (map daily_spread (day_groups df ym)))"
    by (simp only: group_rows_daily_spreads [symmetric] map_map)
  then show ?thesis
    by (simp add: monthly_spread_def map_of_agg_groupby comp_def)
qed

lemma nanmean_daily_spreads_full_days:
  "nanmean (map (\<lambda>g. of_option (daily_spread g)) gs) =
   nanmean (map (\<lambda>g. spread_value (map day_ahead_price_eur_mwh g)) (filter (\<lambda>g. 8 \<le> length g) gs))"
  by (simp only: of_option_daily_spread nanmean_map_if_NaN)

text \<open>
  C14: the average spread of a month is the mean of the spreads of those of its days that
  have at least eight rows; a day with fewer rows does not enter the average, neither as
  zero nor otherwise, and a month without such a day has the average \<open>NaN\<close>.
\<close>

theorem monthly_spread_full_days:
  "map_of (monthly_spread df) ym =
     (if ym \<in> set (map fst (monthly_spread df))
      then Some (nanmean (map (\<lambda>g. spread_value (map day_ahead_price_eur_mwh g)) (full_days df ym)))
      else None)"
  by (simp only: monthly_spread_value nanmean_daily_spreads_full_days full_days_def)

theorem monthly_spread_full_days_witness:
  "map_of (monthly_spread (example_day @ example_short_day)) (2024, 1) = Some (Fin 40)"
  using monthly_spread_full_days [of "example_day @ example_short_day" "(2024, 1)"]
  by (simp add: frame_defs)

section \<open>The months of the merged table\<close>

lemma ym_key_month: "ym_key r = Some k \<Longrightarrow> month r = Some (snd k)"
  by (auto simp: ym_key_def key2_def split: option.splits)

lemma ym_key_year: "ym_key r = Some k \<Longrightarrow> year r = Some (fst k)"
  by (auto simp: ym_key_def key2_def split: option.splits)

lemma ymd_key_ym_key:
  assumes "wf_row r"
  shows "ym_key r = Some ym \<longleftrightarrow> (\<exists>k. ymd_key r = Some k \<and> (fst k, fst (snd k)) = ym)"
proof (cases "date r")
  case None
  with assms have "year r = None"
    by (simp add: wf_row_keys)
  with None show ?thesis
    by (simp add: ymd_key_def ym_key_def key2_def key3_def)
next
  case (Some d)
  then show ?thesis
    by (cases "year r"; cases "month r") (auto simp: ymd_key_def ym_key_def key2_def key3_def)
qed

lemma ym_keys_of_ymd_keys:
  assumes "wf_frame df"
  shows "(\<lambda>k. (fst k, fst (snd k))) ` set (group_keys ymd_key df) = set (group_keys ym_key df)"
    (is "?L = ?R")
proof (rule set_eqI)
  fix ym
  have "ym \<in> ?R \<longleftrightarrow> (\<exists>r\<in>set df. ym_key r = Some ym)"
    by (simp add: set_group_keys)
  also have "\<dots> \<longleftrightarrow> (\<exists>r\<in>set df. \<exists>k. ymd_key r = Some k \<and> (fst k, fst (snd k)) = ym)"
    by (rule bex_cong [OF refl]) (rule ymd_key_ym_key, rule wf_frameD [OF assms])
  also have "\<dots> \<longleftrightarrow> ym \<in> ?L"
    by (simp only: set_group_keys image_iff mem_Collect_eq) blast
  finally show "ym \<in> ?L \<longleftrightarrow> ym \<in> ?R" by simp
qed

lemma monthly_spread_keys:
  assumes "wf_frame df"
  shows "map fst (monthly_spread df) = group_keys ym_key df"
proof -
  have "set (group_keys spread_ym (daily_spreads df)) = set (group_keys ym_key df)"
    by (simp only: set_keys_monthly_spread ym_keys_of_ymd_keys [OF assms])
  then show ?thesis
    by (simp add: sorted_distinct_set_unique)
qed

lemma keys_calculate_monthly_stats:
  assumes "wf_frame df"
  shows "map fst (calculate_monthly_stats df) = group_keys ym_key df"
proof -
  have "map fst (merge_inner (agg monthly_agg (groupby ym_key df)) (monthly_spread df))
      = map fst (agg monthly_agg (groupby ym_key df))"
    by (rule keys_merge_inner)
       (simp_all only: monthly_spread_keys [OF assms] keys_agg keys_groupby distinct_group_keys
          subset_refl)
  then show ?thesis
    by (simp add: calculate_monthly_stats_def)
qed

text \<open>
  C17: on a data frame whose derived columns agree with its timestamps, the merged table
  of \<open>calculate_monthly_stats\<close> has exactly one row for every month that occurs in the
  data, in ascending order of year and month: the inner merge with the spread table drops
  no month.
\<close>

theorem calculate_monthly_stats_keys:
  assumes "wf_frame df"
  shows "set (map fst (calculate_monthly_stats df)) = {ym. \<exists>r\<in>set df. ym_key r = Some ym}
       \<and> distinct (map fst (calculate_monthly_stats df))
       \<and> sorted (map fst (calculate_monthly_stats df))"
  by (simp only: keys_calculate_monthly_stats [OF assms] set_group_keys distinct_group_keys
      sorted_group_keys simp_thms)

theorem calculate_monthly_stats_keys_witness:
  "wf_frame (example_day @ example_short_day) \<and>
   map fst (calculate_monthly_stats (example_day @ example_short_day)) = [(2024, 1)]"
proof -
  have wf: "wf_frame (example_day @ example_short_day)"
    by (simp add: wf_frame_def example_day_def example_short_day_def mk_hourly_def)
  show ?thesis
    using wf calculate_monthly_stats_keys [OF wf] by (simp add: frame_defs)
qed

lemma calculate_monthly_stats_lookup:
  assumes "wf_frame df" and "ym \<in> set (group_keys ym_key df)"
  shows "map_of (calculate_monthly_stats df) ym =
         Some (monthly_agg (group_rows ym_key ym df),
               nanmean (map (\<lambda>g. of_option (daily_spread g)) (day_groups df ym)))"
proof -
  have "ym \<in> set (map fst (monthly_spread df))"
    using assms by (simp only: monthly_spread_keys)
  then have "map_of (monthly_spread df) ym =
      Some (nanmean (map (\<lambda>g. of_option (daily_spread g)) (day_groups df ym)))"
    by (simp only: monthly_spread_value if_True)
  moreover have "distinct (map fst (monthly_spread df))"
    by simp
  ultimately show ?thesis
    using assms(2) by (simp add: calculate_monthly_stats_def map_of_merge_inner map_of_agg_groupby)
qed

text \<open>
  C4: the row of a month in the merged table holds the aggregates of exactly the rows of
  that month and the average spread of its full days.
\<close>

theorem calculate_monthly_stats_row:
  assumes "wf_frame df" and "ym \<in> set (group_keys ym_key df)"
  shows "map_of (calculate_monthly_stats df) ym =
         Some (monthly_agg (group_rows ym_key ym df),
               nanmean (map (\<lambda>g. spread_value (map day_ahead_price_eur_mwh g)) (full_days df ym)))"
  using calculate_monthly_stats_lookup [OF assms]
  by (simp only: nanmean_daily_spreads_full_days full_days_def)

theorem calculate_monthly_stats_row_witness:
  "map_of (calculate_monthly_stats (example_day @ example_short_day)) (2024, 1) =
     Some (\<lparr>avg_price = Fin 60, neg_hours = 1, avg_price_res_neg = Fin 34,
            avg_price_res_high = Fin 300\<rparr>, Fin 40)"
proof -
  have wf: "wf_frame (example_day @ example_short_day)"
    by (simp add: wf_frame_def example_day_def example_short_day_def mk_hourly_def)
  have key: "(2024, 1) \<in> set (group_keys ym_key (example_day @ example_short_day))"
    by (simp add: frame_defs)
  show ?thesis
    using calculate_monthly_stats_row [OF wf key] by (simp add: frame_defs)
qed

section \<open>The aggregates of one month\<close>

lemma monthly_agg_simps [simp]:
  "avg_price (monthly_agg g) = nanmean (map day_ahead_price_eur_mwh g)"
  "neg_hours (monthly_agg g) = length (filter (\<lambda>r. flt (day_ahead_price_eur_mwh r) (Fin 0)) g)"
  "avg_price_res_neg (monthly_agg g) =
     nanmean (map day_ahead_price_eur_mwh (filter (\<lambda>r. flt (residual_load_mw_avg r) (Fin 0)) g))"
  "avg_price_res_high (monthly_agg g) =
     nanmean (map day_ahead_price_eur_mwh (filter (\<lambda>r. fgt (residual_load_mw_avg r) (Fin 60000)) g))"
  by (simp_all add: monthly_agg_def)

lemma finite_prices_filter: "finite_prices g \<Longrightarrow> finite_prices (filter P g)"
  by (simp add: finite_prices_def list_all_iff)

lemma finite_prices_map:
  "finite_prices g \<longleftrightarrow> list_all is_finite (map day_ahead_price_eur_mwh g)"
  by (simp add: finite_prices_def list_all_iff)

lemma finite_prices_obtain:
  assumes "finite_prices g"
  obtains ps where "map day_ahead_price_eur_mwh g = map Fin ps"
  using assms by (auto simp: finite_prices_map list_all_finite_iff)

lemma nanmean_prices_NaN_iff:
  "finite_prices g \<Longrightarrow> nanmean (map day_ahead_price_eur_mwh g) = NaN \<longleftrightarrow> g = []"
  by (simp add: finite_prices_map nanmean_finite_NaN_iff)

lemma neg_hours_le: "neg_hours (monthly_agg g) \<le> length g"
  by simp

text \<open>
  C35: when the prices of a month are finite, its average price over the hours of negative
  residual load is \<open>NaN\<close> exactly when the month has no such hour, and its average price
  over the hours of residual load above 60000 is \<open>NaN\<close> exactly when it has no such hour:
  an empty selection gives an undefined cell, never zero.
\<close>

theorem avg_price_res_undefined:
  assumes "finite_prices g"
  shows "(avg_price_res_neg (monthly_agg g) = NaN \<longleftrightarrow>
            (\<forall>r\<in>set g. \<not> flt (residual_load_mw_avg r) (Fin 0)))
       \<and> (avg_price_res_high (monthly_agg g) = NaN \<longleftrightarrow>
            (\<forall>r\<in>set g. \<not> fgt (residual_load_mw_avg r) (Fin 60000)))"
  using assms
  by (simp add: nanmean_prices_NaN_iff finite_prices_filter filter_empty_conv)

theorem avg_price_res_undefined_witness:
  "avg_price_res_neg (monthly_agg example_day) \<noteq> NaN
   \<and> avg_price_res_high (monthly_agg example_day) = NaN"
proof -
  have "finite_prices example_day"
    by (simp add: frame_defs)
  from avg_price_res_undefined [OF this] show ?thesis
    by (simp add: example_day_def mk_hourly_def)
qed

text \<open>
  The average price of a non-empty month with finite prices is a finite number that lies
  between any lower and upper bound of the hourly prices.
\<close>

lemma avg_price_bounds:
  assumes "finite_prices g" and "g \<noteq> []"
    and "\<forall>r\<in>set g. fge (day_ahead_price_eur_mwh r) (Fin a) \<and> fge (Fin b) (day_ahead_price_eur_mwh r)"
  shows "\<exists>v. avg_price (monthly_agg g) = Fin v \<and> a \<le> v \<and> v \<le> b"
proof -
  from assms(1) obtain ps where ps: "map day_ahead_price_eur_mwh g = map Fin ps"
    by (rule finite_prices_obtain)
  then have len: "length ps = length g"
    by (metis length_map)
  have "\<forall>p\<in>set ps. a \<le> p \<and> p \<le> b"
  proof
    fix p
    assume "p \<in> set ps"
    then have "Fin p \<in> set (map day_ahead_price_eur_mwh g)"
      by (simp add: ps)
    then obtain r where "r \<in> set g" "day_ahead_price_eur_mwh r = Fin p"
      by auto
    with assms(3) show "a \<le> p \<and> p \<le> b"
      by force
  qed
  moreover from len assms(2) have "ps \<noteq> []"
    by auto
  ultimately have "a \<le> sum_list ps / real (length ps) \<and> sum_list ps / real (length ps) \<le> b"
    by (intro mean_bounds)
  with \<open>ps \<noteq> []\<close> show ?thesis
    by (simp add: ps nanmean_Fin)
qed

section \<open>Refinement of the reference computation\<close>

lemma monthly_agg_filters:
  assumes "finite_frame g"
  shows "filter (\<lambda>r. flt (day_ahead_price_eur_mwh r) (Fin 0)) g = filter (\<lambda>r. price_of r < 0) g"
    and "filter (\<lambda>r. flt (residual_load_mw_avg r) (Fin 0)) g = filter (\<lambda>r. residual_of r < 0) g"
    and "filter (\<lambda>r. fgt (residual_load_mw_avg r) (Fin 60000)) g = filter (\<lambda>r. 60000 < residual_of r) g"
  by (rule finite_frame_filter_cong [OF assms], simp)+

lemma cell_nanmean_prices: "finite_frame g \<Longrightarrow> cell (nanmean (map day_ahead_price_eur_mwh g)) = mean (map price_of g)"
  by (simp only: finite_frame_prices cell_nanmean_Fin)

lemma monthly_agg_cells:
  assumes "finite_frame g"
  shows "cell (avg_price (monthly_agg g)) = spec_avg_price g"
    and "neg_hours (monthly_agg g) = spec_neg_hours g"
    and "cell (avg_price_res_neg (monthly_agg g)) = spec_avg_price_res_neg g"
    and "cell (avg_price_res_high (monthly_agg g)) = spec_avg_price_res_high g"
  using assms
  by (simp_all add: monthly_agg_filters cell_nanmean_prices finite_frame_filter
      spec_avg_price_def spec_neg_hours_def spec_avg_price_res_neg_def spec_avg_price_res_high_def)

lemma spec_daily_spread_eq:
  "spec_daily_spread g =
     (if length g < 8 then None
      else Some (sum_list (drop (length g - 4) (sort (map price_of g))) / 4
                 - sum_list (take 4 (sort (map price_of g))) / 4))"
  by (simp add: spec_daily_spread_def Let_def)

lemma daily_spread_Fin:
  assumes "finite_frame g"
  shows "daily_spread g = map_option Fin (spec_daily_spread g)"
proof (cases "length g < 8")
  case True
  then show ?thesis
    by (simp add: daily_spread_eq spec_daily_spread_eq)
next
  case False
  then have "4 \<le> length (map price_of g)"
    by simp
  from spread_value_Fin [OF this] False show ?thesis
    by (simp add: daily_spread_eq spec_daily_spread_eq finite_frame_prices [OF assms])
qed

lemma daily_spread_refines:
  assumes "finite_frame g"
  shows "(case daily_spread g of None \<Rightarrow> None | Some v \<Rightarrow> cell v) = spec_daily_spread g"
  by (simp add: daily_spread_Fin [OF assms] split: option.split)

lemma of_option_daily_spread_spec:
  "finite_frame g \<Longrightarrow>
   of_option (daily_spread g) = (case spec_daily_spread g of None \<Rightarrow> NaN | Some s \<Rightarrow> Fin s)"
  by (simp add: daily_spread_Fin of_option_def split: option.split)

lemma filter_notna_map_filter:
  "filter notna (map (\<lambda>x. case f x of None \<Rightarrow> NaN | Some s \<Rightarrow> Fin s) xs) = map Fin (List.map_filter f xs)"
  by (induction xs) (auto simp: List.map_filter_def split: option.splits)

lemma cell_nanmean_daily_spreads:
  assumes "\<forall>g\<in>set gs. finite_frame g"
  shows "cell (nanmean (map (\<lambda>g. of_option (daily_spread g)) gs)) = spec_avg_spread gs"
proof -
  have "map (\<lambda>g. of_option (daily_spread g)) gs
      = map (\<lambda>g. case spec_daily_spread g of None \<Rightarrow> NaN | Some s \<Rightarrow> Fin s) gs"
    using assms by (simp add: of_option_daily_spread_spec)
  then have "nanmean (map (\<lambda>g. of_option (daily_spread g)) gs)
      = nanmean (map Fin (List.map_filter spec_daily_spread gs))"
    by (simp only: nanmean_cong_notna [OF trans [OF filter_notna_map_filter filter_notna_Fin [symmetric]]])
  then show ?thesis
    by (simp only: cell_nanmean_Fin spec_avg_spread_def)
qed

lemma day_groups_subset: "g \<in> set (day_groups df ym) \<Longrightarrow> set g \<subseteq> set df"
  by (auto simp: day_groups_def groupby_member group_rows_def)

text \<open>
  C2: on a frame whose derived columns agree with its timestamps and whose cells are all
  finite, every month of the data has a row in the result of \<open>calculate_monthly_stats\<close>,
  and its five computed columns are the statistics of the specification for the rows of
  that month.
\<close>

theorem calculate_monthly_stats_refines:
  assumes "wf_frame df" and "finite_frame df" and "ym \<in> set (group_keys ym_key df)"
  shows "\<exists>row s. map_of (calculate_monthly_stats df) ym = Some (row, s)
       \<and> cell (avg_price row) = spec_avg_price (group_rows ym_key ym df)
       \<and> neg_hours row = spec_neg_hours (group_rows ym_key ym df)
       \<and> cell (avg_price_res_neg row) = spec_avg_price_res_neg (group_rows ym_key ym df)
       \<and> cell (avg_price_res_high row) = spec_avg_price_res_high (group_rows ym_key ym df)
       \<and> cell s = spec_avg_spread (day_groups df ym)"
proof -
  have "finite_frame (group_rows ym_key ym df)"
    using assms(2) group_rows_subset by (rule finite_frame_subset)
  note agg = monthly_agg_cells [OF this]
  have "\<forall>g\<in>set (day_groups df ym). finite_frame g"
    using assms(2) day_groups_subset by (blast intro: finite_frame_subset)
  then have "cell (nanmean (map (\<lambda>g. of_option (daily_spread g)) (day_groups df ym)))
           = spec_avg_spread (day_groups df ym)"
    by (rule cell_nanmean_daily_spreads)
  with agg calculate_monthly_stats_lookup [OF assms(1,3)] show ?thesis
    by blast
qed

theorem calculate_monthly_stats_refines_witness:
  "\<exists>row s. map_of (calculate_monthly_stats (example_day @ example_short_day)) (2024, 1) = Some (row, s)
     \<and> cell (avg_price row) = Some 60 \<and> neg_hours row = 1 \<and> cell s = Some 40"
proof -
  have "wf_frame (example_day @ example_short_day)" "finite_frame (example_day @ example_short_day)"
       "(2024, 1) \<in> set (group_keys ym_key (example_day @ example_short_day))"
    by (simp_all add: frame_defs)
  from calculate_monthly_stats_refines [OF this] show ?thesis
    by (simp add: frame_defs)
qed

end
