(* ===== verification/Capture_Prices.thy ===== *)
theory Capture_Prices
  imports Monthly_Stats
begin

text \<open>
  The solar capture prices of \<^verbatim>\<open>src/app.py\<close>: \<^verbatim>\<open>calculate_capture_prices\<close> (lines 54 to
  80), which works per month, and the yearly overview that \<^verbatim>\<open>main\<close> computes inline with
  the same formulas (lines 121 to 137). \<open>with_solar_revenue\<close> adds the column
  \<^verbatim>\<open>solar_revenue\<close> to a row; \<open>agg_all\<close> and \<open>agg_pos\<close> are the two dictionaries of
  reductions passed to \<^verbatim>\<open>agg\<close>; \<open>derive\<close> computes the four derived columns of a merged
  row, where a month that is absent from the table of the non-negative prices has \<open>NaN\<close>
  in both of its columns. The lemmas identify the rows of the result, relate the derived
  columns on finite input to the quotients of real sums that the specification names,
  bound the capture price by the hourly prices, and relate the yearly sums to the monthly
  ones.
\<close>

section \<open>Revenue column\<close>

record hourly_rev = hourly +
  solar_revenue :: fval

definition with_solar_revenue :: "hourly \<Rightarrow> hourly_rev" where
  "with_solar_revenue r =
     hourly.extend r (hourly_rev.fields (fmul (solar_mw_avg r) (day_ahead_price_eur_mwh r)))"

definition nonneg_price :: "'a hourly_scheme \<Rightarrow> bool" where
  "nonneg_price r \<longleftrightarrow> fge (day_ahead_price_eur_mwh r) (Fin 0)"

section \<open>Grouped sums\<close>

record grouped =
  solar_mw_avg_sum :: fval
  solar_revenue_sum :: fval
  price_mean :: fval

record pos_sums =
  pos_mw :: fval
  pos_rev :: fval

definition agg_all :: "hourly_rev list \<Rightarrow> grouped" where
  "agg_all g =
     \<lparr>solar_mw_avg_sum = nansum (map solar_mw_avg g),
      solar_revenue_sum = nansum (map solar_revenue g),
      price_mean = nanmean (map day_ahead_price_eur_mwh g)\<rparr>"

definition agg_pos :: "hourly_rev list \<Rightarrow> pos_sums" where
  "agg_pos g = \<lparr>pos_mw = nansum (map solar_mw_avg g), pos_rev = nansum (map solar_revenue g)\<rparr>"

section \<open>Derived columns\<close>

record capture_row = grouped +
  solar_mw_pos :: fval
  solar_rev_pos :: fval
  pv_price :: fval
  pv_price_pos :: fval
  baseload_price :: fval
  capture_rate :: fval

definition derive :: "grouped \<Rightarrow> pos_sums option \<Rightarrow> capture_row" where
  "derive a b =
     (let mw_pos = (case b of None \<Rightarrow> NaN | Some p \<Rightarrow> pos_mw p);
          rev_pos = (case b of None \<Rightarrow> NaN | Some p \<Rightarrow> pos_rev p);
          pv = fdiv (solar_revenue_sum a) (solar_mw_avg_sum a);
          pv_pos = fdiv rev_pos mw_pos;
          baseload = price_mean a
      in grouped.extend a
           (capture_row.fields mw_pos rev_pos pv pv_pos baseload (fdiv pv baseload)))"

definition calculate_capture_prices :: "hourly list \<Rightarrow> (year_month \<times> capture_row) list" where
  "calculate_capture_prices df0 =
     (let df = map with_solar_revenue df0;
          df_pos = filter nonneg_price df;
          monthly_grouped = agg agg_all (groupby ym_key df);
          monthly_pos = agg agg_pos (groupby ym_key df_pos);
          merged = merge_left monthly_grouped monthly_pos
      in map (\<lambda>(k, a, b). (k, derive a b)) merged)"

section \<open>Yearly overview\<close>

record yearly_row =
  PV_Price :: fval
  PV_Price_Pos :: fval
  Baseload_Price :: fval
  Capture_Rate :: fval

definition y_grp :: "hourly list \<Rightarrow> (int \<times> grouped) list" where
  "y_grp df = agg agg_all (groupby year (map with_solar_revenue df))"

definition y_pos_grp :: "hourly list \<Rightarrow> (int \<times> pos_sums) list" where
  "y_pos_grp df = agg agg_pos (groupby year (filter nonneg_price (map with_solar_revenue df)))"

definition yearly_overview :: "hourly list \<Rightarrow> (int \<times> yearly_row) list" where
  "yearly_overview df =
     (let pv = map (\<lambda>(y, a). (y, fdiv (solar_revenue_sum a) (solar_mw_avg_sum a))) (y_grp df);
          pv_pos = map (\<lambda>(y, b). (y, fdiv (pos_rev b) (pos_mw b))) (y_pos_grp df);
          baseload = map (\<lambda>(y, a). (y, price_mean a)) (y_grp df)
      in map (\<lambda>y. (y, \<lparr>PV_Price = at_label pv y, PV_Price_Pos = at_label pv_pos y,
                          Baseload_Price = at_label baseload y,
                          Capture_Rate = fdiv (at_label pv y) (at_label baseload y)\<rparr>))
           (union_index [map fst pv, map fst pv_pos, map fst baseload]))"

section \<open>Notions used to state the properties\<close>

definition group_capture :: "hourly_rev list \<Rightarrow> capture_row" where
  "group_capture g =
     (let p = filter nonneg_price g
      in derive (agg_all g) (if p = [] then None else Some (agg_pos p)))"

definition to_yearly :: "capture_row \<Rightarrow> yearly_row" where
  "to_yearly c = \<lparr>PV_Price = pv_price c, PV_Price_Pos = pv_price_pos c,
                   Baseload_Price = baseload_price c, Capture_Rate = capture_rate c\<rparr>"

definition example_year :: "hourly list" where
  "example_year =
     example_day @ example_short_day @
     [mk_hourly 2024 2 1 0 (Fin 10) (Fin (- 5)) (Fin 2),
      mk_hourly 2024 2 1 1 (Fin 10) (Fin (- 1)) (Fin 0),
      mk_hourly 2025 2 1 0 (Fin 10) (Fin 4) (Fin 2)]"

definition example_zero_price :: "hourly list" where
  "example_zero_price = [mk_hourly 2024 3 1 0 (Fin 10) (Fin 0) (Fin 2)]"

definition example_zero_baseload :: "hourly list" where
  "example_zero_baseload =
     [mk_hourly 2024 4 1 0 (Fin 10) (Fin 4) (Fin 2), mk_hourly 2024 4 1 1 (Fin 10) (Fin (- 4)) (Fin 0)]"

definition example_nan_price :: "hourly list" where
  "example_nan_price =
     [mk_hourly 2024 5 1 0 (Fin 10) NaN (Fin 2), mk_hourly 2024 5 1 1 (Fin 10) (Fin 10) (Fin 2)]"

lemmas capture_defs [frame_defs] =
  with_solar_revenue_def nonneg_price_def agg_all_def agg_pos_def derive_def
  calculate_capture_prices_def y_grp_def y_pos_grp_def yearly_overview_def
  hourly.extend_def hourly_rev.fields_def grouped.extend_def capture_row.fields_def
  group_capture_def to_yearly_def example_year_def example_zero_price_def
  example_zero_baseload_def example_nan_price_def

section \<open>Columns of a derived row\<close>

lemma with_solar_revenue_simps [simp]:
  "solar_revenue (with_solar_revenue r) = fmul (solar_mw_avg r) (day_ahead_price_eur_mwh r)"
  "solar_mw_avg (with_solar_revenue r) = solar_mw_avg r"
  "day_ahead_price_eur_mwh (with_solar_revenue r) = day_ahead_price_eur_mwh r"
  "residual_load_mw_avg (with_solar_revenue r) = residual_load_mw_avg r"
  "year (with_solar_revenue r) = year r"
  "month (with_solar_revenue r) = month r"
  "date (with_solar_revenue r) = date r"
  "datetime (with_solar_revenue r) = datetime r"
  by (simp_all add: with_solar_revenue_def hourly.extend_def hourly_rev.fields_def)

lemma key_with_solar_revenue [simp]:
  "ym_key \<circ> with_solar_revenue = ym_key" "year \<circ> with_solar_revenue = year"
  by (simp_all add: fun_eq_iff ym_key_def key2_def)

lemma nonneg_price_with_solar_revenue [simp]:
  "nonneg_price (with_solar_revenue r) = nonneg_price r"
  by (simp add: nonneg_price_def)

lemma derive_simps [simp]:
  "pv_price (derive a b) = fdiv (solar_revenue_sum a) (solar_mw_avg_sum a)"
  "pv_price_pos (derive a b) = (case b of None \<Rightarrow> NaN | Some p \<Rightarrow> fdiv (pos_rev p) (pos_mw p))"
  "baseload_price (derive a b) = price_mean a"
  "capture_rate (derive a b) = fdiv (fdiv (solar_revenue_sum a) (solar_mw_avg_sum a)) (price_mean a)"
  "solar_mw_pos (derive a b) = (case b of None \<Rightarrow> NaN | Some p \<Rightarrow> pos_mw p)"
  "solar_rev_pos (derive a b) = (case b of None \<Rightarrow> NaN | Some p \<Rightarrow> pos_rev p)"
  "solar_mw_avg_sum (derive a b) = solar_mw_avg_sum a"
  "solar_revenue_sum (derive a b) = solar_revenue_sum a"
  "price_mean (derive a b) = price_mean a"
  by (simp_all add: derive_def grouped.extend_def capture_row.fields_def Let_def split: option.splits)

lemma capture_rate_derive: "capture_rate (derive a b) = fdiv (pv_price (derive a b)) (baseload_price (derive a b))"
  by simp

section \<open>The rows of the monthly table\<close>

lemma map_of_pos_table:
  "map_of (agg agg_pos (groupby key (filter nonneg_price rows))) k =
     (let p = filter nonneg_price (group_rows key k rows)
      in if p = [] then None else Some (agg_pos p))"
  by (simp add: map_of_agg_groupby mem_group_keys_iff group_rows_filter_commute Let_def)

lemma capture_table:
  assumes "\<And>r. keyr (with_solar_revenue r) = key r"
  shows "map (\<lambda>(k, a, b). (k, derive a b))
           (merge_left (agg agg_all (groupby keyr (map with_solar_revenue df)))
                       (agg agg_pos (groupby keyr (filter nonneg_price (map with_solar_revenue df)))))
       = map (\<lambda>k. (k, group_capture (map with_solar_revenue (group_rows key k df))))
           (group_keys key df)"
proof -
  let ?df = "map with_solar_revenue df"
  have key: "keyr \<circ> with_solar_revenue = key"
    by (simp add: fun_eq_iff assms)
  have L: "agg agg_all (groupby keyr ?df) =
           map (\<lambda>k. (k, agg_all (map with_solar_revenue (group_rows key k df))))
             (group_keys key df)"
    by (simp add: agg_groupby_eq group_keys_map group_rows_map key)
  have R: "map_of (agg agg_pos (groupby keyr (filter nonneg_price ?df))) k =
           (let p = filter nonneg_price (map with_solar_revenue (group_rows key k df))
            in if p = [] then None else Some (agg_pos p))" for k
    by (simp add: map_of_pos_table group_rows_map key)
  show ?thesis
    by (simp add: merge_left_lookup L R group_capture_def Let_def comp_def)
qed

lemma ym_key_with_solar_revenue: "ym_key (with_solar_revenue r) = ym_key r"
  by (simp add: ym_key_def key2_def)

text \<open>
  C3: the table of \<open>calculate_capture_prices\<close> has one row for every month of the data, in
  ascending order, and the row of a month is computed from the rows of that month alone:
  the sums and the mean over all its hours, the sums over its hours of non-negative price
  (both \<open>NaN\<close> when it has no such hour), and the four derived columns.
\<close>

theorem calculate_capture_prices_rows:
  "calculate_capture_prices df =
     map (\<lambda>ym. (ym, group_capture (map with_solar_revenue (group_rows ym_key ym df))))
       (group_keys ym_key df)"
  unfolding calculate_capture_prices_def Let_def
  by (rule capture_table) (rule ym_key_with_solar_revenue)

lemma map_of_calculate_capture_prices:
  "map_of (calculate_capture_prices df) ym =
     (if ym \<in> set (group_keys ym_key df)
      then Some (group_capture (map with_solar_revenue (group_rows ym_key ym df))) else None)"
  unfolding calculate_capture_prices_def Let_def capture_table [of ym_key ym_key, OF ym_key_with_solar_revenue]
  by (simp add: map_of_map_restrict restrict_map_def)

section \<open>The rows of the yearly table\<close>

lemma map_of_y_grp:
  "map_of (y_grp df) y =
     (if y \<in> set (group_keys year df)
      then Some (agg_all (map with_solar_revenue (group_rows year y df))) else None)"
  by (simp add: y_grp_def map_of_agg_groupby group_keys_map group_rows_map)

lemma map_of_y_pos_grp:
  "map_of (y_pos_grp df) y =
     (let p = filter nonneg_price (map with_solar_revenue (group_rows year y df))
      in if p = [] then None else Some (agg_pos p))"
  by (simp add: y_pos_grp_def map_of_pos_table group_rows_map)

lemma keys_y_grp [simp]: "map fst (y_grp df) = group_keys year df"
  by (simp add: y_grp_def group_keys_map)

lemma keys_y_pos_grp: "set (map fst (y_pos_grp df)) \<subseteq> set (group_keys year df)"
  using group_keys_filter_subset [of year nonneg_price "map with_solar_revenue df"]
  by (simp add: y_pos_grp_def group_keys_map)

lemma yearly_index:
  "union_index [map fst (map (\<lambda>(y, a). (y, f a)) (y_grp df)),
                map fst (map (\<lambda>(y, b). (y, g b)) (y_pos_grp df)),
                map fst (map (\<lambda>(y, a). (y, h a)) (y_grp df))] = group_keys year df"
  unfolding keys_map_values using keys_y_pos_grp [of df]
  by (intro union_index_subsumed) simp_all

lemma yearly_cells:
  assumes "y \<in> set (group_keys year df)"
  defines "c \<equiv> group_capture (map with_solar_revenue (group_rows year y df))"
  shows "at_label (map (\<lambda>(y, a). (y, fdiv (solar_revenue_sum a) (solar_mw_avg_sum a))) (y_grp df)) y
           = pv_price c"
    and "at_label (map (\<lambda>(y, b). (y, fdiv (pos_rev b) (pos_mw b))) (y_pos_grp df)) y = pv_price_pos c"
    and "at_label (map (\<lambda>(y, a). (y, price_mean a)) (y_grp df)) y = baseload_price c"
  using assms(1)
  by (simp_all add: c_def at_label_map map_of_y_grp map_of_y_pos_grp group_capture_def
      of_option_def Let_def)

text \<open>
  C16: the yearly overview has one row for every year of the data, in ascending order, and
  the row of a year is computed from the rows of that year by the same formulas as a
  monthly row: the yearly capture price is the quotient of the sums over the whole year.
\<close>

theorem yearly_overview_rows:
  "yearly_overview df =
     map (\<lambda>y. (y, to_yearly (group_capture (map with_solar_revenue (group_rows year y df)))))
       (group_keys year df)"
  unfolding yearly_overview_def Let_def yearly_index
  by (rule map_cong [OF refl]) (simp add: yearly_cells to_yearly_def capture_rate_derive group_capture_def Let_def)

lemma map_of_yearly_overview:
  "map_of (yearly_overview df) y =
     (if y \<in> set (group_keys year df)
      then Some (to_yearly (group_capture (map with_solar_revenue (group_rows year y df)))) else None)"
  unfolding yearly_overview_def Let_def yearly_index
  by (simp add: map_of_map_restrict restrict_map_def yearly_cells to_yearly_def capture_rate_derive
      group_capture_def Let_def)

lemma to_yearly_simps [simp]:
  "PV_Price (to_yearly c) = pv_price c" "PV_Price_Pos (to_yearly c) = pv_price_pos c"
  "Baseload_Price (to_yearly c) = baseload_price c" "Capture_Rate (to_yearly c) = capture_rate c"
  by (simp_all add: to_yearly_def)

section \<open>Refinement of the reference computation\<close>

lemma spec_with_solar_revenue [simp]:
  "price_of (with_solar_revenue r) = price_of r" "solar_of (with_solar_revenue r) = solar_of r"
  by (simp_all add: price_of_def solar_of_def)

lemma finite_frame_with_solar_revenue [simp]:
  "finite_frame (map with_solar_revenue g) = finite_frame g"
  by (induction g) (simp_all add: finite_frame_def finite_row_def)

lemma finite_frame_revenue:
  "finite_frame g \<Longrightarrow> map solar_revenue (map with_solar_revenue g) = map Fin (map spec_solar_revenue g)"
  by (induction g) (simp_all add: finite_frame_def finite_row_def spec_solar_revenue_def solar_of_def price_of_def fmul_val)

lemma map_with_solar_revenue [simp]:
  "map solar_mw_avg (map with_solar_revenue g) = map solar_mw_avg g"
  "map day_ahead_price_eur_mwh (map with_solar_revenue g) = map day_ahead_price_eur_mwh g"
  "map price_of (map with_solar_revenue g) = map price_of g"
  "map solar_of (map with_solar_revenue g) = map solar_of g"
  "map spec_solar_revenue (map with_solar_revenue g) = map spec_solar_revenue g"
  by (simp_all add: spec_solar_revenue_def)

lemma agg_all_finite:
  assumes "finite_frame g"
  shows "solar_mw_avg_sum (agg_all (map with_solar_revenue g)) = Fin (\<Sum>r\<leftarrow>g. solar_of r)"
    and "solar_revenue_sum (agg_all (map with_solar_revenue g)) = Fin (\<Sum>r\<leftarrow>g. spec_solar_revenue r)"
    and "price_mean (agg_all (map with_solar_revenue g)) = nanmean (map Fin (map price_of g))"
  unfolding agg_all_def grouped.simps map_with_solar_revenue
  by (simp_all only: finite_frame_solar [OF assms] finite_frame_revenue [OF assms]
      finite_frame_prices [OF assms] nansum_Fin)

lemma agg_pos_finite:
  assumes "finite_frame g"
  shows "pos_mw (agg_pos (map with_solar_revenue g)) = Fin (\<Sum>r\<leftarrow>g. solar_of r)"
    and "pos_rev (agg_pos (map with_solar_revenue g)) = Fin (\<Sum>r\<leftarrow>g. spec_solar_revenue r)"
  unfolding agg_pos_def pos_sums.simps map_with_solar_revenue
  by (simp_all only: finite_frame_solar [OF assms] finite_frame_revenue [OF assms] nansum_Fin)

lemma filter_nonneg_price:
  assumes "finite_frame g"
  shows "filter nonneg_price (map with_solar_revenue g) = map with_solar_revenue (filter (\<lambda>r. 0 \<le> price_of r) g)"
proof -
  have "filter (\<lambda>r. fge (day_ahead_price_eur_mwh r) (Fin 0)) g = filter (\<lambda>r. 0 \<le> price_of r) g"
    by (rule finite_frame_filter_cong [OF assms]) simp
  then show ?thesis
    by (simp add: filter_map comp_def nonneg_price_def)
qed

lemma cell_mean_not_inf: "cell (fdiv x (nanmean (map Fin ps))) = (case (cell x, mean ps) of (Some n, Some d) \<Rightarrow> ratio n d | _ \<Rightarrow> None)"
  by (cases x) (auto simp: nanmean_Fin mean_def ratio_def)

lemma group_capture_cells:
  assumes "finite_frame g"
  defines "c \<equiv> group_capture (map with_solar_revenue g)"
  shows "cell (pv_price c) = spec_pv_price g"
    and "cell (pv_price_pos c) = spec_pv_price_pos g"
    and "cell (baseload_price c) = spec_baseload_price g"
    and "cell (capture_rate c) = spec_capture_rate g"
proof -
  note all = agg_all_finite [OF assms(1)]
  show "cell (pv_price c) = spec_pv_price g"
    unfolding c_def group_capture_def Let_def derive_simps all
    by (simp only: cell_fdiv_Fin spec_pv_price_def)
  show "cell (baseload_price c) = spec_baseload_price g"
    unfolding c_def group_capture_def Let_def derive_simps all
    by (simp only: cell_nanmean_Fin spec_baseload_price_def)
  show "cell (capture_rate c) = spec_capture_rate g"
    unfolding c_def group_capture_def Let_def derive_simps all
    by (simp only: cell_mean_not_inf cell_fdiv_Fin spec_capture_rate_def spec_pv_price_def
        spec_baseload_price_def)
  have "finite_frame (filter (\<lambda>r. 0 \<le> price_of r) g)"
    using assms(1) by (rule finite_frame_filter)
  note pos = agg_pos_finite [OF this]
  show "cell (pv_price_pos c) = spec_pv_price_pos g"
    unfolding c_def group_capture_def Let_def derive_simps filter_nonneg_price [OF assms(1)]
    by (simp add: pos spec_pv_price_pos_def spec_pv_price_def ratio_def)
qed

text \<open>
  C1: on a frame whose cells are all finite, every month of the data has a row in the
  result of \<open>calculate_capture_prices\<close>, and its four derived columns are the quantities
  of the specification for the rows of that month: the quotient of the revenue by the
  generation, the same over the hours of non-negative price, the mean price, and their
  ratio, a quotient by zero being undefined.
\<close>

theorem calculate_capture_prices_refines:
  assumes "finite_frame df" and "ym \<in> set (group_keys ym_key df)"
  shows "\<exists>c. map_of (calculate_capture_prices df) ym = Some c
       \<and> cell (pv_price c) = spec_pv_price (group_rows ym_key ym df)
       \<and> cell (pv_price_pos c) = spec_pv_price_pos (group_rows ym_key ym df)
       \<and> cell (baseload_price c) = spec_baseload_price (group_rows ym_key ym df)
       \<and> cell (capture_rate c) = spec_capture_rate (group_rows ym_key ym df)"
proof -
  have "finite_frame (group_rows ym_key ym df)"
    using assms(1) group_rows_subset by (rule finite_frame_subset)
  from group_capture_cells [OF this] assms(2) show ?thesis
    by (simp add: map_of_calculate_capture_prices)
qed

theorem calculate_capture_prices_refines_witness:
  "\<exists>c. map_of (calculate_capture_prices example_year) (2024, 1) = Some c
     \<and> cell (pv_price c) = Some 45 \<and> cell (pv_price_pos c) = Some 45
     \<and> cell (baseload_price c) = Some 60 \<and> cell (capture_rate c) = Some (3 / 4)"
proof -
  have "finite_frame example_year" "(2024, 1) \<in> set (group_keys ym_key example_year)"
    by (simp_all add: frame_defs)
  from calculate_capture_prices_refines [OF this] show ?thesis
    by (simp add: frame_defs)
qed

text \<open>
  C15: on a frame whose cells are all finite, every year of the data has a row in the
  yearly overview, and its four columns are the quantities of the specification for the
  rows of that year.
\<close>

theorem yearly_overview_refines:
  assumes "finite_frame df" and "y \<in> set (group_keys year df)"
  shows "\<exists>row. map_of (yearly_overview df) y = Some row
       \<and> cell (PV_Price row) = spec_pv_price (group_rows year y df)
       \<and> cell (PV_Price_Pos row) = spec_pv_price_pos (group_rows year y df)
       \<and> cell (Baseload_Price row) = spec_baseload_price (group_rows year y df)
       \<and> cell (Capture_Rate row) = spec_capture_rate (group_rows year y df)"
proof -
  have "finite_frame (group_rows year y df)"
    using assms(1) group_rows_subset by (rule finite_frame_subset)
  from group_capture_cells [OF this] assms(2) show ?thesis
    by (simp add: map_of_yearly_overview)
qed

theorem yearly_overview_refines_witness:
  "\<exists>row. map_of (yearly_overview example_year) 2024 = Some row
     \<and> cell (PV_Price row) = Some (895 / 21) \<and> cell (PV_Price_Pos row) = Some 45
     \<and> cell (Baseload_Price row) = Some (654 / 13)"
proof -
  have "finite_frame example_year" "2024 \<in> set (group_keys year example_year)"
    by (simp_all add: frame_defs)
  from yearly_overview_refines [OF this] show ?thesis
    by (simp add: frame_defs)
qed

section \<open>The capture rate\<close>

lemma capture_row_of_table:
  assumes "(ym, c) \<in> set (calculate_capture_prices df)"
  shows "c = group_capture (map with_solar_revenue (group_rows ym_key ym df))"
  using assms unfolding calculate_capture_prices_def Let_def
    capture_table [of ym_key ym_key, OF ym_key_with_solar_revenue]
  by auto

text \<open>
  C31: in a row of the monthly table the capture rate is 1 exactly when the capture price
  and the baseload price are the same finite number other than zero.
\<close>

theorem capture_rate_one:
  assumes "(ym, c) \<in> set (calculate_capture_prices df)"
  shows "capture_rate c = Fin 1 \<longleftrightarrow> (\<exists>v. v \<noteq> 0 \<and> pv_price c = Fin v \<and> baseload_price c = Fin v)"
  unfolding capture_row_of_table [OF assms] group_capture_def Let_def
  by (simp only: capture_rate_derive fdiv_eq_one_iff)

theorem capture_rate_one_witness:
  "capture_rate (group_capture (map with_solar_revenue (group_rows ym_key (2025, 2) example_year))) = Fin 1
   \<and> pv_price (group_capture (map with_solar_revenue (group_rows ym_key (2025, 2) example_year))) = Fin 4"
proof -
  have "((2025, 2), group_capture (map with_solar_revenue (group_rows ym_key (2025, 2) example_year)))
        \<in> set (calculate_capture_prices example_year)"
    by (simp add: frame_defs)
  from capture_rate_one [OF this] show ?thesis
    by (simp add: frame_defs Let_def)
qed

section \<open>Bounds of the capture price\<close>

lemma pv_price_finite:
  assumes "finite_frame g"
  shows "pv_price (group_capture (map with_solar_revenue g))
       = fdiv (Fin (\<Sum>r\<leftarrow>g. solar_of r * price_of r)) (Fin (\<Sum>r\<leftarrow>g. solar_of r))"
  unfolding group_capture_def Let_def derive_simps agg_all_finite [OF assms]
  by (simp only: spec_solar_revenue_def [abs_def])

lemma pv_price_pos_finite:
  assumes "finite_frame g"
  shows "pv_price_pos (group_capture (map with_solar_revenue g))
       = (let p = filter (\<lambda>r. 0 \<le> price_of r) g in
          if p = [] then NaN
          else fdiv (Fin (\<Sum>r\<leftarrow>p. solar_of r * price_of r)) (Fin (\<Sum>r\<leftarrow>p. solar_of r)))"
proof -
  have "finite_frame (filter (\<lambda>r. 0 \<le> price_of r) g)"
    using assms by (rule finite_frame_filter)
  note pos = agg_pos_finite [OF this]
  show ?thesis
    unfolding group_capture_def Let_def derive_simps filter_nonneg_price [OF assms]
    by (simp add: pos spec_solar_revenue_def [abs_def])
qed

text \<open>
  C33: when no hour of a group has negative generation and the generation of the group is
  positive, the capture price is a finite number between the lowest and the highest hourly
  price of the group.
\<close>

theorem pv_price_bounds:
  assumes "finite_frame g"
    and "\<forall>r\<in>set g. 0 \<le> solar_of r \<and> lo \<le> price_of r \<and> price_of r \<le> hi"
    and "0 < (\<Sum>r\<leftarrow>g. solar_of r)"
  shows "\<exists>v. pv_price (group_capture (map with_solar_revenue g)) = Fin v \<and> lo \<le> v \<and> v \<le> hi"
  using weighted_mean_bounds [OF assms(2,3)] assms(3)
  by (simp add: pv_price_finite [OF assms(1)])

theorem pv_price_bounds_witness:
  "\<exists>v. pv_price (group_capture (map with_solar_revenue example_day)) = Fin v \<and> 10 \<le> v \<and> v \<le> 80"
proof -
  have "finite_frame example_day"
    "\<forall>r\<in>set example_day. 0 \<le> solar_of r \<and> 10 \<le> price_of r \<and> price_of r \<le> 80"
    "0 < (\<Sum>r\<leftarrow>example_day. solar_of r)"
    by (simp_all add: frame_defs)
  from pv_price_bounds [OF this] show ?thesis .
qed

text \<open>
  C34: when no hour of a group has negative generation and the generation during the hours
  of non-negative price is positive, the capture price over all hours is at most the
  capture price over the hours of non-negative price.
\<close>

theorem pv_price_le_pv_price_pos:
  assumes "finite_frame g" and "\<forall>r\<in>set g. 0 \<le> solar_of r"
    and "0 < (\<Sum>r\<leftarrow>filter (\<lambda>r. 0 \<le> price_of r) g. solar_of r)"
  shows "\<exists>v u. pv_price (group_capture (map with_solar_revenue g)) = Fin v
             \<and> pv_price_pos (group_capture (map with_solar_revenue g)) = Fin u \<and> v \<le> u"
proof -
  have "0 \<le> (\<Sum>r\<leftarrow>filter (\<lambda>r. \<not> 0 \<le> price_of r) g. solar_of r)"
    using assms(2) by (intro sum_list_nonneg) auto
  with assms(3) have "0 < (\<Sum>r\<leftarrow>g. solar_of r)"
    by (simp add: sum_list_filter_split [of solar_of g "\<lambda>r. 0 \<le> price_of r"])
  moreover from assms(3) have "filter (\<lambda>r. 0 \<le> price_of r) g \<noteq> []"
    by auto
  ultimately show ?thesis
    using ratio_filter_le [OF assms(2,3)] assms(3)
    by (simp add: pv_price_finite [OF assms(1)] pv_price_pos_finite [OF assms(1)] Let_def)
qed

theorem pv_price_le_pv_price_pos_witness:
  "\<exists>v u. pv_price (group_capture (map with_solar_revenue example_year)) = Fin v
     \<and> pv_price_pos (group_capture (map with_solar_revenue example_year)) = Fin u \<and> v \<le> u"
proof -
  have "finite_frame example_year" "\<forall>r\<in>set example_year. 0 \<le> solar_of r"
    "0 < (\<Sum>r\<leftarrow>filter (\<lambda>r. 0 \<le> price_of r) example_year. solar_of r)"
    by (simp_all add: frame_defs)
  from pv_price_le_pv_price_pos [OF this] show ?thesis .
qed

section \<open>Cells outside the specification\<close>

text \<open>
  C39: in a row of the monthly table whose baseload price is zero the capture rate is not
  missing: it is \<open>NaN\<close> when the capture price is zero too, although the two prices are
  then equal, and an infinity with the sign of the capture price otherwise.
\<close>

theorem capture_rate_zero_baseload:
  assumes "(ym, c) \<in> set (calculate_capture_prices df)" and "baseload_price c = Fin 0"
    and "pv_price c = Fin v"
  shows "capture_rate c = (if v = 0 then NaN else if 0 < v then PInf else NInf)"
proof -
  have "capture_rate c = fdiv (pv_price c) (baseload_price c)"
    unfolding capture_row_of_table [OF assms(1)] group_capture_def Let_def
    by (simp only: capture_rate_derive)
  with assms(2,3) show ?thesis
    by simp
qed

theorem capture_rate_zero_baseload_witness:
  "(\<exists>c. map_of (calculate_capture_prices example_zero_price) (2024, 3) = Some c
      \<and> pv_price c = Fin 0 \<and> baseload_price c = Fin 0 \<and> capture_rate c = NaN)
   \<and> (\<exists>c. map_of (calculate_capture_prices example_zero_baseload) (2024, 4) = Some c
      \<and> pv_price c = Fin 4 \<and> baseload_price c = Fin 0 \<and> capture_rate c = PInf)"
proof -
  let ?a = "group_capture (map with_solar_revenue (group_rows ym_key (2024, 3) example_zero_price))"
  let ?b = "group_capture (map with_solar_revenue (group_rows ym_key (2024, 4) example_zero_baseload))"
  have a: "((2024, 3), ?a) \<in> set (calculate_capture_prices example_zero_price)"
    "baseload_price ?a = Fin 0" "pv_price ?a = Fin 0"
    by (simp_all add: frame_defs Let_def)
  have b: "((2024, 4), ?b) \<in> set (calculate_capture_prices example_zero_baseload)"
    "baseload_price ?b = Fin 0" "pv_price ?b = Fin 4"
    by (simp_all add: frame_defs Let_def)
  from capture_rate_zero_baseload [OF a] capture_rate_zero_baseload [OF b] a(2,3) b(2,3) show ?thesis
    by (simp add: map_of_calculate_capture_prices mem_group_keys_iff) (simp add: frame_defs)
qed

lemma revenue_missing_price:
  assumes "\<forall>r\<in>set g. is_finite (solar_mw_avg r)
             \<and> (is_finite (day_ahead_price_eur_mwh r) \<or> day_ahead_price_eur_mwh r = NaN)"
  shows "map solar_revenue (map with_solar_revenue g) =
         map (\<lambda>r. if notna (day_ahead_price_eur_mwh r) then Fin (solar_of r * price_of r) else NaN) g"
    and "map solar_mw_avg g = map Fin (map solar_of g)"
  using assms
  by (induction g) (auto simp: notna_def solar_of_def price_of_def fmul_val is_finite_iff)

text \<open>
  C40: an hour whose price is missing adds nothing to the revenue of its month but its
  generation is counted: with finite generation, the capture price is the revenue of the
  hours that have a price divided by the generation of all hours. On the example, two
  hours of generation 2 with the prices \<open>NaN\<close> and 10, the capture price is 5.
\<close>

theorem pv_price_missing_price:
  assumes "\<forall>r\<in>set g. is_finite (solar_mw_avg r)
             \<and> (is_finite (day_ahead_price_eur_mwh r) \<or> day_ahead_price_eur_mwh r = NaN)"
  shows "pv_price (group_capture (map with_solar_revenue g)) =
         fdiv (Fin (\<Sum>r\<leftarrow>filter (\<lambda>r. notna (day_ahead_price_eur_mwh r)) g. solar_of r * price_of r))
              (Fin (\<Sum>r\<leftarrow>g. solar_of r))"
  unfolding group_capture_def Let_def derive_simps agg_all_def grouped.simps map_with_solar_revenue
  by (simp only: revenue_missing_price [OF assms] nansum_map_if_NaN nansum_Fin)

theorem pv_price_missing_price_witness:
  "\<exists>c. map_of (calculate_capture_prices example_nan_price) (2024, 5) = Some c
     \<and> baseload_price c = Fin 10 \<and> pv_price c = Fin 5"
proof -
  have "\<forall>r\<in>set (group_rows ym_key (2024, 5) example_nan_price). is_finite (solar_mw_avg r)
          \<and> (is_finite (day_ahead_price_eur_mwh r) \<or> day_ahead_price_eur_mwh r = NaN)"
    by (simp add: frame_defs)
  from pv_price_missing_price [OF this] show ?thesis
    by (simp add: map_of_calculate_capture_prices) (simp add: frame_defs Let_def)
qed

section \<open>Years and their months\<close>

lemma year_keys_of_ym_keys:
  assumes "wf_frame df"
  shows "group_keys year df = remdups (map fst (group_keys ym_key df))"
proof (rule sorted_distinct_set_unique)
  show "sorted (remdups (map fst (group_keys ym_key df)))"
    by (simp add: sorted_remdups sorted_map_fst sorted_group_keys)
  have "(\<exists>m. ym_key r = Some (y, m)) \<longleftrightarrow> year r = Some y" if "r \<in> set df" for r y
    using wf_frameD [OF assms that] wf_row_keys [of r]
    by (cases "month r") (auto simp: ym_key_def key2_def split: option.splits)
  then show "set (group_keys year df) = set (remdups (map fst (group_keys ym_key df)))"
    by (auto simp: set_group_keys image_iff) blast+
qed (simp_all add: sorted_group_keys)

lemma group_rows_year_month:
  "group_rows ym_key (y, m) (group_rows year y df) = group_rows ym_key (y, m) df"
  unfolding group_rows_def filter_filter
  by (rule filter_cong [OF refl]) (auto dest: ym_key_year)

lemma group_keys_year_month:
  "group_keys ym_key (group_rows year y df) = filter (\<lambda>k. fst k = y) (group_keys ym_key df)"
proof (rule sorted_distinct_set_unique)
  show "set (group_keys ym_key (group_rows year y df)) = set (filter (\<lambda>k. fst k = y) (group_keys ym_key df))"
    by (auto simp: set_group_keys group_rows_def dest: ym_key_year)
qed (simp_all add: sorted_group_keys sorted_wrt_filter)

lemma year_rows_have_month:
  assumes "wf_frame df"
  shows "filter (\<lambda>r. ym_key r \<noteq> None) (group_rows year y df) = group_rows year y df"
proof -
  have "ym_key r \<noteq> None" if "r \<in> set df" "year r = Some y" for r
    using wf_frameD [OF assms that(1)] wf_row_keys [of r] that(2)
    by (cases "month r") (auto simp: ym_key_def key2_def)
  then show ?thesis
    unfolding group_rows_def filter_filter by (intro filter_cong [OF refl]) auto
qed

lemma sum_year_of_months:
  fixes g :: "'r::type hourly_scheme \<Rightarrow> 'a::comm_monoid_add"
  assumes "wf_frame df"
  shows "(\<Sum>r\<leftarrow>group_rows year y df. g r)
       = (\<Sum>k\<leftarrow>filter (\<lambda>k. fst k = y) (group_keys ym_key df). \<Sum>r\<leftarrow>group_rows ym_key k df. g r)"
proof -
  have "(\<Sum>r\<leftarrow>group_rows year y df. g r)
      = (\<Sum>k\<leftarrow>group_keys ym_key (group_rows year y df). \<Sum>r\<leftarrow>group_rows ym_key k (group_rows year y df). g r)"
    by (simp only: sum_groups year_rows_have_month [OF assms])
  also have "\<dots> = (\<Sum>k\<leftarrow>filter (\<lambda>k. fst k = y) (group_keys ym_key df). \<Sum>r\<leftarrow>group_rows ym_key k df. g r)"
    unfolding group_keys_year_month
    by (rule arg_cong [where f = sum_list], rule map_cong [OF refl])
       (auto simp: group_rows_year_month)
  finally show ?thesis .
qed

lemma nansum_year_of_months:
  assumes "wf_frame df"
  shows "nansum (map f (group_rows year y df))
       = (\<Sum>k\<leftarrow>filter (\<lambda>k. fst k = y) (group_keys ym_key df). nansum (map f (group_rows ym_key k df)))"
  by (simp only: nansum_sum_list sum_year_of_months [OF assms])

lemma group_capture_sums [simp]:
  "solar_revenue_sum (group_capture g) = nansum (map solar_revenue g)"
  "solar_mw_avg_sum (group_capture g) = nansum (map solar_mw_avg g)"
  "pv_price (group_capture g) = fdiv (nansum (map solar_revenue g)) (nansum (map solar_mw_avg g))"
  by (simp_all add: group_capture_def agg_all_def Let_def)

lemma months_of_year_sum:
  fixes h :: "capture_row \<Rightarrow> 'a::comm_monoid_add"
  shows "(\<Sum>(k, c)\<leftarrow>filter (\<lambda>(k, c). fst k = y) (calculate_capture_prices df). h c)
       = (\<Sum>k\<leftarrow>filter (\<lambda>k. fst k = y) (group_keys ym_key df).
            h (group_capture (map with_solar_revenue (group_rows ym_key k df))))"
  unfolding calculate_capture_prices_def Let_def
    capture_table [of ym_key ym_key, OF ym_key_with_solar_revenue]
  by (simp add: filter_map comp_def)

text \<open>
  C30: on a frame whose derived columns agree with its timestamps, the capture price of a
  year in the yearly overview is the quotient of the sum of the monthly revenue sums by
  the sum of the monthly generation sums of that year in the monthly table; it is not the
  mean of the monthly capture prices.
\<close>

theorem yearly_pv_price_of_months:
  assumes "wf_frame df" and "y \<in> set (group_keys year df)"
  shows "\<exists>row. map_of (yearly_overview df) y = Some row
       \<and> PV_Price row =
           fdiv (\<Sum>(k, c)\<leftarrow>filter (\<lambda>(k, c). fst k = y) (calculate_capture_prices df). solar_revenue_sum c)
                (\<Sum>(k, c)\<leftarrow>filter (\<lambda>(k, c). fst k = y) (calculate_capture_prices df). solar_mw_avg_sum c)"
proof -
  have rev: "map solar_revenue (map with_solar_revenue g)
           = map (\<lambda>r. fmul (solar_mw_avg r) (day_ahead_price_eur_mwh r)) g" for g
    by simp
  show ?thesis
    using assms(2)
    by (simp add: map_of_yearly_overview months_of_year_sum rev
        nansum_year_of_months [OF assms(1), symmetric] del: map_map)
qed

theorem yearly_pv_price_of_months_witness:
  "\<exists>row. map_of (yearly_overview example_year) 2024 = Some row \<and> PV_Price row = Fin (895 / 21)
     \<and> nanmean (map (\<lambda>(k, c). pv_price c)
                  (filter (\<lambda>(k, c). fst k = 2024) (calculate_capture_prices example_year))) = Fin 20"
proof -
  have "wf_frame example_year" "2024 \<in> set (group_keys year example_year)"
    by (simp_all add: frame_defs)
  from yearly_pv_price_of_months [OF this] show ?thesis
    by (simp add: frame_defs Let_def)
qed

lemma keys_calculate_capture_prices: "map fst (calculate_capture_prices df) = group_keys ym_key df"
  unfolding calculate_capture_prices_def Let_def
    capture_table [of ym_key ym_key, OF ym_key_with_solar_revenue]
  by (simp add: comp_def)

lemma keys_yearly_overview: "map fst (yearly_overview df) = group_keys year df"
  unfolding yearly_overview_def Let_def yearly_index by (simp add: comp_def)

end
