(* ===== verification/Views.thy ===== *)
theory Views
  imports Capture_Prices Formats
begin

text \<open>
  What the tabs of \<^verbatim>\<open>main\<close> in \<^verbatim>\<open>src/app.py\<close> show, as functions of the loaded table and of
  the values that the widgets return. \<open>show_df\<close> is the table of the first tab (lines 101
  and 102): the rows of the selected years with the abbreviated name of the month;
  \<open>style_stats\<close>, \<open>style_yearly\<close> and \<open>style_details\<close> are the format dictionaries of the
  three displayed tables. \<open>scatter_view\<close> (lines 162 to 176) and \<open>compare_view\<close> (lines 189
  to 203) are the two charts of the third tab: a chart is its encoding together with the
  list of rows passed to it. \<open>scatter_chart\<close> and \<open>comparison_chart\<close> are the encodings
  (lines 169 to 174 and 197 to 202): the columns on the axes, the colour, the tooltip and
  the sizes. The value of a year selector is an element of the column \<^verbatim>\<open>year\<close>, an integer
  or, when the column has a missing cell, a float (\<open>year_value\<close>), or \<^verbatim>\<open>None\<close> when the
  selector has no option; \<open>year_key\<close> is the key it is compared with and \<open>year_text\<close> its
  text in a label. The names of the months are the constants of the module \<^verbatim>\<open>calendar\<close>.
  An exception is a value \<open>Inl e\<close>. The lemmas relate the charts to the groups of the
  monthly tables, give the table of the default selection, show that different
  selections have different labels, and that every column an encoding names is a column
  of the table the chart is given (\<open>frame_columns\<close>, \<open>labelled_columns\<close>).
\<close>

section \<open>Calendar names\<close>

definition month_name :: "string list" where
  "month_name = ['''', ''January'', ''February'', ''March'', ''April'', ''May'', ''June'', ''July'',
     ''August'', ''September'', ''October'', ''November'', ''December'']"

definition month_abbr :: "string list" where
  "month_abbr = ['''', ''Jan'', ''Feb'', ''Mar'', ''Apr'', ''May'', ''Jun'', ''Jul'', ''Aug'', ''Sep'',
     ''Oct'', ''Nov'', ''Dec'']"

datatype ui_error = IndexError | ValueError | StreamlitAPIException

fun index_of :: "'a list \<Rightarrow> 'a \<Rightarrow> nat option" where
  "index_of [] x = None"
| "index_of (y # ys) x = (if x = y then Some 0 else map_option Suc (index_of ys x))"

definition month_abbr_at :: "nat \<Rightarrow> ui_error + string" where
  "month_abbr_at m = (if m < length month_abbr then Inr (month_abbr ! m) else Inl IndexError)"

fun apply_rows :: "('a \<Rightarrow> 'e + 'b) \<Rightarrow> 'a list \<Rightarrow> 'e + 'b list" where
  "apply_rows f [] = Inr []"
| "apply_rows f (x # xs) =
     (case f x of
        Inl e \<Rightarrow> Inl e
      | Inr y \<Rightarrow> (case apply_rows f xs of Inl e \<Rightarrow> Inl e | Inr ys \<Rightarrow> Inr (y # ys)))"

section \<open>The table of the first tab\<close>

record shown_row =
  show_month_name :: string
  show_year :: int
  show_stats :: monthly_row
  show_avg_spread :: fval

definition stats_years :: "(year_month \<times> 'a) list \<Rightarrow> int list" where
  "stats_years stats_df = sort (remdups (map (\<lambda>(k, v). fst k) stats_df))"

definition shown :: "year_month \<times> monthly_row \<times> fval \<Rightarrow> ui_error + shown_row" where
  "shown row =
     (case row of ((y, m), stats, spread) \<Rightarrow>
        (case month_abbr_at m of
           Inl e \<Rightarrow> Inl e
         | Inr name \<Rightarrow> Inr \<lparr>show_month_name = name, show_year = y, show_stats = stats,
                              show_avg_spread = spread\<rparr>))"

definition show_df ::
  "(year_month \<times> monthly_row \<times> fval) list \<Rightarrow> int list \<Rightarrow> ui_error + shown_row list" where
  "show_df stats_df selected_years =
     apply_rows shown (filter (\<lambda>(k, v). fst k \<in> set selected_years) stats_df)"

definition shown_of :: "year_month \<times> monthly_row \<times> fval \<Rightarrow> shown_row" where
  "shown_of row =
     \<lparr>show_month_name = month_abbr ! snd (fst row), show_year = fst (fst row),
      show_stats = fst (snd row), show_avg_spread = snd (snd row)\<rparr>"

section \<open>The formats of the displayed tables\<close>

record styled_stats =
  st_month_name :: string
  st_year :: int
  st_avg_price :: string
  st_avg_spread :: string
  st_neg_hours :: string
  st_avg_price_res_neg :: string
  st_avg_price_res_high :: string

definition style_stats :: "shown_row \<Rightarrow> styled_stats" where
  "style_stats r =
     \<lparr>st_month_name = show_month_name r, st_year = show_year r,
      st_avg_price = format_eur (avg_price (show_stats r)),
      st_avg_spread = format_eur (show_avg_spread r),
      st_neg_hours = format_count (neg_hours (show_stats r)),
      st_avg_price_res_neg = format_eur (avg_price_res_neg (show_stats r)),
      st_avg_price_res_high = format_eur (avg_price_res_high (show_stats r))\<rparr>"

record styled_prices =
  st_pv_price :: string
  st_pv_price_pos :: string
  st_baseload_price :: string
  st_capture_rate :: string

definition style_yearly :: "yearly_row \<Rightarrow> styled_prices" where
  "style_yearly r =
     \<lparr>st_pv_price = format_eur (PV_Price r), st_pv_price_pos = format_eur (PV_Price_Pos r),
      st_baseload_price = format_eur (Baseload_Price r),
      st_capture_rate = format_pct (Capture_Rate r)\<rparr>"

definition style_details :: "capture_row \<Rightarrow> styled_prices" where
  "style_details r =
     \<lparr>st_pv_price = format_eur (pv_price r), st_pv_price_pos = format_eur (pv_price_pos r),
      st_baseload_price = format_eur (baseload_price r),
      st_capture_rate = format_pct (capture_rate r)\<rparr>"

section \<open>The encodings of the charts\<close>

datatype colour = Colour_Value string | Colour_Field string

record chart =
  ch_mark_size :: nat
  ch_x :: "string \<times> string"
  ch_y :: "string \<times> string"
  ch_colour :: colour
  ch_tooltip :: "string list"
  ch_height :: nat
  ch_interactive :: bool

definition scatter_chart :: chart where
  "scatter_chart =
     \<lparr>ch_mark_size = 60,
      ch_x = (''residual_load_mw_avg'', ''Residual Load (MW)''),
      ch_y = (''day_ahead_price_eur_mwh'', ''Price ('' @ euro_sign @ ''/MWh)''),
      ch_colour = Colour_Value ''steelblue'',
      ch_tooltip = [''datetime'', ''residual_load_mw_avg'', ''day_ahead_price_eur_mwh'', ''solar_mw_avg''],
      ch_height = 600, ch_interactive = True\<rparr>"

definition comparison_chart :: chart where
  "comparison_chart =
     \<lparr>ch_mark_size = 60,
      ch_x = (''residual_load_mw_avg'', ''Residual Load (MW)''),
      ch_y = (''day_ahead_price_eur_mwh'', ''Price ('' @ euro_sign @ ''/MWh)''),
      ch_colour = Colour_Field ''Label'',
      ch_tooltip = [''datetime'', ''residual_load_mw_avg'', ''day_ahead_price_eur_mwh''],
      ch_height = 600, ch_interactive = True\<rparr>"

definition chart_fields :: "chart \<Rightarrow> string list" where
  "chart_fields c =
     fst (ch_x c) # fst (ch_y c) # (case ch_colour c of Colour_Field f \<Rightarrow> [f] | Colour_Value v \<Rightarrow> [])
     @ ch_tooltip c"

definition frame_columns :: "string list \<Rightarrow> string list" where
  "frame_columns cols = cols @ [''datetime'', ''year'', ''month'', ''date'']"

definition labelled_columns :: "string list \<Rightarrow> string list" where
  "labelled_columns cols = frame_columns cols @ [''Label'']"

section \<open>The charts of the third tab\<close>

datatype year_value = Year_Int int | Year_Float "int option"

fun year_key :: "year_value option \<Rightarrow> int option" where
  "year_key (Some (Year_Int y)) = Some y"
| "year_key (Some (Year_Float y)) = y"
| "year_key None = None"

fun year_text :: "year_value option \<Rightarrow> string" where
  "year_text (Some (Year_Int y)) = show_int y"
| "year_text (Some (Year_Float (Some y))) = show_int y @ ''.0''"
| "year_text (Some (Year_Float None)) = ''nan''"
| "year_text None = ''None''"

fun month_text :: "string option \<Rightarrow> string" where
  "month_text (Some m) = m"
| "month_text None = ''None''"

definition select_month :: "'a hourly_scheme list \<Rightarrow> int option \<Rightarrow> nat \<Rightarrow> 'a hourly_scheme list" where
  "select_month df y m = filter (\<lambda>r. y \<noteq> None \<and> year r = y \<and> month r = Some m) df"

datatype scatter = No_Data | Scatter chart "hourly list"

definition scatter_view ::
  "hourly list \<Rightarrow> year_value option \<Rightarrow> string option \<Rightarrow> ui_error + scatter" where
  "scatter_view df sel_year sel_month =
     (case index_of (map Some month_name) sel_month of
        None \<Rightarrow> Inl ValueError
      | Some month_idx \<Rightarrow>
          Inr (let chart_data = select_month df (year_key sel_year) month_idx
               in if chart_data = [] then No_Data else Scatter scatter_chart chart_data))"

record labelled = hourly +
  Label :: string

definition label_text :: "string option \<Rightarrow> year_value option \<Rightarrow> string" where
  "label_text m y = month_text m @ '' '' @ year_text y"

definition with_label :: "string \<Rightarrow> hourly \<Rightarrow> labelled" where
  "with_label l r = hourly.extend r (labelled.fields l)"

datatype comparison = No_Comparison | Comparison chart "labelled list"

definition compare_view ::
  "hourly list \<Rightarrow> year_value option \<Rightarrow> string option \<Rightarrow> year_value option \<Rightarrow> string option
   \<Rightarrow> ui_error + comparison" where
  "compare_view df ya ma yb mb =
     (case index_of (map Some month_name) ma of
        None \<Rightarrow> Inl ValueError
      | Some ia \<Rightarrow>
          (let d1 = map (with_label (label_text ma ya)) (select_month df (year_key ya) ia)
           in case index_of (map Some month_name) mb of
                None \<Rightarrow> Inl ValueError
              | Some ib \<Rightarrow>
                  Inr (let d2 = map (with_label (label_text mb yb)) (select_month df (year_key yb) ib);
                           comp_data = d1 @ d2
                       in if comp_data \<noteq> [] then Comparison comparison_chart comp_data else No_Comparison)))"

lemmas views_defs [frame_defs] =
  month_name_def month_abbr_def month_abbr_at_def stats_years_def shown_def show_df_def shown_of_def
  style_stats_def style_yearly_def style_details_def select_month_def scatter_view_def
  label_text_def with_label_def labelled.fields_def compare_view_def

section \<open>Positions in a list\<close>

lemma index_of_Some_iff: "index_of xs x = Some i \<longleftrightarrow> i < length xs \<and> xs ! i = x \<and> x \<notin> set (take i xs)"
proof (induction xs arbitrary: i)
  case Nil
  then show ?case by simp
next
  case (Cons y ys)
  show ?case
    by (cases i) (auto simp: Cons.IH)
qed

lemma index_of_None_iff: "index_of xs x = None \<longleftrightarrow> x \<notin> set xs"
  by (induction xs) auto

lemma index_of_nth: "distinct xs \<Longrightarrow> i < length xs \<Longrightarrow> index_of xs (xs ! i) = Some i"
  by (auto simp: index_of_Some_iff dest: in_set_takeD simp: distinct_conv_nth in_set_conv_nth)

lemma index_of_map_Some [simp]: "index_of (map Some xs) (Some x) = index_of xs x"
  by (induction xs) simp_all

lemma index_of_map_Some_None [simp]: "index_of (map Some xs) None = None"
  by (induction xs) simp_all

lemma in_set_tl_nth: "x \<in> set (tl xs) \<Longrightarrow> \<exists>j. Suc j < length xs \<and> xs ! Suc j = x"
  by (cases xs) (auto simp: in_set_conv_nth)

section \<open>The names of the months\<close>

lemma distinct_month_name: "distinct month_name"
  by (simp add: month_name_def)

lemma length_month_name [simp]: "length month_name = 13"
  by (simp add: month_name_def)

lemma month_idx_option:
  assumes "m \<in> set (tl month_name)"
  shows "\<exists>i. index_of month_name m = Some i \<and> 1 \<le> i \<and> i \<le> 12 \<and> month_name ! i = m"
proof -
  from in_set_tl_nth [OF assms] obtain j where j: "Suc j < 13" "month_name ! Suc j = m"
    by auto
  then have "index_of month_name m = Some (Suc j)"
    using index_of_nth [OF distinct_month_name, of "Suc j"] by simp
  with j show ?thesis
    by simp
qed

lemma month_name_option: "i < 12 \<Longrightarrow> index_of month_name (tl month_name ! i) = Some (Suc i)"
  using index_of_nth [OF distinct_month_name, of "Suc i"] by (simp add: nth_tl)

lemma month_name_nth:
  assumes "1 \<le> i" and "i \<le> 12"
  shows "month_name ! i \<in> set (tl month_name) \<and> index_of month_name (month_name ! i) = Some i"
proof -
  from assms obtain j where "i = Suc j" "j < length (tl month_name)"
    by (cases i) simp_all
  then have "month_name ! i \<in> set (tl month_name)"
    using nth_mem [of j "tl month_name"] by (simp add: nth_tl)
  with assms(2) show ?thesis
    by (simp add: index_of_nth distinct_month_name)
qed

section \<open>The charts\<close>

lemma select_month_group_rows: "select_month df (Some y) m = group_rows ym_key (y, m) df"
  unfolding select_month_def group_rows_def
  by (rule filter_cong [OF refl]) (auto simp: ym_key_def key2_def split: option.splits)

lemma select_month_None [simp]: "select_month df None m = []"
  by (simp add: select_month_def)

lemma scatter_view_raises:
  "scatter_view df y mn = Inl e \<longleftrightarrow> mn \<notin> Some ` set month_name \<and> e = ValueError"
  unfolding set_map [symmetric] index_of_None_iff [symmetric]
  by (auto simp: scatter_view_def split: option.splits)

lemma scatter_view_select:
  assumes "index_of month_name mn = Some m"
  shows "scatter_view df sel_year (Some mn) =
         Inr (if select_month df (year_key sel_year) m = [] then No_Data
              else Scatter scatter_chart (select_month df (year_key sel_year) m))"
  using assms by (simp add: scatter_view_def Let_def)

lemma compare_view_select:
  assumes "index_of month_name ma = Some ia" and "index_of month_name mb = Some ib"
  shows "compare_view df ya (Some ma) yb (Some mb) =
         Inr (if select_month df (year_key ya) ia = [] \<and> select_month df (year_key yb) ib = []
              then No_Comparison
              else Comparison comparison_chart (map (with_label (label_text (Some ma) ya)) (select_month df (year_key ya) ia)
                               @ map (with_label (label_text (Some mb) yb)) (select_month df (year_key yb) ib)))"
  using assms by (simp add: compare_view_def Let_def)

text \<open>
  C25: for a selected year and month name, the scatter chart draws exactly the rows that
  the monthly tables aggregate under that year and month, in the order of the table, and
  the warning is shown exactly when the data has no such month. The year may be an integer
  or, in a table with a missing year, a float with an integral value.
\<close>

theorem scatter_view_month:
  assumes "index_of month_name mn = Some m" and "year_key sel_year = Some y"
  shows "scatter_view df sel_year (Some mn) =
         Inr (if (y, m) \<in> set (group_keys ym_key df) then Scatter scatter_chart (group_rows ym_key (y, m) df)
              else No_Data)"
  using assms
  by (simp add: scatter_view_def select_month_group_rows Let_def mem_group_keys_iff)

theorem scatter_view_month_witness:
  "scatter_view example_year (Some (Year_Int 2025)) (Some ''February'') =
     Inr (Scatter scatter_chart [mk_hourly 2025 2 1 0 (Fin 10) (Fin 4) (Fin 2)])
   \<and> scatter_view example_year (Some (Year_Float (Some 2025))) (Some ''March'') = Inr No_Data"
proof -
  have "index_of month_name ''February'' = Some 2" "index_of month_name ''March'' = Some 3"
    by (simp_all add: month_name_def)
  from scatter_view_month [OF this(1), of "Some (Year_Int 2025)" 2025 example_year]
    scatter_view_month [OF this(2), of "Some (Year_Float (Some 2025))" 2025 example_year]
  show ?thesis
    by (simp add: frame_defs)
qed

text \<open>
  C32: the comparison chart draws the rows of the first selected month followed by the
  rows of the second, each row with the label of its selection, and no chart when neither
  month has a row; a month that is selected on both sides is drawn twice.
\<close>

theorem compare_view_rows:
  assumes "index_of month_name ma = Some ia" and "index_of month_name mb = Some ib"
    and "year_key ya = Some a" and "year_key yb = Some b"
  shows "compare_view df ya (Some ma) yb (Some mb) =
         Inr (if (a, ia) \<in> set (group_keys ym_key df) \<or> (b, ib) \<in> set (group_keys ym_key df)
              then Comparison comparison_chart (map (with_label (label_text (Some ma) ya)) (group_rows ym_key (a, ia) df)
                               @ map (with_label (label_text (Some mb) yb)) (group_rows ym_key (b, ib) df))
              else No_Comparison)"
  using assms
  by (simp add: compare_view_def select_month_group_rows Let_def mem_group_keys_iff)

theorem compare_view_rows_witness:
  "compare_view example_year (Some (Year_Int 2025)) (Some ''February'')
       (Some (Year_Int 2025)) (Some ''February'') =
     Inr (Comparison comparison_chart
       [with_label ''February 2025'' (mk_hourly 2025 2 1 0 (Fin 10) (Fin 4) (Fin 2)),
        with_label ''February 2025'' (mk_hourly 2025 2 1 0 (Fin 10) (Fin 4) (Fin 2))])"
proof -
  have "index_of month_name ''February'' = Some 2"
    by (simp add: month_name_def)
  from compare_view_rows [OF this this, of "Some (Year_Int 2025)" 2025 "Some (Year_Int 2025)" 2025
      example_year]
  show ?thesis
    by (simp add: frame_defs digits.simps)
qed

section \<open>The labels of the comparison\<close>

lemma month_name_no_space: "m \<in> set month_name \<Longrightarrow> CHR '' '' \<notin> set m"
proof -
  have "\<forall>m\<in>set month_name. CHR '' '' \<notin> set m"
    by (simp add: month_name_def)
  then show "m \<in> set month_name \<Longrightarrow> CHR '' '' \<notin> set m"
    by blast
qed

lemma split_at_space:
  assumes "a @ CHR '' '' # b = a' @ CHR '' '' # b'" and "CHR '' '' \<notin> set a" and "CHR '' '' \<notin> set a'"
  shows "a = a' \<and> b = b'"
proof -
  let ?P = "\<lambda>c. c \<noteq> CHR '' ''"
  have split: "takeWhile ?P (u @ CHR '' '' # v) = u" "dropWhile ?P (u @ CHR '' '' # v) = CHR '' '' # v"
    if "CHR '' '' \<notin> set u" for u v
    using that by (induction u) auto
  have "takeWhile ?P (a @ CHR '' '' # b) = takeWhile ?P (a' @ CHR '' '' # b')"
    and "dropWhile ?P (a @ CHR '' '' # b) = dropWhile ?P (a' @ CHR '' '' # b')"
    by (simp_all only: assms(1))
  then show ?thesis
    by (simp only: split [OF assms(2)] split [OF assms(3)] list.inject simp_thms)
qed

lemma show_int_not_word:
  "show_int i \<noteq> ''nan''" "show_int i \<noteq> ''None''" "show_int i \<noteq> show_int j @ ''.0''"
  "show_int i @ ''.0'' \<noteq> ''nan''" "show_int i @ ''.0'' \<noteq> ''None''"
proof -
  have chars: "c \<in> set (show_int k) \<Longrightarrow> is_digit c \<or> c = CHR ''-''" for c k
    using show_int_chars by blast
  show "show_int i \<noteq> ''nan''"
    using chars [of "CHR ''n''" i] by (auto simp: is_digit_def)
  show "show_int i \<noteq> ''None''"
    using chars [of "CHR ''N''" i] by (auto simp: is_digit_def)
  show "show_int i \<noteq> show_int j @ ''.0''"
    using chars [of "CHR ''.''" i] by (auto simp: is_digit_def)
  show "show_int i @ ''.0'' \<noteq> ''nan''"
    by (auto dest: arg_cong [where f = last])
  show "show_int i @ ''.0'' \<noteq> ''None''"
    by (auto dest: arg_cong [where f = last])
qed

lemma year_text_inj: "year_text a = year_text b \<Longrightarrow> a = b"
  by (cases a rule: year_text.cases; cases b rule: year_text.cases)
    (auto dest: show_int_inj simp: show_int_not_word show_int_not_word [symmetric])

lemma year_text_no_space: "CHR '' '' \<notin> set (year_text y)"
  by (cases y rule: year_text.cases) (simp_all add: show_int_no_space)

text \<open>
  Two selections of the comparison that differ in the month or in the year have different
  labels, so the colour of a point of the comparison chart identifies its selection.
\<close>

lemma label_text_inj:
  assumes "ma \<in> set month_name" and "mb \<in> set month_name"
    and "label_text (Some ma) ya = label_text (Some mb) yb"
  shows "ma = mb \<and> ya = yb"
proof -
  from assms(3) have "ma @ CHR '' '' # year_text ya = mb @ CHR '' '' # year_text yb"
    by (simp add: label_text_def)
  from split_at_space [OF this month_name_no_space [OF assms(1)] month_name_no_space [OF assms(2)]]
  show ?thesis
    by (simp add: year_text_inj)
qed

section \<open>The table of the first tab\<close>

lemma apply_rows_map: "(\<And>x. x \<in> set xs \<Longrightarrow> f x = Inr (g x)) \<Longrightarrow> apply_rows f xs = Inr (map g xs)"
  by (induction xs) simp_all

lemma apply_rows_Inl:
  "apply_rows f xs = Inl e \<Longrightarrow> \<exists>x\<in>set xs. f x = Inl e"
  by (induction xs) (auto split: sum.splits)

lemma month_abbr_at_month: "m \<le> 12 \<Longrightarrow> month_abbr_at m = Inr (month_abbr ! m)"
  by (simp add: month_abbr_at_def month_abbr_def)

lemma shown_month: "snd (fst row) \<le> 12 \<Longrightarrow> shown row = Inr (shown_of row)"
  by (cases row) (auto simp: shown_def shown_of_def month_abbr_at_month)

lemma show_df_rows:
  assumes "\<forall>row\<in>set stats_df. snd (fst row) \<le> 12"
  shows "show_df stats_df years = Inr (map shown_of (filter (\<lambda>row. fst (fst row) \<in> set years) stats_df))"
  unfolding show_df_def case_prod_beta using assms
  by (intro apply_rows_map shown_month) simp

lemma filter_stats_years: "filter (\<lambda>row. fst (fst row) \<in> set (stats_years stats_df)) stats_df = stats_df"
  by (auto simp: stats_years_def case_prod_beta)

lemma show_df_default:
  assumes "\<forall>row\<in>set stats_df. snd (fst row) \<le> 12"
  shows "show_df stats_df (stats_years stats_df) = Inr (map shown_of stats_df)"
  by (simp only: show_df_rows [OF assms] filter_stats_years)

lemma stats_months:
  assumes "list_all valid_row df" and "row \<in> set (calculate_monthly_stats df)"
  shows "snd (fst row) \<le> 12"
proof -
  have wf: "wf_frame df"
    using assms(1) by (simp add: wf_frame_def valid_row_def list_all_iff)
  from assms(2) have "fst row \<in> set (group_keys ym_key df)"
    by (simp only: keys_calculate_monthly_stats [OF wf, symmetric] set_map image_eqI)
  then obtain r where "r \<in> set df" "ym_key r = Some (fst row)"
    by (auto simp: set_group_keys)
  with assms(1) show ?thesis
    using valid_row_month [of r "snd (fst row)"] by (simp add: list_all_iff ym_key_month)
qed

lemma scatter_view_Inr:
  "sel_month \<in> Some ` set (tl month_name) \<Longrightarrow> \<exists>sc. scatter_view df y sel_month = Inr sc"
  by (auto simp: scatter_view_def dest!: month_idx_option)

lemma compare_view_Inr:
  "ma \<in> Some ` set (tl month_name) \<Longrightarrow> mb \<in> Some ` set (tl month_name)
   \<Longrightarrow> \<exists>cmp. compare_view df ya ma yb mb = Inr cmp"
  by (auto simp: compare_view_def dest!: month_idx_option)

section \<open>The encodings of the charts\<close>

lemma chart_fields_columns:
  assumes "''residual_load_mw_avg'' \<in> set cols" and "''day_ahead_price_eur_mwh'' \<in> set cols"
    and "''solar_mw_avg'' \<in> set cols"
  shows "set (chart_fields scatter_chart) \<subseteq> set (frame_columns cols)"
    and "set (chart_fields comparison_chart) \<subseteq> set (labelled_columns cols)"
  using assms
  by (simp_all add: chart_fields_def scatter_chart_def comparison_chart_def frame_columns_def
      labelled_columns_def)

lemma comparison_colour_field:
  "ch_colour comparison_chart = Colour_Field ''Label''" "''Label'' \<in> set (labelled_columns cols)"
  by (simp_all add: comparison_chart_def labelled_columns_def)

section \<open>The formatted tables\<close>

lemma style_stats_neg_hours: "st_neg_hours (style_stats r) = digits (neg_hours (show_stats r))"
  by (simp add: style_stats_def format_count_digits)

end
