(* ===== verification/Widgets.thy ===== *)
theory Widgets
  imports Views
begin

text \<open>
  The two widgets of Streamlit that \<^verbatim>\<open>main\<close> in \<^verbatim>\<open>src/app.py\<close> calls, \<^verbatim>\<open>st.multiselect\<close>
  (line 99) and \<^verbatim>\<open>st.selectbox\<close> (lines 159, 160 and 183 to 187), and the options of the
  year selectors (line 157). The state of a widget in the browser is the position of the
  chosen option, \<open>None\<close> for a widget that was not touched, which then has its default; a
  position that is not a position of the options counts as not chosen. The value of a
  widget is the option. A default that is not among the options raises
  \<^verbatim>\<open>StreamlitAPIException\<close>, and a selector without options returns \<^verbatim>\<open>None\<close>. \<open>tab3_years\<close> is
  the list \<^verbatim>\<open>sorted(df['year'].unique())\<close>: integers in ascending order when every row has
  a year, and floats with a \<^verbatim>\<open>nan\<close> otherwise, in the order that \<^verbatim>\<open>sorted\<close> leaves them in,
  which is the parameter \<open>srt\<close> (a comparison with \<^verbatim>\<open>nan\<close> is false, so the result depends
  on the algorithm; \<open>sorted_ok\<close> says that it is a permutation). The lemmas show that a
  widget returns options only, when it raises, and that the years offered are the years
  of the table.
\<close>

section \<open>Widgets\<close>

definition selectbox :: "'a list \<Rightarrow> int \<Rightarrow> nat option \<Rightarrow> ui_error + 'a option" where
  "selectbox options index choice =
     (if options \<noteq> [] \<and> \<not> (0 \<le> index \<and> index < int (length options)) then Inl StreamlitAPIException
      else if options = [] then Inr None
      else Inr (Some (options ! (case choice of
                                   None \<Rightarrow> nat index
                                 | Some i \<Rightarrow> if i < length options then i else nat index))))"

definition multiselect :: "'a list \<Rightarrow> 'a list \<Rightarrow> nat list option \<Rightarrow> ui_error + 'a list" where
  "multiselect options defaults choice =
     (if \<not> list_all (\<lambda>d. d \<in> set options) defaults then Inl StreamlitAPIException
      else Inr (case choice of
                  None \<Rightarrow> defaults
                | Some is \<Rightarrow> map (nth options) (filter (\<lambda>i. i < length options) is)))"

record user_input =
  u_selected_years :: "nat list option"
  u_sel_year :: "nat option"
  u_sel_month :: "nat option"
  u_y1 :: "nat option"
  u_m1 :: "nat option"
  u_y2 :: "nat option"
  u_m2 :: "nat option"

section \<open>The options of the year selectors\<close>

definition unique :: "'a list \<Rightarrow> 'a list" where
  "unique xs = rev (remdups (rev xs))"

definition tab3_years :: "(int option list \<Rightarrow> int option list) \<Rightarrow> 'a hourly_scheme list \<Rightarrow> year_value list" where
  "tab3_years srt df =
     (let ys = unique (map year df)
      in if None \<in> set ys then map Year_Float (srt ys) else map Year_Int (sort (map the ys)))"

section \<open>Notions used to state the properties\<close>

definition pick :: "'a list \<Rightarrow> nat \<Rightarrow> nat option \<Rightarrow> 'a option" where
  "pick options d choice =
     (if options = [] then None
      else Some (options ! (case choice of None \<Rightarrow> d | Some i \<Rightarrow> if i < length options then i else d)))"

definition chosen :: "'a list \<Rightarrow> nat list option \<Rightarrow> 'a list" where
  "chosen options choice =
     (case choice of None \<Rightarrow> options | Some is \<Rightarrow> map (nth options) (filter (\<lambda>i. i < length options) is))"

definition option_of :: "'a list \<Rightarrow> 'a option \<Rightarrow> bool" where
  "option_of options v \<longleftrightarrow> (if options = [] then v = None else v \<in> Some ` set options)"

definition sorted_ok :: "('a list \<Rightarrow> 'a list) \<Rightarrow> bool" where
  "sorted_ok srt \<longleftrightarrow> (\<forall>xs. mset (srt xs) = mset xs)"

definition example_sorted :: "int option list \<Rightarrow> int option list" where
  "example_sorted xs = xs"

lemmas widgets_defs [frame_defs] =
  selectbox_def multiselect_def unique_def tab3_years_def pick_def chosen_def option_of_def
  example_sorted_def

section \<open>The widgets\<close>

lemma selectbox_first [simp]: "selectbox options 0 choice = Inr (pick options 0 choice)"
  by (simp add: selectbox_def pick_def split: option.splits)

lemma selectbox_last [simp]:
  "selectbox options (int (length options) - 1) choice = Inr (pick options (length options - 1) choice)"
  by (cases options) (simp_all add: selectbox_def pick_def split: option.splits)

lemma multiselect_default [simp]: "multiselect options options choice = Inr (chosen options choice)"
  by (simp add: multiselect_def chosen_def list_all_iff)

lemma selectbox_raises:
  "selectbox options index choice = Inl e \<longleftrightarrow>
     e = StreamlitAPIException \<and> options \<noteq> [] \<and> (index < 0 \<or> int (length options) \<le> index)"
  by (auto simp: selectbox_def)

lemma pick_option_of [simp]: "d < length options \<or> options = [] \<Longrightarrow> option_of options (pick options d choice)"
  by (auto simp: option_of_def pick_def split: option.splits)

lemma pick_Some [simp]: "i < length options \<Longrightarrow> pick options d (Some i) = Some (options ! i)"
  by (auto simp: pick_def)

lemma pick_None: "options \<noteq> [] \<Longrightarrow> pick options d None = Some (options ! d)"
  by (simp add: pick_def)

lemma pick_month [simp]: "pick (tl month_name) 0 choice \<in> Some ` set (tl month_name)"
  using pick_option_of [of 0 "tl month_name" choice] by (simp add: option_of_def month_name_def)

lemma set_chosen: "set (chosen options choice) \<subseteq> set options"
  by (auto simp: chosen_def split: option.splits)

lemma chosen_None [simp]: "chosen options None = options"
  by (simp add: chosen_def)

lemma pick_defaults:
  assumes "ks \<noteq> []"
  shows "pick (map f ks) (length ks - Suc 0) None = Some (f (last ks))"
    and "pick (map f ks) 0 None = Some (f (hd ks))"
  using assms by (simp_all add: pick_def last_conv_nth hd_conv_nth)

lemma pick_january: "pick (tl month_name) 0 None = Some ''January''" "index_of month_name ''January'' = Some 1"
  by (simp_all add: pick_def month_name_def)


section \<open>The options of the year selectors\<close>

lemma set_unique [simp]: "set (unique xs) = set xs"
  by (simp add: unique_def)

lemma distinct_unique [simp]: "distinct (unique xs)"
  by (simp add: unique_def)

lemma unique_Nil_iff [simp]: "unique xs = [] \<longleftrightarrow> xs = []"
  using set_unique [of xs] by (metis set_empty)

lemma sorted_okD: "sorted_ok srt \<Longrightarrow> set (srt xs) = set xs"
  by (metis sorted_ok_def set_mset_mset)

lemma tab3_years_complete:
  assumes "None \<notin> year ` set df"
  shows "tab3_years srt df = map Year_Int (group_keys year df)"
proof -
  let ?ys = "unique (map year df)"
  have inj: "inj_on the (year ` set df)"
    using assms by (auto intro!: inj_onI simp: image_iff) (metis option.collapse)
  have "filter (\<lambda>r. year r \<noteq> None) df = df"
    by (intro filter_True) (metis assms image_eqI)
  then have "set (map the ?ys) = set (List.map_filter year df)"
    by (simp add: map_filter_def image_image)
  then have "sort (map the ?ys) = group_keys year df"
    unfolding group_keys_def
    by (intro sorted_distinct_set_unique) (simp_all add: distinct_map inj)
  with assms show ?thesis
    by (simp add: tab3_years_def)
qed

lemma tab3_years_keys:
  assumes "sorted_ok srt"
  shows "(\<lambda>v. year_key (Some v)) ` set (tab3_years srt df) = year ` set df"
proof (cases "None \<in> year ` set df")
  case True
  then show ?thesis
    by (simp add: tab3_years_def sorted_okD [OF assms] image_image)
next
  case False
  then have "(\<lambda>v. year_key (Some v)) ` set (tab3_years srt df) = (\<lambda>x. Some (the x)) ` year ` set df"
    by (simp add: tab3_years_def image_image)
  also have "\<dots> = year ` set df"
    using False by (force simp: image_iff)
  finally show ?thesis .
qed

lemma tab3_years_Nil_iff: "sorted_ok srt \<Longrightarrow> tab3_years srt df = [] \<longleftrightarrow> df = []"
  using tab3_years_keys [of srt df] by (metis image_is_empty set_empty)

lemma sorted_ok_example: "sorted_ok example_sorted"
  by (simp add: sorted_ok_def example_sorted_def)

end
