(* ===== verification/Dashboard.thy ===== *)
theory Dashboard
  imports Widgets
begin

text \<open>
  The script \<^verbatim>\<open>main\<close> of \<^verbatim>\<open>src/app.py\<close> (lines 82 to 203) as a function from the file
  system, the state of the widgets in the browser and the cache of the loader to the
  screen it shows and the cache it leaves. \<open>cached_load_data\<close> is \<^verbatim>\<open>load_data\<close> under its
  decorator \<^verbatim>\<open>st.cache_data\<close> (line 14): a stored return value is returned without running
  the function, a fresh return value is stored, an exception stores nothing. \<open>page\<close> is
  the part of the script after the table was loaded, in the order of its statements, with
  the widgets of the theory \<open>Widgets\<close> and the views of the theory \<open>Views\<close>. A session is
  a sequence of runs of \<open>main\<close>, each with the file system and the state of the widgets
  of its moment; \<open>reachable\<close> is the set of caches that a session can leave. Exceptions
  are values \<open>Inl e\<close>; the elements that a run draws, and those drawn before an
  exception, are the subject of the theory \<open>Layout\<close>. The lemmas show that the page is a
  function of the values of the widgets (\<open>render\<close> of \<open>widget_values\<close>), that no widget
  raises in it, which months can be drawn, what the first run shows, and that the cache
  makes a session behave as \<open>load_once\<close>, its description without a cache.
\<close>

section \<open>The cached loader\<close>

type_synonym cache = "hourly list option option"

definition cached_load_data ::
  "(string \<Rightarrow> timestamp option) \<Rightarrow> file_system \<Rightarrow> cache \<Rightarrow> (load_error + hourly list option) \<times> cache" where
  "cached_load_data parse fs c =
     (case c of
        Some v \<Rightarrow> (Inr v, c)
      | None \<Rightarrow> (case load_data parse fs of Inl e \<Rightarrow> (Inl e, None) | Inr v \<Rightarrow> (Inr v, Some v)))"

section \<open>The script\<close>

record tabs =
  monthly_statistics :: "styled_stats list"
  yearly_table :: "(int \<times> styled_prices) list"
  monthly_details :: "(year_month \<times> styled_prices) list"
  scatter_plot :: scatter
  comparison_plot :: comparison

datatype screen = Not_Found | Tabs tabs

datatype app_error = Load load_error | Ui ui_error

definition page :: "(int option list \<Rightarrow> int option list) \<Rightarrow> hourly list \<Rightarrow> user_input \<Rightarrow> ui_error + tabs" where
  "page srt df u =
     (let stats_df = calculate_monthly_stats df; years = stats_years stats_df in
      then_sum (multiselect years years (u_selected_years u)) (\<lambda>selected_years.
      then_sum (show_df stats_df selected_years) (\<lambda>shown_rows.
      let cap_df = calculate_capture_prices df; y_res = yearly_overview df;
          years = tab3_years srt df; months = tl month_name in
      then_sum (selectbox years (int (length years) - 1) (u_sel_year u)) (\<lambda>sel_year.
      then_sum (selectbox months 0 (u_sel_month u)) (\<lambda>sel_month.
      then_sum (scatter_view df sel_year sel_month) (\<lambda>sc.
      then_sum (selectbox years 0 (u_y1 u)) (\<lambda>y1.
      then_sum (selectbox months 0 (u_m1 u)) (\<lambda>m1.
      then_sum (selectbox years (int (length years) - 1) (u_y2 u)) (\<lambda>y2.
      then_sum (selectbox months 0 (u_m2 u)) (\<lambda>m2.
      then_sum (compare_view df y1 m1 y2 m2) (\<lambda>cmp.
      Inr \<lparr>monthly_statistics = map style_stats shown_rows,
           yearly_table = map (\<lambda>(k, r). (k, style_yearly r)) y_res,
           monthly_details = map (\<lambda>(k, r). (k, style_details r)) cap_df,
           scatter_plot = sc, comparison_plot = cmp\<rparr>)))))))))))"

definition main ::
  "(string \<Rightarrow> timestamp option) \<Rightarrow> (int option list \<Rightarrow> int option list) \<Rightarrow> file_system \<Rightarrow> user_input
   \<Rightarrow> cache \<Rightarrow> (app_error + screen) \<times> cache" where
  "main parse srt fs u c =
     (case cached_load_data parse fs c of
        (Inl e, c') \<Rightarrow> (Inl (Load e), c')
      | (Inr None, c') \<Rightarrow> (Inr Not_Found, c')
      | (Inr (Some df), c') \<Rightarrow> (map_sum Ui Tabs (page srt df u), c'))"

section \<open>Sessions\<close>

fun session ::
  "(string \<Rightarrow> timestamp option) \<Rightarrow> (int option list \<Rightarrow> int option list) \<Rightarrow> cache
   \<Rightarrow> (file_system \<times> user_input) list \<Rightarrow> (app_error + screen) list" where
  "session parse srt c [] = []"
| "session parse srt c ((fs, u) # runs) =
     fst (main parse srt fs u c) # session parse srt (snd (main parse srt fs u c)) runs"

inductive reachable :: "(string \<Rightarrow> timestamp option) \<Rightarrow> cache \<Rightarrow> bool" for parse where
  start: "reachable parse None"
| rerun: "reachable parse c \<Longrightarrow> reachable parse (snd (main parse srt fs u c))"

section \<open>Notions used to state the properties\<close>

record widgets =
  w_selected_years :: "int list"
  w_sel_year :: "year_value option"
  w_sel_month :: "string option"
  w_y1 :: "year_value option"
  w_m1 :: "string option"
  w_y2 :: "year_value option"
  w_m2 :: "string option"

definition widget_values ::
  "(int option list \<Rightarrow> int option list) \<Rightarrow> hourly list \<Rightarrow> user_input \<Rightarrow> widgets" where
  "widget_values srt df u =
     (let years = tab3_years srt df; months = tl month_name in
      \<lparr>w_selected_years = chosen (stats_years (calculate_monthly_stats df)) (u_selected_years u),
       w_sel_year = pick years (length years - 1) (u_sel_year u),
       w_sel_month = pick months 0 (u_sel_month u),
       w_y1 = pick years 0 (u_y1 u), w_m1 = pick months 0 (u_m1 u),
       w_y2 = pick years (length years - 1) (u_y2 u), w_m2 = pick months 0 (u_m2 u)\<rparr>)"

definition render :: "hourly list \<Rightarrow> widgets \<Rightarrow> ui_error + tabs" where
  "render df w =
     then_sum (show_df (calculate_monthly_stats df) (w_selected_years w)) (\<lambda>shown_rows.
     then_sum (scatter_view df (w_sel_year w) (w_sel_month w)) (\<lambda>sc.
     then_sum (compare_view df (w_y1 w) (w_m1 w) (w_y2 w) (w_m2 w)) (\<lambda>cmp.
     Inr \<lparr>monthly_statistics = map style_stats shown_rows,
          yearly_table = map (\<lambda>(k, r). (k, style_yearly r)) (yearly_overview df),
          monthly_details = map (\<lambda>(k, r). (k, style_details r)) (calculate_capture_prices df),
          scatter_plot = sc, comparison_plot = cmp\<rparr>)))"

definition typed_widgets ::
  "(int option list \<Rightarrow> int option list) \<Rightarrow> hourly list \<Rightarrow> widgets \<Rightarrow> bool" where
  "typed_widgets srt df w \<longleftrightarrow>
     list_all (\<lambda>y. y \<in> set (stats_years (calculate_monthly_stats df))) (w_selected_years w)
     \<and> option_of (tab3_years srt df) (w_sel_year w) \<and> option_of (tab3_years srt df) (w_y1 w)
     \<and> option_of (tab3_years srt df) (w_y2 w)
     \<and> w_sel_month w \<in> Some ` set (tl month_name) \<and> w_m1 w \<in> Some ` set (tl month_name)
     \<and> w_m2 w \<in> Some ` set (tl month_name)"

definition valid_widgets :: "widgets \<Rightarrow> bool" where
  "valid_widgets w \<longleftrightarrow> w_sel_month w \<in> Some ` set (tl month_name) \<and> w_m1 w \<in> Some ` set (tl month_name)
     \<and> w_m2 w \<in> Some ` set (tl month_name)"

definition cache_ok :: "(string \<Rightarrow> timestamp option) \<Rightarrow> cache \<Rightarrow> bool" where
  "cache_ok parse c \<longleftrightarrow> (case c of None \<Rightarrow> True | Some v \<Rightarrow> \<exists>fs. load_data parse fs = Inr v)"

definition screen_of ::
  "(int option list \<Rightarrow> int option list) \<Rightarrow> hourly list option \<Rightarrow> user_input \<Rightarrow> app_error + screen" where
  "screen_of srt v u = (case v of None \<Rightarrow> Inr Not_Found | Some df \<Rightarrow> map_sum Ui Tabs (page srt df u))"

fun load_once ::
  "(string \<Rightarrow> timestamp option) \<Rightarrow> (int option list \<Rightarrow> int option list)
   \<Rightarrow> (file_system \<times> user_input) list \<Rightarrow> (app_error + screen) list" where
  "load_once parse srt [] = []"
| "load_once parse srt ((fs, u) # runs) =
     (case load_data parse fs of
        Inl e \<Rightarrow> Inl (Load e) # load_once parse srt runs
      | Inr v \<Rightarrow> map (\<lambda>(fs', u'). screen_of srt v u') ((fs, u) # runs))"

definition no_input :: user_input where
  "no_input = \<lparr>u_selected_years = None, u_sel_year = None, u_sel_month = None, u_y1 = None,
                u_m1 = None, u_y2 = None, u_m2 = None\<rparr>"

definition example_input :: user_input where
  "example_input = no_input\<lparr>u_selected_years := Some [0], u_sel_month := Some 1, u_m2 := Some 40\<rparr>"

definition example_table :: "hourly list" where
  "example_table =
     map (\<lambda>r. with_datetime r (Option.bind (datetime_utc r) example_parse)) (csv_rows example_csv)"

lemmas dashboard_defs [frame_defs] =
  cached_load_data_def page_def main_def widget_values_def render_def typed_widgets_def
  valid_widgets_def no_input_def example_input_def

section \<open>The values of the widgets\<close>

lemma widget_values_simps [simp]:
  "w_selected_years (widget_values srt df u) =
     chosen (stats_years (calculate_monthly_stats df)) (u_selected_years u)"
  "w_sel_year (widget_values srt df u) =
     pick (tab3_years srt df) (length (tab3_years srt df) - 1) (u_sel_year u)"
  "w_sel_month (widget_values srt df u) = pick (tl month_name) 0 (u_sel_month u)"
  "w_y1 (widget_values srt df u) = pick (tab3_years srt df) 0 (u_y1 u)"
  "w_m1 (widget_values srt df u) = pick (tl month_name) 0 (u_m1 u)"
  "w_y2 (widget_values srt df u) =
     pick (tab3_years srt df) (length (tab3_years srt df) - 1) (u_y2 u)"
  "w_m2 (widget_values srt df u) = pick (tl month_name) 0 (u_m2 u)"
  by (simp_all add: widget_values_def Let_def)

lemma widget_values_valid: "valid_widgets (widget_values srt df u)"
  by (simp add: valid_widgets_def)

lemma widget_values_typed: "typed_widgets srt df (widget_values srt df u)"
proof -
  have "length ys - 1 < length ys \<or> ys = []" "0 < length ys \<or> ys = []" for ys :: "year_value list"
    by (cases ys; simp)+
  then show ?thesis
    using set_chosen [of "stats_years (calculate_monthly_stats df)" "u_selected_years u"]
    by (auto simp: typed_widgets_def list_all_iff)
qed

section \<open>The page\<close>

lemma page_eq_render: "page srt df u = render df (widget_values srt df u)"
  by (simp add: page_def render_def Let_def)

text \<open>
  C12: no widget of the page raises, and the page is a function of the values that the
  widgets return: the script, statement by statement, shows what \<open>render\<close> computes from
  the table and these values, and the three month selectors return names of calendar
  months, which the script can look up.
\<close>

theorem page_render:
  "page srt df u = render df (widget_values srt df u) \<and> valid_widgets (widget_values srt df u)"
  by (simp only: page_eq_render widget_values_valid simp_thms)

lemma render_total:
  assumes "list_all valid_row df" and "valid_widgets w"
  shows "\<exists>t. render df w = Inr t"
proof -
  have "\<forall>row\<in>set (calculate_monthly_stats df). snd (fst row) \<le> 12"
    using stats_months [OF assms(1)] by blast
  from show_df_rows [OF this] obtain t1
    where "show_df (calculate_monthly_stats df) (w_selected_years w) = Inr t1" by blast
  moreover from assms(2) obtain sc where "scatter_view df (w_sel_year w) (w_sel_month w) = Inr sc"
    using scatter_view_Inr unfolding valid_widgets_def by blast
  moreover from assms(2) obtain cmp
    where "compare_view df (w_y1 w) (w_m1 w) (w_y2 w) (w_m2 w) = Inr cmp"
    using compare_view_Inr unfolding valid_widgets_def by blast
  ultimately show ?thesis
    by (simp add: render_def)
qed

lemma page_total: "list_all valid_row df \<Longrightarrow> \<exists>t. page srt df u = Inr t"
  by (simp only: page_eq_render render_total widget_values_valid)

lemma render_tabs:
  assumes "render df w = Inr t"
  shows "yearly_table t = map (\<lambda>(k, r). (k, style_yearly r)) (yearly_overview df)"
    and "monthly_details t = map (\<lambda>(k, r). (k, style_details r)) (calculate_capture_prices df)"
    and "\<exists>rows. show_df (calculate_monthly_stats df) (w_selected_years w) = Inr rows
           \<and> monthly_statistics t = map style_stats rows"
    and "scatter_view df (w_sel_year w) (w_sel_month w) = Inr (scatter_plot t)"
    and "compare_view df (w_y1 w) (w_m1 w) (w_y2 w) (w_m2 w) = Inr (comparison_plot t)"
  using assms by (auto simp: render_def then_sum_eq_Inr_iff)

section \<open>The cache\<close>

lemma cached_load_data_simps [simp]:
  "cached_load_data parse fs (Some v) = (Inr v, Some v)"
  "cached_load_data parse fs None =
     (case load_data parse fs of Inl e \<Rightarrow> (Inl e, None) | Inr v \<Rightarrow> (Inr v, Some v))"
  by (simp_all add: cached_load_data_def)

lemma main_Some [simp]:
  "main parse srt fs u (Some None) = (Inr Not_Found, Some None)"
  "main parse srt fs u (Some (Some df)) = (map_sum Ui Tabs (page srt df u), Some (Some df))"
  by (simp_all add: main_def)

lemma main_None:
  "main parse srt fs u None =
     (case load_data parse fs of
        Inl e \<Rightarrow> (Inl (Load e), None)
      | Inr None \<Rightarrow> (Inr Not_Found, Some None)
      | Inr (Some df) \<Rightarrow> (map_sum Ui Tabs (page srt df u), Some (Some df)))"
  by (simp add: main_def split: sum.splits option.splits)

lemma snd_main: "snd (main parse srt fs u c) = snd (cached_load_data parse fs c)"
  by (simp add: main_def split: prod.splits sum.splits option.splits)

lemma cache_ok_main: "cache_ok parse c \<Longrightarrow> cache_ok parse (snd (main parse srt fs u c))"
  by (cases c) (auto simp: snd_main cache_ok_def split: sum.splits)

lemma reachable_cache_ok: "reachable parse c \<Longrightarrow> cache_ok parse c"
proof (induction rule: reachable.induct)
  case start
  show ?case by (simp add: cache_ok_def)
next
  case (rerun c srt fs u)
  then show ?case by (simp only: cache_ok_main)
qed

lemma main_twice: "main parse srt fs u (snd (main parse srt fs u c)) = main parse srt fs u c"
proof (cases c)
  case None
  then show ?thesis
    by (auto simp: main_None split: sum.splits option.splits)
next
  case (Some v)
  then show ?thesis
    by (cases v) simp_all
qed

lemma session_cached:
  "session parse srt (Some v) runs =
     map (\<lambda>(fs, u). case v of None \<Rightarrow> Inr Not_Found | Some df \<Rightarrow> map_sum Ui Tabs (page srt df u)) runs"
  by (induction runs) (auto split: option.splits)

text \<open>
  C22: when the input file is absent in the first run of a session, every run of the
  session shows the message that the file was not found, also after the file has been
  created: the absent value is stored in the cache and the file is not looked at again.
\<close>

theorem session_absent:
  assumes "fs INPUT_FILE = None"
  shows "session parse srt None ((fs, u) # runs) = replicate (Suc (length runs)) (Inr Not_Found)"
proof -
  have "main parse srt fs u None = (Inr Not_Found, Some None)"
    using assms by (simp add: main_None load_data_def)
  then show ?thesis
    by (simp add: session_cached case_prod_beta map_replicate_const [symmetric])
qed

theorem session_absent_witness:
  "session example_parse example_sorted None [(\<lambda>p. None, no_input), (example_fs, example_input)]
   = [Inr Not_Found, Inr Not_Found]"
  using session_absent [of "\<lambda>p. None" example_parse example_sorted no_input "[(example_fs, example_input)]"]
  by simp

text \<open>
  C23: when the first run of a session loads a table, every later run of the session
  computes its screen from that table and the state of the widgets of the run; a file
  that was changed, removed or damaged in the meantime has no effect.
\<close>

theorem session_frozen:
  assumes "load_data parse fs = Inr (Some df)"
  shows "session parse srt None ((fs, u) # runs) =
         map_sum Ui Tabs (page srt df u) # map (\<lambda>(fs', u'). map_sum Ui Tabs (page srt df u')) runs"
  using assms by (simp add: main_None session_cached)

theorem session_frozen_witness:
  "session example_parse example_sorted None [(example_fs, example_input), (\<lambda>p. None, example_input)]
   = [fst (main example_parse example_sorted example_fs example_input None),
      fst (main example_parse example_sorted example_fs example_input None)]"
proof -
  have "load_data example_parse example_fs = Inr (Some
      (map (\<lambda>r. with_datetime r (Option.bind (datetime_utc r) example_parse)) (csv_rows example_csv)))"
    by (simp add: frame_defs)
  from session_frozen [OF this, of example_sorted example_input "[(\<lambda>p. None, example_input)]"] this
  show ?thesis
    by (simp add: main_None)
qed

lemma main_content:
  assumes "fs' INPUT_FILE = fs INPUT_FILE"
  shows "main parse srt fs' u c = main parse srt fs u c"
proof -
  from assms have "load_data parse fs' = load_data parse fs"
    by (simp add: load_data_def)
  then show ?thesis
    by (cases c) (simp_all add: main_def cached_load_data_def)
qed



text \<open>
  C21: the cache implements loading once. \<open>load_once\<close> describes a session without a cache:
  the runs raise the exception of the loader until the first run in which the loader
  returns, and the value returned then, a table or the absent value, decides the screen
  of that run and of every later run together with the state of the widgets of the run.
  A session that starts with an empty cache shows exactly these screens, and a session
  that starts with a value in the cache shows the screens of that value.
\<close>

theorem session_load_once:
  "session parse srt None runs = load_once parse srt runs
   \<and> session parse srt (Some v) runs = map (\<lambda>(fs, u). screen_of srt v u) runs"
proof
  show "session parse srt None runs = load_once parse srt runs"
  proof (induction runs)
    case (Cons run runs)
    then show ?case
      by (cases run; cases "load_data parse (fst run)")
        (auto simp: main_None session_cached screen_of_def split: option.splits)
  qed simp
  show "session parse srt (Some v) runs = map (\<lambda>(fs, u). screen_of srt v u) runs"
    by (simp add: session_cached screen_of_def)
qed

section \<open>Screens without an exception of the script\<close>

lemma loaded_valid:
  assumes "load_data parse fs = Inr (Some df)" and "parser_ok parse"
  shows "list_all valid_row df"
  using load_data_row(2) [OF assms(1) _ assms(2)] by (simp add: list_all_iff)

lemma reachable_valid:
  assumes "reachable parse (Some (Some df))" and "parser_ok parse"
  shows "list_all valid_row df"
  using reachable_cache_ok [OF assms(1)] loaded_valid [OF _ assms(2)] by (auto simp: cache_ok_def)

lemma main_cases:
  "(\<exists>e. main parse srt fs u c = (Inl (Load e), None) \<and> c = None \<and> load_data parse fs = Inl e)
   \<or> main parse srt fs u c = (Inr Not_Found, Some None)
   \<or> (\<exists>df. main parse srt fs u c = (map_sum Ui Tabs (page srt df u), Some (Some df)))"
proof (cases c)
  case None
  then show ?thesis
    by (auto simp: main_None split: sum.splits option.splits)
next
  case (Some v)
  then show ?thesis
    by (cases v) simp_all
qed

lemma page_not_Not_Found [simp]: "map_sum Ui Tabs r \<noteq> Inr Not_Found"
  by (cases r) simp_all

lemma reachable_loaded:
  assumes "reachable parse (Some v)"
  shows "\<exists>fs. load_data parse fs = Inr v"
  using reachable_cache_ok [OF assms] by (simp add: cache_ok_def)

lemma load_example: "load_data example_parse example_fs = Inr (Some example_table)"
  by (simp add: frame_defs example_table_def)

lemma reachable_example: "reachable example_parse (Some (Some example_table))"
  using reachable.rerun [OF reachable.start, of example_parse example_sorted example_fs no_input]
  by (simp add: main_None load_example)

lemma parser_ok_example: "parser_ok example_parse"
  by (simp add: parser_ok_def example_parse_def valid_ts_def)

section \<open>What the page can show\<close>

lemma page_scatter:
  assumes "list_all valid_row df"
  shows "\<exists>t. page srt df u = Inr t
     \<and> scatter_view df (pick (tab3_years srt df) (length (tab3_years srt df) - 1) (u_sel_year u))
          (pick (tl month_name) 0 (u_sel_month u)) = Inr (scatter_plot t)"
proof -
  from page_total [OF assms] obtain t where t: "page srt df u = Inr t" ..
  then have "render df (widget_values srt df u) = Inr t"
    by (simp only: page_eq_render)
  from render_tabs(4) [OF this] t show ?thesis
    by simp
qed

lemma month_of_key:
  assumes "list_all valid_row df" and "(y, m) \<in> set (group_keys ym_key df)"
  shows "m - 1 < 12 \<and> Suc (m - 1) = m \<and> Some y \<in> year ` set df"
proof -
  from assms(2) obtain r where r: "r \<in> set df" "ym_key r = Some (y, m)"
    by (auto simp: set_group_keys)
  then have "year r = Some y" "month r = Some m"
    using ym_key_year [of r "(y, m)"] ym_key_month [of r "(y, m)"] by simp_all
  with r(1) assms(1) valid_row_month [of r m] show ?thesis
    by (auto simp: list_all_iff image_iff intro!: bexI [of _ r])
qed

text \<open>
  C13: every month of the monthly tables can be brought onto the screen: when the table has
  calendar timestamps, for each of its year and month pairs there is a state of the year
  and month selectors with which the page is shown and the scatter chart draws the rows of
  that month. The list of the years offered is a permutation of the years of the table
  also when a missing year makes the order of \<^verbatim>\<open>sorted\<close> arbitrary.
\<close>

theorem every_month_selectable:
  assumes "list_all valid_row df" and "sorted_ok srt" and "(y, m) \<in> set (group_keys ym_key df)"
  shows "\<exists>u t. page srt df u = Inr t \<and> scatter_plot t = Scatter scatter_chart (group_rows ym_key (y, m) df)"
proof -
  from month_of_key [OF assms(1,3)] have m: "m - 1 < 12" "Suc (m - 1) = m" and "Some y \<in> year ` set df"
    by simp_all
  then obtain v where "v \<in> set (tab3_years srt df)" and v: "year_key (Some v) = Some y"
    unfolding tab3_years_keys [OF assms(2), symmetric] by auto
  then obtain i where i: "i < length (tab3_years srt df)" "tab3_years srt df ! i = v"
    by (auto simp: in_set_conv_nth)
  define u where "u = no_input\<lparr>u_sel_year := Some i, u_sel_month := Some (m - 1)\<rparr>"
  from page_scatter [OF assms(1), of srt u] obtain t where t: "page srt df u = Inr t"
    and "scatter_view df (Some v) (Some (tl month_name ! (m - 1))) = Inr (scatter_plot t)"
    using i m(1) by (auto simp: u_def)
  moreover have "index_of month_name (tl month_name ! (m - 1)) = Some m"
    using month_name_option [OF m(1)] m(2) by simp
  ultimately have "scatter_plot t = Scatter scatter_chart (group_rows ym_key (y, m) df)"
    using assms(3) by (simp add: scatter_view_select v select_month_group_rows mem_group_keys_iff)
  with t show ?thesis
    by blast
qed

theorem every_month_selectable_witness:
  "\<exists>u t. page example_sorted example_year u = Inr t
     \<and> scatter_plot t = Scatter scatter_chart [mk_hourly 2025 2 1 0 (Fin 10) (Fin 4) (Fin 2)]"
proof -
  have "list_all valid_row example_year" "(2025, 2) \<in> set (group_keys ym_key example_year)"
    by (simp_all add: frame_defs)
  from every_month_selectable [OF this(1) sorted_ok_example this(2)] show ?thesis
    by (simp add: frame_defs)
qed

section \<open>The screen of the first run\<close>

lemma page_views:
  assumes "list_all valid_row df"
  shows "\<exists>t. page srt df u = Inr t
     \<and> monthly_statistics t = map (style_stats \<circ> shown_of)
          (filter (\<lambda>row. fst (fst row) \<in> set (chosen (stats_years (calculate_monthly_stats df)) (u_selected_years u)))
             (calculate_monthly_stats df))
     \<and> compare_view df (pick (tab3_years srt df) 0 (u_y1 u)) (pick (tl month_name) 0 (u_m1 u))
          (pick (tab3_years srt df) (length (tab3_years srt df) - 1) (u_y2 u))
          (pick (tl month_name) 0 (u_m2 u)) = Inr (comparison_plot t)"
proof -
  from page_total [OF assms] obtain t where t: "page srt df u = Inr t" ..
  then have r: "render df (widget_values srt df u) = Inr t"
    by (simp only: page_eq_render)
  have "\<forall>row\<in>set (calculate_monthly_stats df). snd (fst row) \<le> 12"
    using stats_months [OF assms] by blast
  from render_tabs(3,5) [OF r] t show_df_rows [OF this] show ?thesis
    by simp
qed

lemma group_keys_year_nonempty:
  assumes "None \<notin> year ` set df" and "df \<noteq> []"
  shows "group_keys year df \<noteq> []"
proof -
  from assms(2) obtain r where r: "r \<in> set df"
    by (cases df) auto
  with assms(1) obtain y where "year r = Some y"
    by (cases "year r") (auto simp: image_iff)
  with r have "y \<in> set (group_keys year df)"
    by (auto simp: set_group_keys)
  then show ?thesis
    by auto
qed

text \<open>
  C28: the screen of a run in which no widget was touched, for a table with calendar
  timestamps in every row: the first tab lists every month of the statistics, the scatter
  chart draws January of the last year of the table, or shows the warning when the table
  has no January of that year, and the comparison draws January of the first year followed
  by January of the last year, each with its label.
\<close>

theorem default_screen:
  assumes "list_all valid_row df" and "None \<notin> year ` set df" and "df \<noteq> []"
  shows "\<exists>t. page srt df no_input = Inr t
     \<and> monthly_statistics t = map (style_stats \<circ> shown_of) (calculate_monthly_stats df)
     \<and> scatter_plot t =
         (let b = last (group_keys year df)
          in if (b, 1) \<in> set (group_keys ym_key df) then Scatter scatter_chart (group_rows ym_key (b, 1) df) else No_Data)
     \<and> comparison_plot t =
         (let a = hd (group_keys year df); b = last (group_keys year df)
          in if (a, 1) \<in> set (group_keys ym_key df) \<or> (b, 1) \<in> set (group_keys ym_key df)
             then Comparison comparison_chart (map (with_label (''January '' @ show_int a)) (group_rows ym_key (a, 1) df)
                              @ map (with_label (''January '' @ show_int b)) (group_rows ym_key (b, 1) df))
             else No_Comparison)"
proof -
  note picks = pick_defaults [OF group_keys_year_nonempty [OF assms(2,3)], of Year_Int] pick_january
  from page_views [OF assms(1), of srt no_input] obtain t where t: "page srt df no_input = Inr t"
    and stats: "monthly_statistics t = map (style_stats \<circ> shown_of) (calculate_monthly_stats df)"
    and cmp: "compare_view df (Some (Year_Int (hd (group_keys year df)))) (Some ''January'')
        (Some (Year_Int (last (group_keys year df)))) (Some ''January'') = Inr (comparison_plot t)"
    by (auto simp: no_input_def filter_stats_years tab3_years_complete [OF assms(2)] picks)
  from page_scatter [OF assms(1), of srt no_input] t
  have "scatter_view df (Some (Year_Int (last (group_keys year df)))) (Some ''January'')
      = Inr (scatter_plot t)"
    by (simp add: no_input_def tab3_years_complete [OF assms(2)] picks)
  with cmp t stats show ?thesis
    by (auto simp: scatter_view_select compare_view_select picks select_month_group_rows
        mem_group_keys_iff label_text_def Let_def cong: if_cong)
qed

theorem default_screen_witness:
  "\<exists>t. page example_sorted example_zero_price no_input = Inr t
     \<and> map st_month_name (monthly_statistics t) = [''Mar'']
     \<and> scatter_plot t = No_Data \<and> comparison_plot t = No_Comparison"
proof -
  have "list_all valid_row example_zero_price" "None \<notin> year ` set example_zero_price"
    "example_zero_price \<noteq> []"
    by (simp_all add: frame_defs)
  from default_screen [OF this, of example_sorted] show ?thesis
    by (auto simp: frame_defs Let_def)
qed



end
