(* ===== verification/Layout.thy ===== *)
theory Layout
  imports Dashboard
begin

text \<open>
  The page that a run of \<^verbatim>\<open>src/app.py\<close> draws, as the list of the elements that the script
  hands to Streamlit, in the order of the calls and each with the container it is put in
  (\<open>place\<close>: the page, a tab of \<^verbatim>\<open>st.tabs\<close>, a column of \<^verbatim>\<open>st.columns\<close>). \<open>script\<close> is a run
  of the whole file: the page configuration of line 12 and the call of \<^verbatim>\<open>main\<close> of line 206;
  \<open>draw_main\<close> is \<^verbatim>\<open>main\<close> (lines 82 to 91) and \<open>draw_page\<close> the tabs (lines 91 to 203),
  written with \<open>then_out\<close>, so that the elements drawn before an exception stay on the
  page. A widget is drawn with its label, its options and the value it returns. The
  functions \<open>page\<close> and \<open>main\<close> of the theory \<open>Dashboard\<close> are these scripts without the
  drawing: the lemmas show that the two agree on the result and on the cache, that the
  page of a run is the list \<open>layout\<close> of the tables and charts that \<open>page\<close> computes, and
  what is on the page in a run that raises or finds no file.
\<close>

section \<open>Elements of a page\<close>

datatype place = Top | Tab nat | Column nat nat

datatype element =
    Page_Config string string
  | Title string
  | Markdown string
  | Error_Message string
  | Tab_Bar "string list"
  | Header string
  | Subheader string
  | Multiselect string "int list" "int list"
  | Year_Selectbox string "string option" "year_value list" "year_value option"
  | Month_Selectbox string "string option" "string list" "string option"
  | Stats_Dataframe "styled_stats list" bool
  | Yearly_Dataframe "(int \<times> styled_prices) list" bool
  | Details_Dataframe "(year_month \<times> styled_prices) list" bool
  | Columns nat
  | Warning string
  | Scatter_Chart chart "hourly list" bool
  | Comparison_Chart chart "labelled list" bool
  | Divider

type_synonym drawn = "place \<times> element"

section \<open>Widgets, drawn\<close>

definition draw_multiselect ::
  "place \<Rightarrow> string \<Rightarrow> int list \<Rightarrow> int list \<Rightarrow> nat list option \<Rightarrow> (drawn, ui_error, int list) out" where
  "draw_multiselect p label options defaults choice =
     then_out (quiet (multiselect options defaults choice)) (\<lambda>v.
     then_out (emit (p, Multiselect label options v)) (\<lambda>_. quiet (Inr v)))"

definition draw_year_selectbox ::
  "place \<Rightarrow> string \<Rightarrow> string option \<Rightarrow> year_value list \<Rightarrow> int \<Rightarrow> nat option
   \<Rightarrow> (drawn, ui_error, year_value option) out" where
  "draw_year_selectbox p label key options index choice =
     then_out (quiet (selectbox options index choice)) (\<lambda>v.
     then_out (emit (p, Year_Selectbox label key options v)) (\<lambda>_. quiet (Inr v)))"

definition draw_month_selectbox ::
  "place \<Rightarrow> string \<Rightarrow> string option \<Rightarrow> string list \<Rightarrow> int \<Rightarrow> nat option
   \<Rightarrow> (drawn, ui_error, string option) out" where
  "draw_month_selectbox p label key options index choice =
     then_out (quiet (selectbox options index choice)) (\<lambda>v.
     then_out (emit (p, Month_Selectbox label key options v)) (\<lambda>_. quiet (Inr v)))"

section \<open>The charts, drawn\<close>

definition draw_scatter :: "scatter \<Rightarrow> (drawn, ui_error, unit) out" where
  "draw_scatter sc =
     (case sc of
        No_Data \<Rightarrow> emit (Tab 3, Warning ''No data for selection.'')
      | Scatter c chart_data \<Rightarrow> emit (Tab 3, Scatter_Chart c chart_data True))"

definition draw_comparison :: "comparison \<Rightarrow> (drawn, ui_error, unit) out" where
  "draw_comparison cmp =
     (case cmp of
        No_Comparison \<Rightarrow> quiet (Inr ())
      | Comparison c comp_data \<Rightarrow> emit (Tab 3, Comparison_Chart c comp_data True))"

section \<open>The script\<close>

definition flag_de :: string where
  "flag_de = [CHR 0xF0, CHR 0x9F, CHR 0x87, CHR 0xA9, CHR 0xF0, CHR 0x9F, CHR 0x87, CHR 0xAA]"

definition draw_page ::
  "(int option list \<Rightarrow> int option list) \<Rightarrow> hourly list \<Rightarrow> user_input \<Rightarrow> (drawn, ui_error, unit) out" where
  "draw_page srt df u =
     then_out (emit (Top, Tab_Bar [''Monthly Statistics'', ''Solar Capture Prices'', ''Scatter Plots''])) (\<lambda>_.
     then_out (emit (Tab 1, Header ''Monthly Market Statistics'')) (\<lambda>_.
     let stats_df = calculate_monthly_stats df; years = stats_years stats_df in
     then_out (draw_multiselect (Tab 1) ''Select Years'' years years (u_selected_years u)) (\<lambda>selected_years.
     then_out (quiet (show_df stats_df selected_years)) (\<lambda>shown_rows.
     then_out (emit (Tab 1, Stats_Dataframe (map style_stats shown_rows) True)) (\<lambda>_.
     then_out (emit (Tab 2, Header ''Solar Capture Prices & Curtailment'')) (\<lambda>_.
     let cap_df = calculate_capture_prices df in
     then_out (emit (Tab 2, Subheader ''Yearly Overview'')) (\<lambda>_.
     let y_res = yearly_overview df in
     then_out (emit (Tab 2, Yearly_Dataframe (map (\<lambda>(k, r). (k, style_yearly r)) y_res) False)) (\<lambda>_.
     then_out (emit (Tab 2, Subheader ''Monthly Details'')) (\<lambda>_.
     then_out (emit (Tab 2, Details_Dataframe (map (\<lambda>(k, r). (k, style_details r)) cap_df) True)) (\<lambda>_.
     then_out (emit (Tab 3, Header ''Residual Load vs. Price'')) (\<lambda>_.
     let years = tab3_years srt df; months = tl month_name in
     then_out (emit (Tab 3, Columns 2)) (\<lambda>_.
     then_out (draw_year_selectbox (Column 1 1) ''Year'' None years (int (length years) - 1) (u_sel_year u))
       (\<lambda>sel_year.
     then_out (draw_month_selectbox (Column 1 2) ''Month'' None months 0 (u_sel_month u)) (\<lambda>sel_month.
     then_out (quiet (scatter_view df sel_year sel_month)) (\<lambda>sc.
     then_out (draw_scatter sc) (\<lambda>_.
     then_out (emit (Tab 3, Divider)) (\<lambda>_.
     then_out (emit (Tab 3, Subheader ''Compare Months'')) (\<lambda>_.
     then_out (emit (Tab 3, Columns 2)) (\<lambda>_.
     then_out (draw_year_selectbox (Column 2 1) ''Year A'' (Some ''y1'') years 0 (u_y1 u)) (\<lambda>y1.
     then_out (draw_month_selectbox (Column 2 1) ''Month A'' (Some ''m1'') months 0 (u_m1 u)) (\<lambda>m1.
     then_out (draw_year_selectbox (Column 2 2) ''Year B'' (Some ''y2'') years (int (length years) - 1) (u_y2 u))
       (\<lambda>y2.
     then_out (draw_month_selectbox (Column 2 2) ''Month B'' (Some ''m2'') months 0 (u_m2 u)) (\<lambda>m2.
     then_out (quiet (compare_view df y1 m1 y2 m2)) (\<lambda>cmp.
     draw_comparison cmp))))))))))))))))))))))))"

definition with_error :: "('e \<Rightarrow> 'f) \<Rightarrow> ('w, 'e, 'a) out \<Rightarrow> ('w, 'f, 'a) out" where
  "with_error h m = (fst m, map_sum h id (snd m))"

definition draw_main ::
  "(string \<Rightarrow> timestamp option) \<Rightarrow> (int option list \<Rightarrow> int option list) \<Rightarrow> file_system \<Rightarrow> user_input
   \<Rightarrow> cache \<Rightarrow> (drawn, app_error, unit) out \<times> cache" where
  "draw_main parse srt fs u c =
     (case cached_load_data parse fs c of
        (df, c') \<Rightarrow>
          (then_out (emit (Top, Title (flag_de @ '' Energy Charts Dashboard''))) (\<lambda>_.
           then_out (emit (Top, Markdown
              ''Analysis of German residual load, electricity prices, and solar capture rates.'')) (\<lambda>_.
           then_out (quiet (map_sum Load id df)) (\<lambda>df.
           case df of
             None \<Rightarrow> emit (Top, Error_Message
                      (''Data file `'' @ INPUT_FILE @ ''` not found. Please run the fetch script.''))
           | Some df \<Rightarrow> with_error Ui (draw_page srt df u)))), c'))"

definition script ::
  "(string \<Rightarrow> timestamp option) \<Rightarrow> (int option list \<Rightarrow> int option list) \<Rightarrow> file_system \<Rightarrow> user_input
   \<Rightarrow> cache \<Rightarrow> (drawn, app_error, unit) out \<times> cache" where
  "script parse srt fs u c =
     (case draw_main parse srt fs u c of
        (m, c') \<Rightarrow>
          (then_out (emit (Top, Page_Config ''Energy Charts Dashboard'' ''wide'')) (\<lambda>_. m), c'))"

section \<open>Notions used to state the properties\<close>

definition scatter_elements :: "scatter \<Rightarrow> drawn list" where
  "scatter_elements sc =
     (case sc of
        No_Data \<Rightarrow> [(Tab 3, Warning ''No data for selection.'')]
      | Scatter c chart_data \<Rightarrow> [(Tab 3, Scatter_Chart c chart_data True)])"

definition comparison_elements :: "comparison \<Rightarrow> drawn list" where
  "comparison_elements cmp =
     (case cmp of
        No_Comparison \<Rightarrow> []
      | Comparison c comp_data \<Rightarrow> [(Tab 3, Comparison_Chart c comp_data True)])"

definition tab1_start :: "int list \<Rightarrow> int list \<Rightarrow> drawn list" where
  "tab1_start years selected_years =
     [(Top, Tab_Bar [''Monthly Statistics'', ''Solar Capture Prices'', ''Scatter Plots'']),
      (Tab 1, Header ''Monthly Market Statistics''),
      (Tab 1, Multiselect ''Select Years'' years selected_years)]"

definition layout :: "int list \<Rightarrow> year_value list \<Rightarrow> widgets \<Rightarrow> tabs \<Rightarrow> drawn list" where
  "layout stat_years years w t =
     tab1_start stat_years (w_selected_years w)
     @ [(Tab 1, Stats_Dataframe (monthly_statistics t) True),
        (Tab 2, Header ''Solar Capture Prices & Curtailment''),
        (Tab 2, Subheader ''Yearly Overview''),
        (Tab 2, Yearly_Dataframe (yearly_table t) False),
        (Tab 2, Subheader ''Monthly Details''),
        (Tab 2, Details_Dataframe (monthly_details t) True),
        (Tab 3, Header ''Residual Load vs. Price''),
        (Tab 3, Columns 2),
        (Column 1 1, Year_Selectbox ''Year'' None years (w_sel_year w)),
        (Column 1 2, Month_Selectbox ''Month'' None (tl month_name) (w_sel_month w))]
     @ scatter_elements (scatter_plot t)
     @ [(Tab 3, Divider),
        (Tab 3, Subheader ''Compare Months''),
        (Tab 3, Columns 2),
        (Column 2 1, Year_Selectbox ''Year A'' (Some ''y1'') years (w_y1 w)),
        (Column 2 1, Month_Selectbox ''Month A'' (Some ''m1'') (tl month_name) (w_m1 w)),
        (Column 2 2, Year_Selectbox ''Year B'' (Some ''y2'') years (w_y2 w)),
        (Column 2 2, Month_Selectbox ''Month B'' (Some ''m2'') (tl month_name) (w_m2 w))]
     @ comparison_elements (comparison_plot t)"

definition page_top :: "drawn list" where
  "page_top =
     [(Top, Page_Config ''Energy Charts Dashboard'' ''wide''),
      (Top, Title (flag_de @ '' Energy Charts Dashboard'')),
      (Top, Markdown ''Analysis of German residual load, electricity prices, and solar capture rates.'')]"

definition not_found_message :: drawn where
  "not_found_message =
     (Top, Error_Message (''Data file `'' @ INPUT_FILE @ ''` not found. Please run the fetch script.''))"

definition cached_table :: "cache \<Rightarrow> hourly list" where
  "cached_table c = (case c of Some (Some df) \<Rightarrow> df | _ \<Rightarrow> [])"

lemmas layout_defs [frame_defs] =
  draw_multiselect_def draw_year_selectbox_def draw_month_selectbox_def draw_scatter_def
  draw_comparison_def flag_de_def draw_page_def with_error_def draw_main_def script_def
  scatter_elements_def comparison_elements_def tab1_start_def layout_def page_top_def
  not_found_message_def cached_table_def

section \<open>Widgets and charts\<close>

lemma draw_multiselect_default [simp]:
  "draw_multiselect p label options options choice =
     ([(p, Multiselect label options (chosen options choice))], Inr (chosen options choice))"
  by (simp add: draw_multiselect_def quiet_def)

lemma draw_selectbox_first [simp]:
  "draw_year_selectbox p label key years 0 choice =
     ([(p, Year_Selectbox label key years (pick years 0 choice))], Inr (pick years 0 choice))"
  "draw_month_selectbox p label key months 0 choice =
     ([(p, Month_Selectbox label key months (pick months 0 choice))], Inr (pick months 0 choice))"
  by (simp_all add: draw_year_selectbox_def draw_month_selectbox_def quiet_def)

lemma draw_selectbox_last [simp]:
  "draw_year_selectbox p label key years (int (length years) - 1) choice =
     ([(p, Year_Selectbox label key years (pick years (length years - 1) choice))],
      Inr (pick years (length years - 1) choice))"
  by (simp add: draw_year_selectbox_def quiet_def)

lemma draw_chart_simps [simp]:
  "draw_scatter sc = (scatter_elements sc, Inr ())"
  "draw_comparison cmp = (comparison_elements cmp, Inr ())"
  by (simp_all add: scatter_elements_def comparison_elements_def draw_scatter_def draw_comparison_def
      emit_def quiet_def split: scatter.splits comparison.splits)

lemma with_error_simps [simp]:
  "with_error h (ws, Inl e) = (ws, Inl (h e))"
  "with_error h (ws, Inr v) = (ws, Inr v)"
  by (simp_all add: with_error_def)

section \<open>The page of the tabs\<close>

lemma show_df_Inl:
  assumes "show_df stats_df years = Inl e"
  shows "e = IndexError"
proof -
  from apply_rows_Inl [OF assms [unfolded show_df_def]] obtain row where "shown row = Inl e"
    by blast
  then show ?thesis
    by (auto simp: shown_def month_abbr_at_def split: prod.splits sum.splits if_splits)
qed

lemma widget_views:
  obtains sc cmp
  where "scatter_view df (w_sel_year (widget_values srt df u)) (w_sel_month (widget_values srt df u)) = Inr sc"
    and "compare_view df (w_y1 (widget_values srt df u)) (w_m1 (widget_values srt df u))
           (w_y2 (widget_values srt df u)) (w_m2 (widget_values srt df u)) = Inr cmp"
proof -
  have "valid_widgets (widget_values srt df u)"
    by (rule widget_values_valid)
  then show thesis
    using scatter_view_Inr compare_view_Inr that unfolding valid_widgets_def by metis
qed

lemma page_Inl:
  assumes "page srt df u = Inl e"
  shows "e = IndexError"
proof -
  obtain sc cmp
    where "scatter_view df (w_sel_year (widget_values srt df u)) (w_sel_month (widget_values srt df u)) = Inr sc"
      and "compare_view df (w_y1 (widget_values srt df u)) (w_m1 (widget_values srt df u))
           (w_y2 (widget_values srt df u)) (w_m2 (widget_values srt df u)) = Inr cmp"
    by (rule widget_views)
  with assms have "show_df (calculate_monthly_stats df) (w_selected_years (widget_values srt df u)) = Inl e"
    by (auto simp: page_eq_render render_def then_sum_eq_Inl_iff)
  then show ?thesis
    by (rule show_df_Inl)
qed

lemma draw_page_eq:
  "draw_page srt df u =
     (case page srt df u of
        Inl e \<Rightarrow>
          (tab1_start (stats_years (calculate_monthly_stats df))
             (w_selected_years (widget_values srt df u)), Inl e)
      | Inr t \<Rightarrow>
          (layout (stats_years (calculate_monthly_stats df)) (tab3_years srt df)
             (widget_values srt df u) t, Inr ()))"
proof -
  obtain sc cmp
    where sc: "scatter_view df (w_sel_year (widget_values srt df u)) (w_sel_month (widget_values srt df u)) = Inr sc"
      and cmp: "compare_view df (w_y1 (widget_values srt df u)) (w_m1 (widget_values srt df u))
           (w_y2 (widget_values srt df u)) (w_m2 (widget_values srt df u)) = Inr cmp"
    by (rule widget_views)
  from sc cmp show ?thesis
    by (cases "show_df (calculate_monthly_stats df)
                 (chosen (stats_years (calculate_monthly_stats df)) (u_selected_years u))")
      (simp_all add: draw_page_def page_eq_render render_def Let_def layout_def tab1_start_def)
qed


lemma draw_page_examples:
  "draw_page example_sorted [mk_hourly 2024 13 1 0 (Fin 1) (Fin 1) (Fin 1)] no_input =
     ([(Top, Tab_Bar [''Monthly Statistics'', ''Solar Capture Prices'', ''Scatter Plots'']),
       (Tab 1, Header ''Monthly Market Statistics''),
       (Tab 1, Multiselect ''Select Years'' [2024] [2024])], Inl IndexError)"
  "take 4 (map fst (fst (draw_page example_sorted example_zero_price no_input))) = [Top, Tab 1, Tab 1, Tab 1]"
proof -
  have "page example_sorted [mk_hourly 2024 13 1 0 (Fin 1) (Fin 1) (Fin 1)] no_input = Inl IndexError"
    by (simp add: page_eq_render render_def no_input_def frame_defs Let_def)
  then show "draw_page example_sorted [mk_hourly 2024 13 1 0 (Fin 1) (Fin 1) (Fin 1)] no_input =
     ([(Top, Tab_Bar [''Monthly Statistics'', ''Solar Capture Prices'', ''Scatter Plots'']),
       (Tab 1, Header ''Monthly Market Statistics''),
       (Tab 1, Multiselect ''Select Years'' [2024] [2024])], Inl IndexError)"
    by (simp add: draw_page_eq) (simp add: tab1_start_def no_input_def frame_defs Let_def)
  have "list_all valid_row example_zero_price"
    by (simp add: frame_defs)
  from page_total [OF this, of example_sorted no_input] obtain t
    where "page example_sorted example_zero_price no_input = Inr t" ..
  then show "take 4 (map fst (fst (draw_page example_sorted example_zero_price no_input)))
      = [Top, Tab 1, Tab 1, Tab 1]"
    by (simp add: draw_page_eq layout_def tab1_start_def)
qed

section \<open>A run of the script\<close>

lemma apfst_append [simp]:
  "apfst ((@) xs) (apfst ((@) ys) m) = apfst ((@) (xs @ ys)) m"
  "apfst ((#) x) (apfst ((@) ys) m) = apfst ((@) (x # ys)) m"
  "apfst ((@) []) m = m"
  by (cases m; simp)+

lemma draw_main_eq:
  "draw_main parse srt fs u c =
     ((case fst (cached_load_data parse fs c) of
         Inl e \<Rightarrow> (tl page_top, Inl (Load e))
       | Inr None \<Rightarrow> (tl page_top @ [not_found_message], Inr ())
       | Inr (Some df) \<Rightarrow> apfst ((@) (tl page_top)) (with_error Ui (draw_page srt df u))),
      snd (cached_load_data parse fs c))"
  by (cases "cached_load_data parse fs c")
    (auto simp: draw_main_def page_top_def not_found_message_def emit_def quiet_def
      split: sum.splits option.splits)

lemma script_eq:
  "script parse srt fs u c =
     ((case fst (cached_load_data parse fs c) of
         Inl e \<Rightarrow> (page_top, Inl (Load e))
       | Inr None \<Rightarrow> (page_top @ [not_found_message], Inr ())
       | Inr (Some df) \<Rightarrow> apfst ((@) page_top) (with_error Ui (draw_page srt df u))),
      snd (cached_load_data parse fs c))"
  by (auto simp: script_def draw_main_eq page_top_def split: sum.splits option.splits)

lemma snd_script: "snd (script parse srt fs u c) = snd (main parse srt fs u c)"
  by (simp add: script_eq snd_main)

lemma fst_main:
  "fst (main parse srt fs u c) =
     (case fst (cached_load_data parse fs c) of
        Inl e \<Rightarrow> Inl (Load e)
      | Inr None \<Rightarrow> Inr Not_Found
      | Inr (Some df) \<Rightarrow> map_sum Ui Tabs (page srt df u))"
  by (simp add: main_def split: prod.splits sum.splits option.splits)

lemma cached_load_data_table:
  "fst (cached_load_data parse fs c) = Inr v \<Longrightarrow> snd (cached_load_data parse fs c) = Some v"
  by (cases c) (auto split: sum.splits)

lemma script_absent:
  "fs INPUT_FILE = None \<Longrightarrow>
   script parse srt fs u None = ((page_top @ [not_found_message], Inr ()), Some None)"
  by (simp add: script_eq cached_load_data_def load_data_def)

text \<open>
  C9: the page of a run of the script, in each of its four outcomes. Every page begins
  with the page configuration, the title and the introduction. When the loader raises,
  nothing follows; when the file is absent, the message that it was not found follows and
  nothing else; when a table is loaded or cached, the tabs follow, complete (\<open>layout\<close>)
  or, if a month of the table is not a calendar month, up to the selector of the years of
  the first tab. The exception and the cache of the run are those of \<open>main\<close>.
\<close>

theorem script_page:
  "snd (script parse srt fs u c) = snd (main parse srt fs u c)
   \<and> fst (script parse srt fs u c) =
       (let df = cached_table (snd (main parse srt fs u c));
            years = stats_years (calculate_monthly_stats df);
            w = widget_values srt df u
        in case fst (main parse srt fs u c) of
             Inl (Load e) \<Rightarrow> (page_top, Inl (Load e))
           | Inl (Ui e) \<Rightarrow> (page_top @ tab1_start years (w_selected_years w), Inl (Ui e))
           | Inr Not_Found \<Rightarrow> (page_top @ [not_found_message], Inr ())
           | Inr (Tabs t) \<Rightarrow> (page_top @ layout years (tab3_years srt df) w t, Inr ()))"
proof (cases "fst (cached_load_data parse fs c)")
  case (Inl e)
  then show ?thesis
    by (simp add: script_eq fst_main snd_main)
next
  case (Inr v)
  show ?thesis
  proof (cases v)
    case None
    with Inr show ?thesis
      by (simp add: script_eq fst_main snd_main)
  next
    case (Some df)
    with Inr cached_load_data_table [OF Inr] show ?thesis
      by (cases "page srt df u")
        (simp_all add: script_eq fst_main snd_main draw_page_eq cached_table_def Let_def)
  qed
qed

end
