(* ===== verification/Page_Rules.thy ===== *)
theory Page_Rules
  imports Layout
begin

text \<open>
  The rules that Streamlit imposes on the calls of a script, and that the page of every
  run of \<^verbatim>\<open>src/app.py\<close> follows them. Streamlit raises an exception when
  \<^verbatim>\<open>st.set_page_config\<close> is not the first call of a run, and when two widgets of a run have
  the same identity, which it computes from the label and the key of a widget; and an
  element can only be put into a tab or a column that an earlier call has made. The rules
  are not part of the program: \<open>accepts\<close> is a checker for them, a machine that reads the
  elements of a page in their order and stops at the first violation, and the lemmas
  relate it to the rules in words (\<open>accepts_config_first\<close>, \<open>accepts_labels\<close>). The
  property is that the checker accepts the page of every run, so the exceptions of these
  rules, which the model of the script leaves out, cannot be raised.
\<close>

section \<open>The checker\<close>

datatype api_error = Config_Not_First | No_Container | Duplicate_Widget

record page_state =
  ps_drawn :: nat
  ps_tabs :: nat
  ps_columns :: "nat list"
  ps_labels :: "string list"
  ps_keys :: "string list"

definition start_state :: page_state where
  "start_state = \<lparr>ps_drawn = 0, ps_tabs = 0, ps_columns = [], ps_labels = [], ps_keys = []\<rparr>"

fun widget_id :: "element \<Rightarrow> (string \<times> string option) option" where
  "widget_id (Multiselect label options v) = Some (label, None)"
| "widget_id (Year_Selectbox label key options v) = Some (label, key)"
| "widget_id (Month_Selectbox label key options v) = Some (label, key)"
| "widget_id e = None"

fun has_place :: "page_state \<Rightarrow> place \<Rightarrow> bool" where
  "has_place s Top = True"
| "has_place s (Tab n) = (0 < n \<and> n \<le> ps_tabs s)"
| "has_place s (Column g k) =
     (0 < g \<and> g \<le> length (ps_columns s) \<and> 0 < k \<and> k \<le> ps_columns s ! (g - 1))"

fun is_config :: "element \<Rightarrow> bool" where
  "is_config (Page_Config title l) = True"
| "is_config e = False"

fun new_containers :: "element \<Rightarrow> page_state \<Rightarrow> page_state" where
  "new_containers (Tab_Bar names) s = s\<lparr>ps_tabs := length names\<rparr>"
| "new_containers (Columns n) s = s\<lparr>ps_columns := ps_columns s @ [n]\<rparr>"
| "new_containers e s = s"

definition key_list :: "string option \<Rightarrow> string list" where
  "key_list key = (case key of None \<Rightarrow> [] | Some k \<Rightarrow> [k])"

definition new_widget :: "element \<Rightarrow> page_state \<Rightarrow> api_error + page_state" where
  "new_widget e s =
     (case widget_id e of
        None \<Rightarrow> Inr s
      | Some (label, key) \<Rightarrow>
          if label \<in> set (ps_labels s) \<or> list_ex (\<lambda>k. k \<in> set (ps_keys s)) (key_list key)
          then Inl Duplicate_Widget
          else Inr (s\<lparr>ps_labels := label # ps_labels s, ps_keys := key_list key @ ps_keys s\<rparr>))"

definition accept :: "page_state \<Rightarrow> drawn \<Rightarrow> api_error + page_state" where
  "accept s d =
     (case d of
        (p, e) \<Rightarrow>
          if is_config e \<and> 0 < ps_drawn s then Inl Config_Not_First
          else if has_place s p then
            then_sum (new_widget e (new_containers e s)) (\<lambda>s'. Inr (s'\<lparr>ps_drawn := Suc (ps_drawn s')\<rparr>))
          else Inl No_Container)"

fun accepts :: "page_state \<Rightarrow> drawn list \<Rightarrow> api_error + page_state" where
  "accepts s [] = Inr s"
| "accepts s (d # ds) = then_sum (accept s d) (\<lambda>s'. accepts s' ds)"

definition widget_labels :: "drawn list \<Rightarrow> string list" where
  "widget_labels ds = map fst (List.map_filter (\<lambda>d. widget_id (snd d)) ds)"

definition widget_keys :: "drawn list \<Rightarrow> string list" where
  "widget_keys ds = concat (map (key_list \<circ> snd) (List.map_filter (\<lambda>d. widget_id (snd d)) ds))"

definition top_state :: page_state where
  "top_state = \<lparr>ps_drawn = 3, ps_tabs = 0, ps_columns = [], ps_labels = [], ps_keys = []\<rparr>"

definition elements ::
  "(string \<Rightarrow> timestamp option) \<Rightarrow> (int option list \<Rightarrow> int option list) \<Rightarrow> file_system \<Rightarrow> user_input
   \<Rightarrow> cache \<Rightarrow> drawn list" where
  "elements parse srt fs u c = fst (fst (script parse srt fs u c))"

lemmas rules_defs = start_state_def new_widget_def accept_def key_list_def top_state_def

section \<open>What the checker checks\<close>

lemma accepts_append:
  "accepts s (xs @ ys) = then_sum (accepts s xs) (\<lambda>s'. accepts s' ys)"
  by (induction xs arbitrary: s) (simp_all add: then_sum_def split: sum.splits)

lemma new_containers_fields [simp]:
  "ps_drawn (new_containers e s) = ps_drawn s"
  "ps_labels (new_containers e s) = ps_labels s"
  "ps_keys (new_containers e s) = ps_keys s"
  by (cases e; simp)+

lemma accept_Inr:
  assumes "accept s d = Inr s'"
  shows "ps_drawn s' = Suc (ps_drawn s)"
    and "0 < ps_drawn s \<Longrightarrow> \<not> is_config (snd d)"
    and "ps_labels s' = rev (widget_labels [d]) @ ps_labels s"
    and "ps_keys s' = rev (widget_keys [d]) @ ps_keys s"
    and "distinct (ps_labels s) \<Longrightarrow> distinct (ps_labels s')"
    and "distinct (ps_keys s) \<Longrightarrow> distinct (ps_keys s')"
  using assms
  by (auto simp: accept_def new_widget_def widget_labels_def widget_keys_def key_list_def
      List.map_filter_simps then_sum_eq_Inr_iff split: prod.splits if_splits option.splits)

lemma accepts_drawn:
  "accepts s ds = Inr s' \<Longrightarrow> ps_drawn s' = ps_drawn s + length ds"
  by (induction ds arbitrary: s) (auto simp: then_sum_eq_Inr_iff dest: accept_Inr(1))

lemma accepts_no_config:
  "accepts s ds = Inr s' \<Longrightarrow> 0 < ps_drawn s \<Longrightarrow> list_all (\<lambda>d. \<not> is_config (snd d)) ds"
  by (induction ds arbitrary: s) (auto simp: then_sum_eq_Inr_iff dest: accept_Inr(1,2))

lemma accepts_config_first:
  assumes "accepts start_state ds = Inr s"
  shows "list_all (\<lambda>d. \<not> is_config (snd d)) (tl ds)"
proof (cases ds)
  case (Cons d ds')
  with assms obtain s1 where "accept start_state d = Inr s1" "accepts s1 ds' = Inr s"
    by (auto simp: then_sum_eq_Inr_iff)
  then show ?thesis
    using accepts_no_config [of s1 ds' s] accept_Inr(1) [of start_state d s1] Cons by simp
qed simp

lemma widget_labels_Cons: "widget_labels (d # ds) = widget_labels [d] @ widget_labels ds"
  by (simp add: widget_labels_def List.map_filter_simps split: option.splits)

lemma widget_keys_Cons: "widget_keys (d # ds) = widget_keys [d] @ widget_keys ds"
  by (simp add: widget_keys_def List.map_filter_simps split: option.splits)

lemma accepts_widgets:
  assumes "accepts s ds = Inr s'"
  shows "ps_labels s' = rev (widget_labels ds) @ ps_labels s"
    and "ps_keys s' = rev (widget_keys ds) @ ps_keys s"
  using assms
proof (induction ds arbitrary: s)
  case Nil
  {
    case 1 then show ?case by (simp add: widget_labels_def List.map_filter_simps)
  next
    case 2 then show ?case by (simp add: widget_keys_def List.map_filter_simps)
  }
next
  case (Cons d ds)
  {
    case 1
    then obtain s1 where "accept s d = Inr s1" "accepts s1 ds = Inr s'"
      by (auto simp: then_sum_eq_Inr_iff)
    then show ?case
      using Cons.IH(1) [of s1] accept_Inr(3) [of s d s1] by (simp add: widget_labels_Cons [of d ds])
  next
    case 2
    then obtain s1 where "accept s d = Inr s1" "accepts s1 ds = Inr s'"
      by (auto simp: then_sum_eq_Inr_iff)
    then show ?case
      using Cons.IH(2) [of s1] accept_Inr(4) [of s d s1] by (simp add: widget_keys_Cons [of d ds])
  }
qed

lemma accepts_distinct:
  "accepts s ds = Inr s' \<Longrightarrow> distinct (ps_labels s) \<Longrightarrow> distinct (ps_labels s')"
  "accepts s ds = Inr s' \<Longrightarrow> distinct (ps_keys s) \<Longrightarrow> distinct (ps_keys s')"
  by (induction ds arbitrary: s) (auto simp: then_sum_eq_Inr_iff dest: accept_Inr(5,6))

lemma accepts_labels:
  assumes "accepts start_state ds = Inr s"
  shows "distinct (widget_labels ds)" and "distinct (widget_keys ds)"
proof -
  have "distinct (ps_labels s)" "distinct (ps_keys s)"
    using accepts_distinct [OF assms] by (simp_all add: start_state_def)
  then have "distinct (rev (widget_labels ds))" "distinct (rev (widget_keys ds))"
    using accepts_widgets [OF assms] by (simp_all add: start_state_def)
  then show "distinct (widget_labels ds)" and "distinct (widget_keys ds)"
    by simp_all
qed

lemma accepts_examples:
  "accepts start_state [(Top, Title ''Energy''), (Top, Page_Config ''Energy'' ''wide'')] = Inl Config_Not_First"
  "accepts start_state [(Top, Tab_Bar [''a'', ''b'']), (Tab 3, Divider)] = Inl No_Container"
  "accepts start_state [(Top, Columns 2), (Column 1 3, Divider)] = Inl No_Container"
  "accepts start_state [(Top, Month_Selectbox ''Month'' None [] None),
                        (Top, Month_Selectbox ''Month'' None [''May''] None)] = Inl Duplicate_Widget"
  "accepts start_state [(Top, Year_Selectbox ''Year A'' (Some ''y1'') [] None),
                        (Top, Year_Selectbox ''Year B'' (Some ''y1'') [] None)] = Inl Duplicate_Widget"
  by (simp_all add: rules_defs)

section \<open>The pages of the script\<close>

lemma accepts_page_top: "accepts start_state page_top = Inr top_state"
  by (simp add: rules_defs page_top_def)

lemma accepts_top: "accepts start_state (page_top @ ds) = accepts top_state ds"
  by (simp only: accepts_append accepts_page_top then_sum_simps)

lemma accepts_not_found: "\<exists>s. accepts top_state [not_found_message] = Inr s"
  by (simp add: rules_defs not_found_message_def)

lemma accepts_tab1_start: "\<exists>s. accepts top_state (tab1_start years selected_years) = Inr s"
  by (simp add: rules_defs tab1_start_def)

lemma accepts_layout: "\<exists>s. accepts top_state (layout stat_years years w t) = Inr s"
  by (cases "scatter_plot t"; cases "comparison_plot t")
    (simp_all add: rules_defs layout_def tab1_start_def scatter_elements_def comparison_elements_def)

lemma fst_draw_page:
  "fst (draw_page srt df u) =
     (case page srt df u of
        Inl e \<Rightarrow>
          tab1_start (stats_years (calculate_monthly_stats df)) (w_selected_years (widget_values srt df u))
      | Inr t \<Rightarrow>
          layout (stats_years (calculate_monthly_stats df)) (tab3_years srt df) (widget_values srt df u) t)"
  by (simp add: draw_page_eq split: sum.splits)

lemma elements_eq:
  "elements parse srt fs u c =
     page_top @ (case fst (cached_load_data parse fs c) of
                   Inl e \<Rightarrow> []
                 | Inr None \<Rightarrow> [not_found_message]
                 | Inr (Some df) \<Rightarrow> fst (draw_page srt df u))"
  by (simp add: elements_def script_eq with_error_def split: sum.splits option.splits)

lemma accepts_elements: "\<exists>s. accepts start_state (elements parse srt fs u c) = Inr s"
  unfolding elements_eq accepts_top fst_draw_page
  using accepts_not_found accepts_tab1_start accepts_layout
  by (simp del: accepts.simps add: accepts.simps(1) split: sum.splits option.splits)

text \<open>
  C11: the page of every run follows the calling rules of Streamlit, whatever the file, the
  cache and the state of the widgets are: the checker accepts it, so every element is put
  into the page, into a tab of the bar or into a column that was made before it; the page
  configuration is the first call of the run and is not called again; and no two widgets
  of the page have the same label or the same key.
\<close>

theorem script_accepted:
  "(\<exists>s. accepts start_state (elements parse srt fs u c) = Inr s)
   \<and> take 1 (elements parse srt fs u c) = [(Top, Page_Config ''Energy Charts Dashboard'' ''wide'')]
   \<and> list_all (\<lambda>d. \<not> is_config (snd d)) (tl (elements parse srt fs u c))
   \<and> distinct (widget_labels (elements parse srt fs u c))
   \<and> distinct (widget_keys (elements parse srt fs u c))"
proof -
  obtain s where s: "accepts start_state (elements parse srt fs u c) = Inr s"
    using accepts_elements by blast
  have "take 1 (elements parse srt fs u c) = [(Top, Page_Config ''Energy Charts Dashboard'' ''wide'')]"
    by (simp add: elements_eq page_top_def)
  with s accepts_config_first [OF s] accepts_labels [OF s] show ?thesis
    by blast
qed

text \<open>
  The first run on the example file, widgets untouched: the containers of the elements
  in the order they are drawn. The scatter plot is one element, the chart or the warning;
  the comparison chart is drawn, since the table has rows of January 2024.
\<close>

lemma elements_example:
  "map fst (elements example_parse example_sorted example_fs no_input None) =
     [Top, Top, Top, Top, Tab 1, Tab 1, Tab 1, Tab 2, Tab 2, Tab 2, Tab 2, Tab 2, Tab 3, Tab 3,
      Column 1 1, Column 1 2, Tab 3, Tab 3, Tab 3, Tab 3, Column 2 1, Column 2 1, Column 2 2,
      Column 2 2, Tab 3]"
proof -
  have "list_all valid_row example_table"
    by (rule loaded_valid [OF load_example parser_ok_example])
  from page_total [OF this, of example_sorted no_input] obtain t
    where t: "page example_sorted example_table no_input = Inr t" ..
  then have "comparison_plot t \<noteq> No_Comparison"
    by (auto simp: page_eq_render render_def no_input_def frame_defs example_table_def Let_def
        then_sum_eq_Inr_iff split: if_splits)
  with t show ?thesis
    by (simp add: elements_eq cached_load_data_def load_example fst_draw_page)
      (simp add: page_top_def layout_def tab1_start_def scatter_elements_def comparison_elements_def
        split: scatter.splits comparison.splits)
qed

end
