(* ===== verification/Spec2Isabelle.thy ===== *)
theory Spec2Isabelle
  imports Page_Rules
begin

text \<open>
  \<^bold>\<open>Verification of the energy charts dashboard\<close> (\<^verbatim>\<open>src/app.py\<close>).

  \<^bold>\<open>The program.\<close> The dashboard is one Python script of four parts. \<^verbatim>\<open>load_data\<close> reads a
  CSV file of hourly market data into a pandas table and adds the columns \<^verbatim>\<open>datetime\<close>,
  \<^verbatim>\<open>year\<close>, \<^verbatim>\<open>month\<close> and \<^verbatim>\<open>date\<close>; it returns \<^verbatim>\<open>None\<close> when the file does not exist.
  \<^verbatim>\<open>calculate_monthly_stats\<close> groups the table by month and computes the average price, the
  number of hours of negative price, the average prices during negative and during high
  residual load, and the average of the daily spreads. \<^verbatim>\<open>calculate_capture_prices\<close> computes
  per month the revenue-weighted price of solar generation, the same over the hours of
  non-negative price, the baseload price and the capture rate. \<^verbatim>\<open>main\<close> loads the table,
  stops with a message when it is absent, and otherwise shows the two tables, a yearly
  overview computed inline with the formulas of the capture prices, and scatter charts of
  the months that the user selects with the widgets of the page. Streamlit runs the
  script again from its first line whenever a widget changes; the loaded table is kept
  between the runs by the decorator \<^verbatim>\<open>st.cache_data\<close>.

  \<^bold>\<open>The theories.\<close>

  \<^item> \<open>Energy_Prelude\<close>: the collection \<open>frame_defs\<close> of the definitions that evaluate the
    model on a concrete table, the key types, facts about sums, means, multisets and
    sorting of lists that the components share, and the two ways statements are chained:
    \<open>then_sum\<close> for statements that may raise, \<open>then_out\<close> for statements that also draw.
  \<^item> \<open>Float_Values\<close>: a cell of a float column, \<open>fval\<close>, with the arithmetic, comparisons
    and reductions that the script applies to columns (\<open>fadd\<close>, \<open>fsub\<close>, \<open>fmul\<close>, \<open>fdiv\<close>,
    \<open>flt\<close>, \<open>fgt\<close>, \<open>fge\<close>, \<open>nansum\<close>, \<open>nanmean\<close>, \<open>sort_values\<close>).
  \<^item> \<open>Frame\<close>: tables as lists of rows and the table operations the script calls:
    \<open>groupby\<close>, \<open>agg\<close>, \<open>merge_inner\<close>, \<open>merge_left\<close>, and the alignment of series on the
    union of their indices (\<open>union_index\<close>, \<open>at_label\<close>).
  \<^item> \<open>Loader\<close>: the rows of the file and of the loaded table (\<open>csv_row\<close>, \<open>hourly\<close>) and
    \<open>load_data\<close> (lines 14 to 23) over a file system given as a map from paths to contents.
  \<^item> \<open>Market_Spec\<close>: the reference computation of sections 4.2 and 4.3 of the
    specification over real numbers, and the abstraction \<open>cell\<close> from a float cell to an
    optional real.
  \<^item> \<open>Monthly_Stats\<close>: \<open>calculate_monthly_stats\<close> (lines 25 to 52) with its inner functions
    \<open>daily_spread\<close> and \<open>monthly_agg\<close>.
  \<^item> \<open>Capture_Prices\<close>: \<open>calculate_capture_prices\<close> (lines 54 to 80) and the yearly overview
    of \<^verbatim>\<open>main\<close> (\<open>y_grp\<close>, \<open>y_pos_grp\<close>, \<open>yearly_overview\<close>, lines 121 to 137).
  \<^item> \<open>Formats\<close>: the format strings of the displayed tables (lines 107 to 113, 139 to 144,
    147 to 152) and the text of a year in a label: \<open>format_fixed\<close> with \<open>round_half_even\<close>
    and \<open>digits\<close>, \<open>format_eur\<close>, \<open>format_count\<close>, \<open>format_pct\<close>, \<open>show_int\<close>; and a reader
    of decimal numbers, \<open>read_fixed\<close>, that the properties of the formats are stated with.
    \<open>digits\<close> is the one loop of the model; the theory ends with its termination.
  \<^item> \<open>Views\<close>: what the tabs show as functions of the table and of the values of the
    widgets: \<open>show_df\<close> (tab 1, lines 101 and 102), the formatted rows \<open>style_stats\<close>,
    \<open>style_yearly\<close>, \<open>style_details\<close>, \<open>scatter_view\<close> (lines 162 to 176), \<open>compare_view\<close> with
    the labels \<open>label_text\<close> (lines 189 to 203), the encodings \<open>scatter_chart\<close> and
    \<open>comparison_chart\<close> of the two charts, and the constants of \<^verbatim>\<open>calendar\<close>.
  \<^item> \<open>Widgets\<close>: \<open>selectbox\<close> and \<open>multiselect\<close> (lines 99, 159, 160, 183 to 187) over
    the state \<open>user_input\<close> of the browser, and the options \<open>tab3_years\<close> of the year
    selectors (line 157).
  \<^item> \<open>Dashboard\<close>: the script \<^verbatim>\<open>main\<close> (lines 82 to 203) as the function \<open>main\<close> from the file
    system, the state of the widgets and the cache to the screen and the new cache:
    \<open>cached_load_data\<close> (the decorator of line 14) and \<open>page\<close>, the statements after the
    load in their order; sessions as sequences of runs (\<open>session\<close>) and the caches they
    can reach (\<open>reachable\<close>). \<open>render\<close> and \<open>widget_values\<close> are the reference that \<open>page\<close>
    is compared with: the screen as a function of the values of the widgets; \<open>load_once\<close>
    is the reference that \<open>session\<close> is compared with: the screens of a session, written
    without a cache.
  \<^item> \<open>Layout\<close>: a run of the whole file as the list of the elements it hands to Streamlit,
    in the order of the calls: \<open>script\<close> (the page configuration of line 12, then the call
    of line 206), \<open>draw_main\<close> (lines 82 to 91: title, markdown, load, message for an absent
    file) and \<open>draw_page\<close> (lines 91 to 203: the tab bar and the three tabs with their
    headers, widgets, tables, columns, charts and the divider). An \<open>element\<close> carries the
    texts and flags of its call, a widget its label, key, options and returned value, and
    every element the container it is drawn in (\<open>place\<close>).
  \<^item> \<open>Page_Rules\<close>: the rules of Streamlit on the calls of a run (the page configuration
    first and once, containers before their elements, no two widgets with the same label
    or key) as a checker \<open>accepts\<close> that reads a page element by element. The checker is
    not part of the program; the property is that it accepts every page of the script.
  \<^item> This theory: the properties that rest on the loader, the aggregators, the formats
    and the script together.

  \<^bold>\<open>Correspondence with the code.\<close> A pandas table is a list of records, one per row, in
  the order of the table; a column is a field of the record. The records are extensible:
  \<open>hourly\<close> extends \<open>csv_row\<close> by the columns the loader adds, \<open>hourly_rev\<close> extends
  \<open>hourly\<close> by \<^verbatim>\<open>solar_revenue\<close>, and the aggregators accept every extension of \<open>hourly\<close>.
  A missing timestamp (\<^verbatim>\<open>NaT\<close>) and the missing columns derived from it are \<open>None\<close>. A
  float cell is \<open>Fin a\<close> for a real \<open>a\<close>, \<open>PInf\<close>, \<open>NInf\<close> or \<open>NaN\<close>. The result of a
  \<^verbatim>\<open>groupby\<close> is the list of the groups in ascending order of their keys, rows with a
  missing key dropped; the result tables are lists of pairs of a key and the computed
  columns. An exception is a value \<open>Inl e\<close> of the result, and statements that may raise
  are chained with \<open>then_sum\<close>; the \<^verbatim>\<open>None\<close> of a short day in \<^verbatim>\<open>daily_spread\<close> and of an
  absent file in \<^verbatim>\<open>load_data\<close> is \<open>None\<close>. The state of a widget is the position of the
  chosen option, \<open>None\<close> while the widget is untouched. A displayed table is the list of
  its rows with the formatted cells as strings; a chart is its encoding together with the
  list of rows passed to it. The script is modelled twice, once as the values it computes
  (\<open>page\<close>, \<open>main\<close>: the tables and charts of a run, or its exception) and once as the calls
  it makes (\<open>draw_page\<close>, \<open>draw_main\<close>, \<open>script\<close>: the elements of the page in the order they
  are drawn, followed by the exception if one is raised); the second is the first with
  every call of Streamlit written out, and \<open>draw_page_refines\<close> and \<open>script_page\<close> relate the
  two. In \<open>draw_main\<close> the load is evaluated first and its exception takes effect after
  the title and the markdown, as in the script, where the load follows them.

  \<^bold>\<open>What is proved.\<close>

  \<^item> Refinement: on tables whose cells are finite, each column of the two monthly tables
    and of the yearly overview, read through \<open>cell\<close>, is the quantity that the
    specification defines for the rows of that month or year
    (\<open>calculate_monthly_stats_refines\<close>, \<open>calculate_capture_prices_refines\<close>,
    \<open>yearly_overview_refines\<close>; for a single day the lemma \<open>daily_spread_refines\<close>).
  \<^item> Structure of the tables, for every input: the pipelines of groupings, filters and
    merges produce one row per month or year of the data, in ascending order, computed from
    the rows of that group alone (\<open>calculate_capture_prices_rows\<close>, \<open>yearly_overview_rows\<close>,
    \<open>calculate_monthly_stats_row\<close>, \<open>calculate_monthly_stats_keys\<close>).
  \<^item> The daily spread: its value, that it is never negative, that it depends on the
    multiset of prices only, and that a day of fewer than eight rows is left out of the
    monthly average (\<open>daily_spread_finite\<close>, \<open>daily_spread_nonneg\<close>, \<open>daily_spread_mset\<close>,
    \<open>monthly_spread_full_days\<close>).
  \<^item> Undefined cells and bounds: the conditional averages are \<open>NaN\<close> exactly for an empty
    selection; averages and capture prices lie between the extreme hourly prices; the
    capture price is at most the capture price of the hours of non-negative price
    (\<open>avg_price_res_undefined\<close>, the lemma \<open>avg_price_bounds\<close>, \<open>pv_price_bounds\<close>,
    \<open>pv_price_le_pv_price_pos\<close>); the capture rate is 1 exactly for equal finite prices
    other than zero (\<open>capture_rate_one\<close>).
  \<^item> The loader: when it returns a table, the absent value or an exception, what the table
    is, and that its derived columns agree with the timestamps (\<open>load_data_success\<close>,
    \<open>load_data_raises\<close>, \<open>load_data_wf\<close>).
  \<^item> Years and months: the yearly capture price is the quotient of the sums of the
    monthly sums, not the mean of the monthly prices (\<open>yearly_pv_price_of_months\<close>).
  \<^item> The views: the charts draw exactly the rows that the tables aggregate under the
    selected month (\<open>scatter_view_month\<close>, \<open>compare_view_rows\<close>), and different selections
    have different labels (the lemma \<open>label_text_inj\<close>).
  \<^item> The formats: a formatted number reads back as a decimal number within half a unit of
    its last digit, so the capture price and the capture rate that the second tab shows
    for a month are the quantities of the specification up to that rounding
    (\<open>displayed_prices_accurate\<close>); the loop that writes the digits of a number ends, after
    at most as many rounds as the number has digits (\<open>digits_terminates\<close>).
  \<^item> The widgets and the page: a widget returns options only and raises only for a
    default outside its options (\<open>widgets_typed\<close>); in the script no widget raises and the
    page is the function \<open>render\<close> of the values of the widgets (\<open>page_render\<close>); every
    month of the table can be selected and is then drawn (\<open>every_month_selectable\<close>); the
    screen of untouched widgets (\<open>default_screen\<close>); the options of the year selectors
    for a table with a missing timestamp (\<open>missing_year_options\<close>).
  \<^item> The page as it is drawn: the elements of the tabs are the list \<open>layout\<close> of the
    tables and charts that \<open>page\<close> computes, each widget drawn with the value that the
    later statements use, and a page that raises keeps what was drawn before
    (\<open>draw_page_refines\<close>); a run of the file returns, raises and leaves the cache as \<open>main\<close>
    does, and its page is, by the outcome of the run: the page configuration, the title
    and the markdown alone when the load raises, followed by the message when the file is
    absent, by the layout of the tabs when they are shown, and by the start of the first
    tab when the month names raise (\<open>script_page\<close>); every such page follows the
    calling rules of Streamlit (\<open>script_accepted\<close>), so the exceptions of these rules,
    which the model of the script does not raise, cannot occur.
  \<^item> Sessions: a cached table always comes from the loader, by induction over
    \<open>reachable\<close> (\<open>reachable_table\<close>); the script raises no exception of its own, whatever the
    state of the widgets (\<open>main_no_ui_error\<close>); the tables of a screen have the same
    months and years (\<open>tabs_consistent\<close>); the cache implements the specification
    \<open>load_once\<close> of a session without a cache, in which the first value that the loader
    returns decides every later screen (\<open>session_load_once\<close>), so an absent file stays
    absent and a loaded table stays as it is (\<open>session_absent\<close>, \<open>session_frozen\<close>), and
    a run on the same file with the same widgets repeats the screen of the run before
    (\<open>main_idempotent\<close>, the round trip of section 8 of the specification).
  \<^item> Cells on which the code and the specification differ: the capture rate of a month
    with baseload price zero (\<open>capture_rate_zero_baseload\<close>) and the capture price of a
    month with a missing price (\<open>pv_price_missing_price\<close>).

  \<^bold>\<open>Assumptions of the model.\<close> Float arithmetic is exact: \<open>Fin\<close> holds a real number, so
  rounding and overflow to infinity are not modelled, and there is no negative zero (a
  quotient by zero takes the sign of the dividend). Infinities arise from division by zero
  and from infinite input cells only. The three numeric columns are assumed present in a
  readable file; \<^verbatim>\<open>pd.read_csv\<close> and \<^verbatim>\<open>pd.to_datetime\<close> are parameters of the model (the
  content of the file as a list of rows, and a function \<open>parse\<close> from the text of a cell to
  a timestamp), and \<open>parser_ok\<close> is the only property assumed of the parser, where one is
  needed. The abstraction \<open>cell\<close> maps \<open>NaN\<close> and both infinities to an undefined value;
  \<open>capture_rate_zero_baseload\<close> shows cells where this matters. The formats round the
  exact real: a value that lies exactly between two decimals is rounded to the even digit,
  where Python rounds the nearest binary float. No definition uses fuel: every operation
  is a total function on finite lists, and the one recursion that is not structural,
  \<open>digits\<close>, has its termination proof by the size of the number; \<open>digits_terminates\<close>
  states it for the domain of the function and bounds the number of rounds.

  \<^bold>\<open>Assumptions on the libraries.\<close> pandas, Streamlit and \<^verbatim>\<open>calendar\<close> are not part of
  the repository; the model gives their operations the documented behaviour. All
  computed columns are float columns: when every group of a \<^verbatim>\<open>groupby\<close> with \<^verbatim>\<open>apply\<close> returns
  \<^verbatim>\<open>None\<close>, or the table has no row at all, pandas builds a result of another type, and that
  case is outside the model (here the column is a column of \<open>NaN\<close>, the table empty). The
  month names are those of the C locale. \<^verbatim>\<open>st.cache_data\<close> stores every return value,
  \<^verbatim>\<open>None\<close> included, and no exception; the cache is not cleared during a session. A
  selector returns the option at the chosen position, its default when it is untouched,
  and \<^verbatim>\<open>None\<close> when it has no option; it raises when it has options and the default
  position is not one of theirs; the multiple selector raises when a default is not an
  option. \<^verbatim>\<open>sorted\<close> on integers is the ascending order; on floats with a \<^verbatim>\<open>nan\<close> it is
  the parameter \<open>srt\<close>, of which \<open>sorted_ok\<close> (the result is a permutation) is assumed
  where it is needed. The text of a numpy integer or float in an f-string is that of the
  Python number (\<^verbatim>\<open>2024\<close>, \<^verbatim>\<open>2024.0\<close>, \<^verbatim>\<open>nan\<close>). Streamlit raises when \<^verbatim>\<open>st.set_page_config\<close>
  is not the first of its calls in a run or is called twice, and when two widgets of a
  run have the same identity; the checker \<open>accepts\<close> asks for different labels and
  different keys, which is more than Streamlit asks for.

  \<^bold>\<open>Not modelled.\<close> The imports (lines 2 to 7). What the browser paints for an element:
  an element of the model is the call with its arguments, so the width of a table, the
  zoom of an interactive chart and the colours of a theme are the flags and encodings
  passed, not pixels. The box that Streamlit shows in place of the rest of the page when
  an exception leaves the script: the model ends the page with the last element drawn
  and returns the exception. Exceptions of pandas on a table that lacks a numeric column
  or has no row (see the assumptions above). Clearing the cache from the menu of
  Streamlit. The text of the CSV file: the model starts from the rows that \<^verbatim>\<open>pd.read_csv\<close>
  returns.
\<close>

section \<open>Tables that a session works on\<close>



lemma map_sum_Tabs_iff [simp]: "map_sum Ui Tabs r = Inr (Tabs t) \<longleftrightarrow> r = Inr t"
  by (cases r) simp_all



section \<open>Agreement of the tables of a screen\<close>

text \<open>
  C8: on every screen with tabs that a session shows, the two monthly tables and the
  yearly overview are computed from the table in the cache and shown in the formats of
  the script, the monthly statistics have the same months in the same order as the
  monthly capture prices, and the years of the yearly overview are the years of these
  months.
\<close>

theorem tabs_consistent:
  assumes "reachable parse c" and "fst (main parse srt fs u c) = Inr (Tabs t)"
  shows "\<exists>df. snd (main parse srt fs u c) = Some (Some df)
       \<and> monthly_details t = map (\<lambda>(k, r). (k, style_details r)) (calculate_capture_prices df)
       \<and> yearly_table t = map (\<lambda>(k, r). (k, style_yearly r)) (yearly_overview df)
       \<and> (\<exists>rows. show_df (calculate_monthly_stats df) (w_selected_years (widget_values srt df u)) = Inr rows
            \<and> monthly_statistics t = map style_stats rows)
       \<and> map fst (calculate_monthly_stats df) = map fst (monthly_details t)
       \<and> map fst (yearly_table t) = remdups (map fst (map fst (monthly_details t)))"
proof -
  from main_cases [of parse srt fs u c] assms(2) obtain df
    where m: "main parse srt fs u c = (map_sum Ui Tabs (page srt df u), Some (Some df))"
      and r: "render df (widget_values srt df u) = Inr t"
    by (auto simp: page_eq_render)
  with reachable.rerun [OF assms(1), of srt fs u] have "reachable parse (Some (Some df))"
    by simp
  then have wf: "wf_frame df"
    using reachable_loaded load_data_wf_frame by blast
  from render_tabs(1-3) [OF r] m show ?thesis
    by (simp add: keys_calculate_monthly_stats [OF wf] keys_calculate_capture_prices
        keys_yearly_overview year_keys_of_ym_keys [OF wf])
qed

theorem tabs_consistent_witness:
  "\<exists>t. fst (main example_parse example_sorted example_fs example_input None) = Inr (Tabs t)
     \<and> map fst (monthly_details t) = [(2024, 1)] \<and> map fst (yearly_table t) = [2024]"
proof -
  from page_total [OF loaded_valid [OF load_example parser_ok_example], of example_sorted example_input]
  obtain t where "page example_sorted example_table example_input = Inr t" ..
  then have t: "fst (main example_parse example_sorted example_fs example_input None) = Inr (Tabs t)"
    by (simp add: main_None load_example)
  have keys: "map fst (calculate_capture_prices example_table) = [(2024, 1)]"
    unfolding keys_calculate_capture_prices by (simp add: example_table_def frame_defs)
  then have years: "map (fst \<circ> fst) (calculate_capture_prices example_table) = [2024]"
    by (simp flip: map_map)
  from tabs_consistent [OF reachable.start t] t show ?thesis
    by (auto simp: main_None load_example keys years)
qed

section \<open>Numbers on the screen\<close>

lemma cell_Some_iff: "cell v = Some a \<longleftrightarrow> v = Fin a"
  by (cases v) simp_all

text \<open>
  C18: what the second tab shows for a month is the quantity of the specification up to
  the rounding of the format: on a table with finite cells, the text in the column of the
  capture price of a month reads as a number within half a cent of the capture price that
  section 4.3 of the specification defines for the rows of the month, and the text in the
  column of the capture rate as a percentage within a twentieth of a point of a hundred
  times the capture rate.
\<close>

theorem displayed_prices_accurate:
  assumes "finite_frame df" and "page srt df u = Inr t" and "ym \<in> set (group_keys ym_key df)"
    and "spec_pv_price (group_rows ym_key ym df) = Some p"
    and "spec_capture_rate (group_rows ym_key ym df) = Some q"
  shows "\<exists>row s v s' v'. map_of (monthly_details t) ym = Some row
           \<and> st_pv_price row = s @ euro \<and> read_fixed s = Some v \<and> \<bar>v - p\<bar> \<le> 1 / 200
           \<and> st_capture_rate row = s' @ ''%'' \<and> read_fixed s' = Some v' \<and> \<bar>v' - 100 * q\<bar> \<le> 1 / 20"
proof -
  let ?c = "group_capture (map with_solar_revenue (group_rows ym_key ym df))"
  have "finite_frame (group_rows ym_key ym df)"
    unfolding group_rows_def using assms(1) by (rule finite_frame_filter)
  from group_capture_cells(1,4) [OF this] assms(4,5)
  have cells: "pv_price ?c = Fin p" "capture_rate ?c = Fin q"
    by (simp_all add: cell_Some_iff)
  from assms(2) have "render df (widget_values srt df u) = Inr t"
    by (simp only: page_eq_render)
  from render_tabs(2) [OF this] assms(3)
  have "map_of (monthly_details t) ym = Some (style_details ?c)"
    by (simp add: map_of_map map_of_calculate_capture_prices)
  moreover have "st_pv_price (style_details ?c) = format_eur (Fin p)"
    "st_capture_rate (style_details ?c) = format_pct (Fin q)"
    unfolding style_details_def cells by simp_all
  ultimately show ?thesis
    using format_eur_accurate [of p] format_pct_accurate [of q] by auto
qed

theorem displayed_prices_accurate_witness:
  "\<exists>t row. page example_sorted example_year no_input = Inr t
     \<and> map_of (monthly_details t) (2025, 2) = Some row
     \<and> st_pv_price row = ''4.00'' @ euro \<and> st_capture_rate row = ''100.0%''"
proof -
  have fin: "finite_frame example_year" "list_all valid_row example_year"
    "(2025, 2) \<in> set (group_keys ym_key example_year)"
    by (simp_all add: frame_defs)
  from page_total [OF fin(2), of example_sorted no_input] obtain t
    where t: "page example_sorted example_year no_input = Inr t" ..
  have spec: "spec_pv_price (group_rows ym_key (2025, 2) example_year) = Some 4"
    "spec_capture_rate (group_rows ym_key (2025, 2) example_year) = Some 1"
    by (simp_all add: frame_defs)
  have row: "map_of (monthly_details t) (2025, 2)
      = Some (style_details (group_capture (map with_solar_revenue (group_rows ym_key (2025, 2) example_year))))"
    using render_tabs(2) [of example_year "widget_values example_sorted example_year no_input" t] t fin(3)
    by (simp add: page_eq_render map_of_map map_of_calculate_capture_prices)
  from displayed_prices_accurate [OF fin(1) t fin(3) spec] t row show ?thesis
    by (simp add: frame_defs Let_def digits.simps)
qed

end
